theory Spec2Isabelle
  imports Main "HOL-Library.Word" "HOL-Library.Monad_Syntax"
begin

unbundle bit_operations_syntax

section \<open>USB Audio Class 1.0 device driver (subsys/usb/class/audio/audio.c)\<close>

text \<open>
  The driver works on packed descriptor structures through pointer arithmetic. A
  descriptor table is modelled as a list of bytes and a pointer into it as an index;
  every access is bounds checked, and an access outside the table (undefined in C) is
  the value \<open>None\<close>, as is the dereference of a NULL pointer. Multi-byte fields are
  little endian: the table is initialised with \<open>sys_cpu_to_le16\<close> and read back with
  plain 16-bit loads, so the driver itself assumes a little-endian CPU.
\<close>

type_synonym u8 = "8 word"
type_synonym u16 = "16 word"
type_synonym u32 = "32 word"

subsection \<open>Byte-addressed descriptor memory\<close>

definition rd8 :: "u8 list \<Rightarrow> nat \<Rightarrow> u8 option" where
  "rd8 m a = (if a < length m then Some (m ! a) else None)"

definition wr8 :: "u8 list \<Rightarrow> nat \<Rightarrow> u8 \<Rightarrow> u8 list option" where
  "wr8 m a v = (if a < length m then Some (m[a := v]) else None)"

definition le16 :: "u8 \<Rightarrow> u8 \<Rightarrow> u16" where
  "le16 lo hi = (ucast lo) OR push_bit 8 (ucast hi)"

definition rd16 :: "u8 list \<Rightarrow> nat \<Rightarrow> u16 option" where
  "rd16 m a = do { lo \<leftarrow> rd8 m a; hi \<leftarrow> rd8 m (a + 1); Some (le16 lo hi) }"

definition wr16 :: "u8 list \<Rightarrow> nat \<Rightarrow> u16 \<Rightarrow> u8 list option" where
  "wr16 m a v = do { m1 \<leftarrow> wr8 m a (ucast v); wr8 m1 (a + 1) (ucast (drop_bit 8 v)) }"

subsection \<open>Sizes and field offsets of the packed descriptor structures\<close>

text \<open>
  \<open>struct usb_if_descriptor\<close> and \<open>struct usb_ep_descriptor\<close> are declared by the USB
  device stack (usb/usbstruct.h), outside this driver. They are the standard interface
  and endpoint descriptors of USB 2.0, Tables 9-12 and 9-13: the interface descriptor
  is 9 bytes with bLength at 0, bInterfaceNumber at 2 and bAlternateSetting at 3; the
  endpoint descriptor has bEndpointAddress at 2. The other sizes are those of the
  packed structures of usb_audio_internal.h.
\<close>

definition USB_PASSIVE_IF_DESC_SIZE :: nat where "USB_PASSIVE_IF_DESC_SIZE = 9"
definition USB_AC_CS_IF_DESC_SIZE :: nat where "USB_AC_CS_IF_DESC_SIZE = 7"
definition USB_FORMAT_TYPE_I_DESC_SIZE :: nat where "USB_FORMAT_TYPE_I_DESC_SIZE = 11"
definition USB_STD_AS_AD_EP_DESC_SIZE :: nat where "USB_STD_AS_AD_EP_DESC_SIZE = 9"
definition USB_CS_AS_AD_EP_DESC_SIZE :: nat where "USB_CS_AS_AD_EP_DESC_SIZE = 7"
definition USB_ACTIVE_IF_DESC_SIZE :: nat where
  "USB_ACTIVE_IF_DESC_SIZE = USB_PASSIVE_IF_DESC_SIZE + USB_AC_CS_IF_DESC_SIZE +
     USB_FORMAT_TYPE_I_DESC_SIZE + USB_STD_AS_AD_EP_DESC_SIZE + USB_CS_AS_AD_EP_DESC_SIZE"
definition INPUT_TERMINAL_DESC_SIZE :: nat where "INPUT_TERMINAL_DESC_SIZE = 12"
definition OUTPUT_TERMINAL_DESC_SIZE :: nat where "OUTPUT_TERMINAL_DESC_SIZE = 9"
definition BMA_CONTROLS_OFFSET :: nat where "BMA_CONTROLS_OFFSET = 6"
definition FU_FIXED_ELEMS_SIZE :: u32 where "FU_FIXED_ELEMS_SIZE = 7"

text \<open>Field offsets, named after the structure members.\<close>

definition off_bLength :: nat where "off_bLength = 0"
definition off_bDescriptorType :: nat where "off_bDescriptorType = 1"
definition off_bDescriptorSubtype :: nat where "off_bDescriptorSubtype = 2"
definition off_bEntityID :: nat where "off_bEntityID = 3"
definition off_bInterfaceNumber :: nat where "off_bInterfaceNumber = 2"
definition off_bAlternateSetting :: nat where "off_bAlternateSetting = 3"
definition off_bEndpointAddress :: nat where "off_bEndpointAddress = 2"
definition off_wTotalLength :: nat where "off_wTotalLength = 5"
definition off_bInCollection :: nat where "off_bInCollection = 7"
definition off_baInterfaceNr :: nat where "off_baInterfaceNr = 8"
definition off_bUnitID :: nat where "off_bUnitID = 3"
definition off_bmaControls :: nat where "off_bmaControls = 6"
definition off_wTerminalType :: nat where "off_wTerminalType = 4"

subsection \<open>Enumerations of usb_audio_internal.h and usb_audio.h\<close>

definition HEADER :: u8 where "HEADER = 0x01"
definition INPUT_TERMINAL :: u8 where "INPUT_TERMINAL = 0x02"
definition OUTPUT_TERMINAL :: u8 where "OUTPUT_TERMINAL = 0x03"
definition FEATURE_UNIT :: u8 where "FEATURE_UNIT = 0x06"
definition AS_GENERAL :: u8 where "AS_GENERAL = 0x01"
definition FORMAT_TYPE :: u8 where "FORMAT_TYPE = 0x02"
definition AUDIOCONTROL :: u8 where "AUDIOCONTROL = 0x01"
definition AUDIOSTREAMING :: u8 where "AUDIOSTREAMING = 0x02"

definition SET_CUR :: u8 where "SET_CUR = 0x01"
definition GET_CUR :: u8 where "GET_CUR = 0x81"

definition USB_STREAMING :: u16 where "USB_STREAMING = 0x0101"
definition IN_MICROPHONE :: u16 where "IN_MICROPHONE = 0x0201"
definition OUT_HEADPHONES :: u16 where "OUT_HEADPHONES = 0x0302"
definition IO_HEADSET :: u16 where "IO_HEADSET = 0x0402"

definition MUTE_CONTROL :: u8 where "MUTE_CONTROL = 0x01"
definition VOLUME_CONTROL :: u8 where "VOLUME_CONTROL = 0x02"

datatype direction = IN | OUT

text \<open>
  Constants of the USB device stack and of errno.h, which are not part of the driver:
  descriptor type codes of USB 2.0 and Audio 1.0, and the errno numbers of the C
  library.
\<close>

definition USB_INTERFACE_DESC :: u8 where "USB_INTERFACE_DESC = 0x04"
definition USB_ENDPOINT_DESC :: u8 where "USB_ENDPOINT_DESC = 0x05"
definition USB_CS_INTERFACE_DESC :: u8 where "USB_CS_INTERFACE_DESC = 0x24"
definition USB_CS_ENDPOINT_DESC :: u8 where "USB_CS_ENDPOINT_DESC = 0x25"
definition AUDIO_CLASS :: u8 where "AUDIO_CLASS = 0x01"
definition USB_DC_EP_ISOCHRONOUS :: u8 where "USB_DC_EP_ISOCHRONOUS = 0x01"
definition AUDIO_EP_SIZE :: u16 where "AUDIO_EP_SIZE = 192"

definition EINVAL :: int where "EINVAL = 22"
definition EAGAIN :: int where "EAGAIN = 11"
definition ENODEV :: int where "ENODEV = 19"

subsection \<open>Driver data\<close>

record controls =
  mute :: u8
  volume :: u16
  tone_control :: "u8 list"
  graphic_equalizer :: u8
  automatic_gain_control :: u8
  delay :: u16
  bass_boost :: u8
  loudness :: u8

text \<open>
  \<open>struct audio_ops\<close> holds four function pointers into the application. The model
  records which of them are registered (non-NULL); a call through one of them is an
  event of the trace.
\<close>

record audio_ops =
  data_request_cb :: bool
  data_written_cb :: bool
  data_received_cb :: bool
  feature_update_cb :: bool

text \<open>
  \<open>struct usb_audio_dev_data_t\<close>. \<open>ops\<close> and the two \<open>controls\<close> pointers may be
  NULL (\<open>None\<close>); \<open>header_descr\<close> points into the descriptor table.
\<close>

record usb_audio_dev_data_t =
  ops :: "audio_ops option"
  controls :: "controls list option list"
  header_descr :: nat
  rx_enable :: bool
  tx_enable :: bool

record net_buf =
  buf_id :: nat
  buf_size :: u16
  buf_data :: "u8 list"

record usb_ep_cfg_data =
  ep_addr :: u8

record usb_cfg_data =
  num_endpoints :: u8
  endpoint :: "usb_ep_cfg_data list"

text \<open>
  Calls that leave the driver: into the transport (\<open>usb_transfer\<close>, \<open>usb_read\<close>), the
  buffer pool (\<open>net_buf_alloc\<close>, \<open>net_buf_unref\<close>) and the application's callbacks.
\<close>

datatype event =
    Usb_transfer_write u8 "u8 list" int net_buf
  | Usb_read u8 net_buf
  | Net_buf_alloc
  | Net_buf_unref net_buf
  | Data_request_cb
  | Data_written_cb int
  | Data_received_cb net_buf int
  | Feature_update_cb direction u8 u8 u8

text \<open>
  The state of the driver for one audio function: its device data, whether
  \<open>usb_audio_register\<close> has put it on \<open>usb_audio_data_devlist\<close>, the calls made so
  far, and the function-static array \<open>static u8_t tmp_data_ptr[3]\<close> of
  \<open>handle_feature_unit_req\<close>. A store past the end of that array does not stop the C
  program: it lands in whatever the linker placed behind the array. The model keeps
  the three bytes of the array in \<open>tmp_data_ptr\<close> and lists every store that fell
  outside it, with its index and value, in \<open>tmp_overrun\<close>.
\<close>

record audio_state =
  dev_data :: usb_audio_dev_data_t
  trace :: "event list"
  tmp_data_ptr :: "u8 list"
  tmp_overrun :: "(nat \<times> u8) list"
  registered :: bool

definition emit :: "event \<Rightarrow> audio_state \<Rightarrow> audio_state" where
  "emit e s = s\<lparr>trace := trace s @ [e]\<rparr>"

subsection \<open>Devicetree properties and the statically initialised descriptors\<close>

text \<open>
  The descriptor of each audio function is a packed structure, declared by
  \<open>DECLARE_DESCRIPTOR\<close> or \<open>DECLARE_DESCRIPTOR_BIDIR\<close> and initialised by
  \<open>DEFINE_AUDIO_DESCRIPTOR\<close> or \<open>DEFINE_AUDIO_DESCRIPTOR_BIDIR\<close> from the properties
  of the devicetree instance (the \<open>DT_INST_i_USB_AUDIO_dev_...\<close> symbols). The record
  below holds those properties; the functions named after the \<open>INIT_\<close> macros give
  the bytes of each member, in declaration order.
\<close>

record dt_inst =
  FEATURE_MUTE :: bool
  FEATURE_VOLUME :: bool
  FEATURE_TONE_CONTROL :: bool
  FEATURE_GRAPHIC_EQUALIZER :: bool
  FEATURE_AUTOMATIC_GAIN_CONTROL :: bool
  FEATURE_DELAY :: bool
  FEATURE_BASS_BOOST :: bool
  FEATURE_LOUDNESS :: bool
  CHANNEL_L :: bool
  CHANNEL_R :: bool
  CHANNEL_C :: bool
  CHANNEL_LFE :: bool
  CHANNEL_LS :: bool
  CHANNEL_RS :: bool
  CHANNEL_LC :: bool
  CHANNEL_RC :: bool
  CHANNEL_S :: bool
  CHANNEL_SL :: bool
  CHANNEL_SR :: bool
  CHANNEL_T :: bool

definition COND_CODE_1 :: "bool \<Rightarrow> 'a \<Rightarrow> 'a \<Rightarrow> 'a" where
  "COND_CODE_1 flag a b = (if flag then a else b)"

definition BIT16 :: "nat \<Rightarrow> u16" where
  "BIT16 n = push_bit n 1"

definition FEATURES :: "dt_inst \<Rightarrow> u16" where
  "FEATURES p = 0x0000
     OR COND_CODE_1 (FEATURE_MUTE p) (BIT16 0) 0
     OR COND_CODE_1 (FEATURE_VOLUME p) (BIT16 1) 0
     OR COND_CODE_1 (FEATURE_TONE_CONTROL p) (BIT16 2 OR BIT16 3 OR BIT16 4) 0
     OR COND_CODE_1 (FEATURE_GRAPHIC_EQUALIZER p) (BIT16 5) 0
     OR COND_CODE_1 (FEATURE_AUTOMATIC_GAIN_CONTROL p) (BIT16 6) 0
     OR COND_CODE_1 (FEATURE_DELAY p) (BIT16 7) 0
     OR COND_CODE_1 (FEATURE_BASS_BOOST p) (BIT16 8) 0
     OR COND_CODE_1 (FEATURE_LOUDNESS p) (BIT16 9) 0"

definition CH_CFG :: "dt_inst \<Rightarrow> u16" where
  "CH_CFG p = 0x0000
     OR COND_CODE_1 (CHANNEL_L p) (BIT16 0) 0
     OR COND_CODE_1 (CHANNEL_R p) (BIT16 1) 0
     OR COND_CODE_1 (CHANNEL_C p) (BIT16 2) 0
     OR COND_CODE_1 (CHANNEL_LFE p) (BIT16 3) 0
     OR COND_CODE_1 (CHANNEL_LS p) (BIT16 4) 0
     OR COND_CODE_1 (CHANNEL_RS p) (BIT16 5) 0
     OR COND_CODE_1 (CHANNEL_LC p) (BIT16 6) 0
     OR COND_CODE_1 (CHANNEL_RC p) (BIT16 7) 0
     OR COND_CODE_1 (CHANNEL_S p) (BIT16 8) 0
     OR COND_CODE_1 (CHANNEL_SL p) (BIT16 9) 0
     OR COND_CODE_1 (CHANNEL_SR p) (BIT16 10) 0
     OR COND_CODE_1 (CHANNEL_T p) (BIT16 11) 0"

definition CH_CNT :: "dt_inst \<Rightarrow> nat" where
  "CH_CNT p = 0
     + COND_CODE_1 (CHANNEL_L p) 1 0
     + COND_CODE_1 (CHANNEL_R p) 1 0
     + COND_CODE_1 (CHANNEL_C p) 1 0
     + COND_CODE_1 (CHANNEL_LFE p) 1 0
     + COND_CODE_1 (CHANNEL_LS p) 1 0
     + COND_CODE_1 (CHANNEL_RS p) 1 0
     + COND_CODE_1 (CHANNEL_LC p) 1 0
     + COND_CODE_1 (CHANNEL_RC p) 1 0
     + COND_CODE_1 (CHANNEL_S p) 1 0
     + COND_CODE_1 (CHANNEL_SL p) 1 0
     + COND_CODE_1 (CHANNEL_SR p) 1 0
     + COND_CODE_1 (CHANNEL_T p) 1 0"

text \<open>\<open>sys_cpu_to_le16\<close>: the two bytes of a 16-bit field, low byte first.\<close>

definition sys_cpu_to_le16 :: "u16 \<Rightarrow> u8 list" where
  "sys_cpu_to_le16 v = [ucast v, ucast (drop_bit 8 v)]"

text \<open>Sizes of the structures declared per instance.\<close>

definition sizeof_header :: "nat \<Rightarrow> nat" where
  "sizeof_header ifaces = 8 + ifaces"

definition sizeof_feature_unit :: "dt_inst \<Rightarrow> nat" where
  "sizeof_feature_unit p = 6 + 2 * (CH_CNT p + 1) + 1"

definition INIT_STD_IF :: "u8 \<Rightarrow> u8 \<Rightarrow> u8 \<Rightarrow> u8 \<Rightarrow> u8 list" where
  "INIT_STD_IF iface_subclass iface_num alt_setting eps_num =
     [of_nat USB_PASSIVE_IF_DESC_SIZE, USB_INTERFACE_DESC, iface_num, alt_setting, eps_num,
      AUDIO_CLASS, iface_subclass, 0, 0]"

definition INIT_CS_AC_IF_HEADER :: "dt_inst \<Rightarrow> nat \<Rightarrow> u8 list" where
  "INIT_CS_AC_IF_HEADER p ifaces =
     [of_nat (sizeof_header ifaces), USB_CS_INTERFACE_DESC, HEADER]
     @ sys_cpu_to_le16 0x0100
     @ sys_cpu_to_le16 (of_nat (sizeof_header ifaces + INPUT_TERMINAL_DESC_SIZE +
          sizeof_feature_unit p + OUTPUT_TERMINAL_DESC_SIZE))
     @ [of_nat ifaces]
     @ replicate ifaces 0"

definition INIT_CS_AC_IF_HEADER_BIDIR :: "dt_inst \<Rightarrow> nat \<Rightarrow> u8 list" where
  "INIT_CS_AC_IF_HEADER_BIDIR p ifaces =
     [of_nat (sizeof_header ifaces), USB_CS_INTERFACE_DESC, HEADER]
     @ sys_cpu_to_le16 0x0100
     @ sys_cpu_to_le16 (of_nat (sizeof_header ifaces + 2 * INPUT_TERMINAL_DESC_SIZE +
          sizeof_feature_unit p + sizeof_feature_unit p + 2 * OUTPUT_TERMINAL_DESC_SIZE))
     @ [of_nat ifaces]
     @ replicate ifaces 0"

definition INIT_IN_TERMINAL :: "dt_inst \<Rightarrow> u8 \<Rightarrow> u16 \<Rightarrow> u8 list" where
  "INIT_IN_TERMINAL p terminal_id type =
     [of_nat INPUT_TERMINAL_DESC_SIZE, USB_CS_INTERFACE_DESC, INPUT_TERMINAL, terminal_id]
     @ sys_cpu_to_le16 type
     @ [0, of_nat (max 1 (CH_CNT p))]
     @ sys_cpu_to_le16 (CH_CFG p)
     @ [0, 0]"

definition INIT_OUT_TERMINAL :: "u8 \<Rightarrow> u8 \<Rightarrow> u16 \<Rightarrow> u8 list" where
  "INIT_OUT_TERMINAL terminal_id source_id type =
     [of_nat OUTPUT_TERMINAL_DESC_SIZE, USB_CS_INTERFACE_DESC, OUTPUT_TERMINAL, terminal_id]
     @ sys_cpu_to_le16 type
     @ [0, source_id, 0]"

text \<open>
  Only the first element of \<open>bmaControls\<close> is given by the initialiser; the other
  \<open>CH_CNT\<close> elements are zero.
\<close>

definition INIT_FEATURE_UNIT :: "dt_inst \<Rightarrow> u8 \<Rightarrow> u8 \<Rightarrow> u8 list" where
  "INIT_FEATURE_UNIT p unit_id source_id =
     [of_nat (sizeof_feature_unit p), USB_CS_INTERFACE_DESC, FEATURE_UNIT, unit_id,
      source_id, 2]
     @ sys_cpu_to_le16 (FEATURES p)
     @ replicate (2 * CH_CNT p) 0
     @ [0]"

definition INIT_AS_GENERAL :: "u8 \<Rightarrow> u8 list" where
  "INIT_AS_GENERAL link =
     [of_nat USB_AC_CS_IF_DESC_SIZE, USB_CS_INTERFACE_DESC, AS_GENERAL, link, 0]
     @ sys_cpu_to_le16 0x0001"

definition INIT_AS_FORMAT_I :: "dt_inst \<Rightarrow> u8 \<Rightarrow> u8 list" where
  "INIT_AS_FORMAT_I p resolution =
     [of_nat USB_FORMAT_TYPE_I_DESC_SIZE, USB_CS_INTERFACE_DESC, FORMAT_TYPE, 0x01,
      of_nat (max 1 (CH_CNT p)), 2, resolution, 1, 0x80, 0xBB, 0x00]"

definition INIT_STD_AS_AD_EP :: "u8 \<Rightarrow> u16 \<Rightarrow> u8 list" where
  "INIT_STD_AS_AD_EP addr mps =
     [of_nat USB_STD_AS_AD_EP_DESC_SIZE, USB_ENDPOINT_DESC, addr, USB_DC_EP_ISOCHRONOUS]
     @ sys_cpu_to_le16 mps
     @ [0x01, 0x00, 0x00]"

definition INIT_CS_AS_AD_EP :: "u8 list" where
  "INIT_CS_AS_AD_EP =
     [of_nat USB_CS_AS_AD_EP_DESC_SIZE, USB_CS_ENDPOINT_DESC, 0x01, 0x00, 0x00, 0x00, 0x00]"

text \<open>
  \<open>DEFINE_AUDIO_DESCRIPTOR(dev, i, id, link, it_type, ot_type)\<close>: headphones or
  microphone, one streaming interface. \<open>resolution\<close> and \<open>addr\<close> are the instance's
  \<open>GET_RESOLUTION\<close> and \<open>GET_EP_ADDR\<close>.
\<close>

definition DEFINE_AUDIO_DESCRIPTOR ::
  "dt_inst \<Rightarrow> u8 \<Rightarrow> u8 \<Rightarrow> u8 \<Rightarrow> u8 \<Rightarrow> u16 \<Rightarrow> u16 \<Rightarrow> u8 list" where
  "DEFINE_AUDIO_DESCRIPTOR p resolution addr ident link it_type ot_type =
       INIT_STD_IF AUDIOCONTROL 0 0 0
     @ INIT_CS_AC_IF_HEADER p 1
     @ INIT_IN_TERMINAL p ident it_type
     @ INIT_FEATURE_UNIT p (ident + 1) ident
     @ INIT_OUT_TERMINAL (ident + 2) (ident + 1) ot_type
     @ INIT_STD_IF AUDIOSTREAMING 1 0 0
     @ INIT_STD_IF AUDIOSTREAMING 1 1 1
     @ INIT_AS_GENERAL link
     @ INIT_AS_FORMAT_I p resolution
     @ INIT_STD_AS_AD_EP addr AUDIO_EP_SIZE
     @ INIT_CS_AS_AD_EP"

text \<open>
  \<open>DEFINE_AUDIO_DESCRIPTOR_BIDIR(dev, i, id)\<close>: a headset, with a microphone (IN)
  and a headphones (OUT) streaming interface.
\<close>

definition DEFINE_AUDIO_DESCRIPTOR_BIDIR ::
  "dt_inst \<Rightarrow> u8 \<Rightarrow> u8 \<Rightarrow> u8 \<Rightarrow> u8 \<Rightarrow> u8 \<Rightarrow> u8 list" where
  "DEFINE_AUDIO_DESCRIPTOR_BIDIR p resolution_mic addr_mic resolution_hp addr_hp ident =
       INIT_STD_IF AUDIOCONTROL 0 0 0
     @ INIT_CS_AC_IF_HEADER_BIDIR p 2
     @ INIT_IN_TERMINAL p ident IO_HEADSET
     @ INIT_FEATURE_UNIT p (ident + 1) ident
     @ INIT_OUT_TERMINAL (ident + 2) (ident + 1) USB_STREAMING
     @ INIT_IN_TERMINAL p (ident + 3) USB_STREAMING
     @ INIT_FEATURE_UNIT p (ident + 4) (ident + 3)
     @ INIT_OUT_TERMINAL (ident + 5) (ident + 4) IO_HEADSET
     @ INIT_STD_IF AUDIOSTREAMING 1 0 0
     @ INIT_STD_IF AUDIOSTREAMING 1 1 1
     @ INIT_AS_GENERAL (ident + 2)
     @ INIT_AS_FORMAT_I p resolution_mic
     @ INIT_STD_AS_AD_EP addr_mic AUDIO_EP_SIZE
     @ INIT_CS_AS_AD_EP
     @ INIT_STD_IF AUDIOSTREAMING 2 0 0
     @ INIT_STD_IF AUDIOSTREAMING 2 1 1
     @ INIT_AS_GENERAL (ident + 3)
     @ INIT_AS_FORMAT_I p resolution_hp
     @ INIT_STD_AS_AD_EP addr_hp AUDIO_EP_SIZE
     @ INIT_CS_AS_AD_EP"

subsection \<open>Helpers on the feature unit descriptor\<close>

text \<open>
  \<open>get_num_of_channels\<close>: \<open>(fu->bLength - FU_FIXED_ELEMS_SIZE)/sizeof(u16_t)\<close>,
  returned as \<open>u8_t\<close>. The subtraction is done in \<open>int\<close> and converted to the
  unsigned \<open>size_t\<close> for the division, so a length below 7 wraps around before the
  result is truncated to eight bits (the low byte is the same for a 32-bit and a
  64-bit \<open>size_t\<close>).
\<close>

definition sizeof_u16 :: u32 where "sizeof_u16 = 2"

definition get_num_of_channels :: "u8 list \<Rightarrow> nat \<Rightarrow> u8 option" where
  "get_num_of_channels m fu = do {
     l \<leftarrow> rd8 m (fu + off_bLength);
     Some (ucast ((ucast l - FU_FIXED_ELEMS_SIZE) div sizeof_u16))
   }"

definition get_controls :: "u8 list \<Rightarrow> nat \<Rightarrow> u16 option" where
  "get_controls m fu = rd16 m (fu + BMA_CONTROLS_OFFSET)"

definition get_fu_dir :: "u8 list \<Rightarrow> nat \<Rightarrow> direction option" where
  "get_fu_dir m fu = do {
     l \<leftarrow> rd8 m (fu + off_bLength);
     let ot = fu + unat l;
     t \<leftarrow> rd16 m (ot + off_wTerminalType);
     Some (if t = USB_STREAMING then IN else OUT)
   }"

subsection \<open>Descriptor fixup\<close>

text \<open>
  The loop \<open>for (int i = 1; i < get_num_of_channels(fu); i++)
  *(fu->bmaControls + i) = fu->bmaControls[0];\<close> of \<open>fix_fu_descriptors\<close>. The bound
  is read again at every iteration, as in the source.
\<close>

function fix_fu_loop :: "u8 list \<Rightarrow> nat \<Rightarrow> nat \<Rightarrow> u8 list option" where
  "fix_fu_loop m fu i = do {
     n \<leftarrow> get_num_of_channels m fu;
     if i < unat n then do {
       v \<leftarrow> rd16 m (fu + off_bmaControls);
       m' \<leftarrow> wr16 m (fu + off_bmaControls + 2 * i) v;
       fix_fu_loop m' fu (i + 1)
     } else Some m
   }"
  by pat_completeness auto
termination
proof (relation "measure (\<lambda>(m, fu, i). 256 - i)")
  show "wf (measure (\<lambda>(m, fu, i). 256 - i))" by simp
next
  fix m :: "u8 list" and fu i :: nat and n :: u8 and v :: u16 and m' :: "u8 list"
  assume "i < unat n"
  moreover have "unat n < 256" using unsigned_less [of n, where ?'a = nat] by simp
  ultimately show "((m', fu, i + 1), (m, fu, i)) \<in> measure (\<lambda>(m, fu, i). 256 - i)"
    by simp
qed

definition fix_fu_descriptors :: "u8 list \<Rightarrow> nat \<Rightarrow> u8 list option" where
  "fix_fu_descriptors m iface = do {
     let header = iface + USB_PASSIVE_IF_DESC_SIZE;
     hl \<leftarrow> rd8 m (header + off_bLength);
     let fu = header + unat hl + INPUT_TERMINAL_DESC_SIZE;
     m1 \<leftarrow> fix_fu_loop m fu 1;
     c \<leftarrow> rd8 m1 (header + off_bInCollection);
     if c = 2 then do {
       fl \<leftarrow> rd8 m1 (fu + off_bLength);
       let fu2 = fu + unat fl + INPUT_TERMINAL_DESC_SIZE + OUTPUT_TERMINAL_DESC_SIZE;
       fix_fu_loop m1 fu2 1
     } else Some m1
   }"

text \<open>
  \<open>audio_interface_config(head, bInterfaceNumber)\<close>. The interface numbers are
  \<open>u8_t\<close>; \<open>bInterfaceNumber + 1\<close> is truncated to eight bits when it is stored.
\<close>

definition audio_interface_config :: "u8 list \<Rightarrow> nat \<Rightarrow> u8 \<Rightarrow> u8 list option" where
  "audio_interface_config m head bInterfaceNumber = do {
     let iface = head;
     m1 \<leftarrow> fix_fu_descriptors m iface;
     m2 \<leftarrow> wr8 m1 (iface + off_bInterfaceNumber) bInterfaceNumber;
     il \<leftarrow> rd8 m2 (iface + off_bLength);
     let header = iface + unat il;
     m3 \<leftarrow> wr8 m2 (header + off_baInterfaceNr + 0) (bInterfaceNumber + 1);
     tl \<leftarrow> rd16 m3 (header + off_wTotalLength);
     let iface1 = header + unat tl;
     m4 \<leftarrow> wr8 m3 (iface1 + off_bInterfaceNumber) (bInterfaceNumber + 1);
     il1 \<leftarrow> rd8 m4 (iface1 + off_bLength);
     let iface2 = iface1 + unat il1;
     m5 \<leftarrow> wr8 m4 (iface2 + off_bInterfaceNumber) (bInterfaceNumber + 1);
     c \<leftarrow> rd8 m5 (header + off_bInCollection);
     if c = 2 then do {
       m6 \<leftarrow> wr8 m5 (header + off_baInterfaceNr + 1) (bInterfaceNumber + 2);
       let iface3 = iface2 + USB_ACTIVE_IF_DESC_SIZE;
       m7 \<leftarrow> wr8 m6 (iface3 + off_bInterfaceNumber) (bInterfaceNumber + 2);
       let iface4 = iface3 + USB_PASSIVE_IF_DESC_SIZE;
       wr8 m7 (iface4 + off_bInterfaceNumber) (bInterfaceNumber + 2)
     } else Some m5
   }"

subsection \<open>Locating a feature unit\<close>

text \<open>
  \<open>get_feature_unit\<close> returns the feature unit pointer through \<open>*fu\<close> and the index
  of the controls table as its result: 0 when the first unit has the requested
  identifier, 1 otherwise, without comparing the second unit's identifier.
\<close>

definition get_feature_unit :: "u8 list \<Rightarrow> usb_audio_dev_data_t \<Rightarrow> u8 \<Rightarrow> (nat \<times> nat) option" where
  "get_feature_unit m audio_dev_data fu_id = do {
     hl \<leftarrow> rd8 m (header_descr audio_dev_data + off_bLength);
     let fu = header_descr audio_dev_data + unat hl + INPUT_TERMINAL_DESC_SIZE;
     uid \<leftarrow> rd8 m (fu + off_bUnitID);
     if uid = fu_id then Some (fu, 0)
     else do {
       fl \<leftarrow> rd8 m (fu + off_bLength);
       Some (fu + unat fl + INPUT_TERMINAL_DESC_SIZE + OUTPUT_TERMINAL_DESC_SIZE, 1)
     }
   }"

subsection \<open>Streaming state\<close>

text \<open>
  The search loop of \<open>audio_dc_interface\<close> over \<open>header->baInterfaceNr\<close>, and the
  function itself. \<open>set_iface\<close> points to the selected interface descriptor inside the
  descriptor table. The enable flags are \<open>bool\<close>: storing \<open>bAlternateSetting\<close> stores
  whether it is non-zero.
\<close>

function this_iface :: "u8 list \<Rightarrow> nat \<Rightarrow> nat \<Rightarrow> nat \<Rightarrow> bool option" where
  "this_iface m header set_iface i = do {
     n \<leftarrow> rd8 m (header + off_bInCollection);
     if i < unat n then do {
       ifn \<leftarrow> rd8 m (set_iface + off_bInterfaceNumber);
       nr \<leftarrow> rd8 m (header + off_baInterfaceNr + i);
       if ifn = nr then Some True else this_iface m header set_iface (i + 1)
     } else Some False
   }"
  by pat_completeness auto
termination
proof (relation "measure (\<lambda>(m, header, set_iface, i). 256 - i)")
  show "wf (measure (\<lambda>(m, header, set_iface, i). 256 - i))" by simp
next
  fix m :: "u8 list" and header set_iface i :: nat and n :: u8
  assume "i < unat n"
  moreover have "unat n < 256" using unsigned_less [of n, where ?'a = nat] by simp
  ultimately show "((m, header, set_iface, i + 1), (m, header, set_iface, i))
      \<in> measure (\<lambda>(m, header, set_iface, i). 256 - i)"
    by simp
qed

definition audio_dc_interface ::
  "u8 list \<Rightarrow> usb_audio_dev_data_t \<Rightarrow> nat \<Rightarrow> usb_audio_dev_data_t option" where
  "audio_dc_interface m audio_dev_data set_iface = do {
     let header = header_descr audio_dev_data;
     this \<leftarrow> this_iface m header set_iface 0;
     if this then do {
       alt \<leftarrow> rd8 m (set_iface + off_bAlternateSetting);
       let iface = (if alt = 0 then set_iface + USB_PASSIVE_IF_DESC_SIZE else set_iface);
       let ep_desc = iface + USB_PASSIVE_IF_DESC_SIZE + USB_AC_CS_IF_DESC_SIZE +
                     USB_FORMAT_TYPE_I_DESC_SIZE;
       a \<leftarrow> rd8 m (ep_desc + off_bEndpointAddress);
       if a AND 0x80 \<noteq> 0
       then Some (audio_dev_data\<lparr>tx_enable := (alt \<noteq> 0)\<rparr>)
       else Some (audio_dev_data\<lparr>rx_enable := (alt \<noteq> 0)\<rparr>)
     } else Some audio_dev_data
   }"

subsection \<open>Entity validity\<close>

record usb_audio_entity =
  subtype :: u8
  ent_id :: u8

text \<open>
  The walk of \<open>is_entity_valid\<close> from a descriptor at \<open>p\<close>. The three conditions are
  joined by \<open>&&\<close>: a field is read only when the fields before it passed.
\<close>

definition entity_header_matches :: "u8 list \<Rightarrow> nat \<Rightarrow> u8 \<Rightarrow> bool option" where
  "entity_header_matches m head ident = do {
     t \<leftarrow> rd8 m (head + off_bDescriptorType);
     if t = USB_CS_INTERFACE_DESC then do {
       st \<leftarrow> rd8 m (head + off_bDescriptorSubtype);
       if st \<noteq> HEADER then do {
         e \<leftarrow> rd8 m (head + off_bEntityID);
         Some (e = ident)
       } else Some False
     } else Some False
   }"

function is_entity_valid_loop ::
  "u8 list \<Rightarrow> nat \<Rightarrow> usb_audio_entity \<Rightarrow> (bool \<times> usb_audio_entity) option" where
  "is_entity_valid_loop m p ent = do {
     l \<leftarrow> rd8 m (p + off_bLength);
     if l \<noteq> 0 then do {
       hit \<leftarrow> entity_header_matches m p (ent_id ent);
       if hit then do {
         st \<leftarrow> rd8 m (p + off_bDescriptorSubtype);
         Some (True, ent\<lparr>subtype := st\<rparr>)
       } else is_entity_valid_loop m (p + unat l) ent
     } else Some (False, ent)
   }"
  by pat_completeness auto
termination
proof (relation "measure (\<lambda>(m, p, ent). length m - p)")
  show "wf (measure (\<lambda>(m, p, ent). length m - p))" by simp
next
  fix m :: "u8 list" and p :: nat and ent :: usb_audio_entity and l :: u8
  assume rd: "rd8 m (p + off_bLength) = Some l" and nz: "l \<noteq> 0"
  from rd have "p < length m"
    by (simp add: rd8_def off_bLength_def split: if_splits)
  moreover from nz have "0 < unat l"
    by (simp add: unat_gt_0)
  ultimately show "((m, p + unat l, ent), (m, p, ent)) \<in> measure (\<lambda>(m, p, ent). length m - p)"
    by simp
qed

text \<open>
  \<open>is_entity_valid\<close> starts at \<open>cfg->interface_descriptor\<close>, the first byte of the
  function's descriptor.
\<close>

definition is_entity_valid ::
  "u8 list \<Rightarrow> nat \<Rightarrow> usb_audio_entity \<Rightarrow> (bool \<times> usb_audio_entity) option" where
  "is_entity_valid m interface_descriptor ent = is_entity_valid_loop m interface_descriptor ent"

subsection \<open>Feature unit requests\<close>

text \<open>
  \<open>struct usb_setup_packet\<close> and the \<open>REQTYPE\<close> macros belong to the USB device
  stack: the setup packet of USB 2.0, Table 9-2, whose \<open>bmRequestType\<close> has the
  transfer direction in bit 7 (1 is device to host).
\<close>

record usb_setup_packet =
  bmRequestType :: u8
  bRequest :: u8
  wValue :: u16
  wIndex :: u16
  wLength :: u16

definition REQTYPE_GET_DIR :: "u8 \<Rightarrow> u8" where
  "REQTYPE_GET_DIR x = drop_bit 7 (x AND 0x80)"

definition REQTYPE_DIR_TO_HOST :: u8 where "REQTYPE_DIR_TO_HOST = 1"

text \<open>
  \<open>BIT(n)\<close> is \<open>1UL << n\<close> on the 32-bit \<open>unsigned long\<close> of the ARM targets. A shift
  count of 32 or more is undefined in C; here it gives 0, as the shift instruction of
  these targets does.
\<close>

definition BIT :: "nat \<Rightarrow> u32" where
  "BIT n = push_bit n 1"

text \<open>
  The request buffer handed in through \<open>*data\<close>, and what \<open>*data\<close> points to when the
  handler returns: the caller's buffer still, or the static array.
\<close>

datatype data_ptr = Request_data "u8 list" | Tmp_data

definition request_byte :: "data_ptr \<Rightarrow> audio_state \<Rightarrow> nat \<Rightarrow> u8 option" where
  "request_byte data s i =
     (case data of
        Request_data bs \<Rightarrow> (if i < length bs then Some (bs ! i) else None)
      | Tmp_data \<Rightarrow> (if i < length (tmp_data_ptr s) then Some (tmp_data_ptr s ! i) else None))"

definition tmp_store :: "audio_state \<Rightarrow> nat \<Rightarrow> u8 \<Rightarrow> audio_state" where
  "tmp_store s i v =
     (if i < length (tmp_data_ptr s) then s\<lparr>tmp_data_ptr := (tmp_data_ptr s)[i := v]\<rparr>
      else s\<lparr>tmp_overrun := tmp_overrun s @ [(i, v)]\<rparr>)"

definition get_mute :: "audio_state \<Rightarrow> nat \<Rightarrow> nat \<Rightarrow> u8 option" where
  "get_mute s device ch =
     (if device < length (controls (dev_data s)) then
        (case controls (dev_data s) ! device of
           None \<Rightarrow> None
         | Some tab \<Rightarrow> (if ch < length tab then Some (mute (tab ! ch)) else None))
      else None)"

definition set_mute :: "audio_state \<Rightarrow> nat \<Rightarrow> nat \<Rightarrow> u8 \<Rightarrow> audio_state option" where
  "set_mute s device ch v =
     (if device < length (controls (dev_data s)) then
        (case controls (dev_data s) ! device of
           None \<Rightarrow> None
         | Some tab \<Rightarrow>
             (if ch < length tab
              then Some (s\<lparr>dev_data := (dev_data s)\<lparr>controls :=
                     (controls (dev_data s))[device := Some (tab[ch := (tab ! ch)\<lparr>mute := v\<rparr>])]\<rparr>\<rparr>)
              else None))
      else None)"

text \<open>
  The state of the loop over the channels: the driver state, \<open>data_offset\<close> and
  \<open>ret\<close>.
\<close>

type_synonym fu_loop_state = "audio_state \<times> u8 \<times> int"

text \<open>
  One iteration of the loop, for channel \<open>ch\<close>. \<open>evt.channel\<close> is the \<open>u8_t\<close> of
  \<open>ch\<close>. In the \<open>SET_CUR\<close> branch the callback test reads
  \<open>dev_data->ops->feature_update_cb\<close> before it tests \<open>dev_data->ops\<close>, so a NULL
  \<open>ops\<close> is dereferenced.
\<close>

definition fu_req_channel ::
  "usb_setup_packet \<Rightarrow> data_ptr \<Rightarrow> direction \<Rightarrow> nat \<Rightarrow> u8 \<Rightarrow> nat \<Rightarrow> fu_loop_state
     \<Rightarrow> fu_loop_state option" where
  "fu_req_channel pSetup data dir device control_selector ch st =
     (case st of (s, data_offset, ret) \<Rightarrow>
        if control_selector = MUTE_CONTROL then
          (if bRequest pSetup = SET_CUR then do {
             v \<leftarrow> request_byte data s (unat data_offset);
             s1 \<leftarrow> set_mute s device ch v;
             cbs \<leftarrow> ops (dev_data s1);
             let s2 = (if feature_update_cb cbs
                       then emit (Feature_update_cb dir control_selector (of_nat ch) v) s1
                       else s1);
             Some (s2, data_offset + 1, 0)
           }
           else if bRequest pSetup = GET_CUR then do {
             v \<leftarrow> get_mute s device ch;
             Some (tmp_store s (unat data_offset) v, data_offset + 1, 0)
           }
           else Some (s, data_offset + 1, - EINVAL))
        else Some (s, data_offset, ret))"

function fu_req_loop ::
  "usb_setup_packet \<Rightarrow> data_ptr \<Rightarrow> direction \<Rightarrow> nat \<Rightarrow> u8 \<Rightarrow> nat \<Rightarrow> nat \<Rightarrow> fu_loop_state
     \<Rightarrow> fu_loop_state option" where
  "fu_req_loop pSetup data dir device control_selector ch ch_end st =
     (if ch < ch_end then do {
        st' \<leftarrow> fu_req_channel pSetup data dir device control_selector ch st;
        fu_req_loop pSetup data dir device control_selector (ch + 1) ch_end st'
      } else Some st)"
  by pat_completeness auto
termination
  by (relation "measure (\<lambda>(pSetup, data, dir, device, cs, ch, ch_end, st). ch_end - ch)") auto

text \<open>
  The fields the handler takes from the setup packet: the feature unit identifier is
  the high byte of \<open>wIndex\<close>, the channel number the low byte of \<open>wValue\<close> and the
  control selector its high byte.
\<close>

definition setup_fu_id :: "usb_setup_packet \<Rightarrow> u8" where
  "setup_fu_id pSetup = ucast (drop_bit 8 (wIndex pSetup) AND 0xFF)"

definition setup_ch_num :: "usb_setup_packet \<Rightarrow> u8" where
  "setup_ch_num pSetup = ucast (wValue pSetup AND 0xFF)"

definition setup_control_selector :: "usb_setup_packet \<Rightarrow> u8" where
  "setup_control_selector pSetup = ucast (drop_bit 8 (wValue pSetup) AND 0xFF)"

text \<open>
  \<open>handle_feature_unit_req(dev_data, pSetup, len, data)\<close>. The result is the return
  value, the new driver state, and the new values of \<open>*len\<close> and \<open>*data\<close>.
\<close>

definition handle_feature_unit_req ::
  "u8 list \<Rightarrow> audio_state \<Rightarrow> usb_setup_packet \<Rightarrow> int \<Rightarrow> data_ptr
     \<Rightarrow> (int \<times> audio_state \<times> int \<times> data_ptr) option" where
  "handle_feature_unit_req m s pSetup len data = do {
     let fu_id = setup_fu_id pSetup;
     (fu, device) \<leftarrow> get_feature_unit m (dev_data s) fu_id;
     dir \<leftarrow> get_fu_dir m fu;
     let ch_num = setup_ch_num pSetup;
     let control_selector = setup_control_selector pSetup;
     n \<leftarrow> get_num_of_channels m fu;
     let ch_start = (if ch_num = 0xFF then 0 else ch_num);
     let ch_end = (if ch_num = 0xFF then n else ch_num + 1);
     ctl \<leftarrow> get_controls m fu;
     if BIT (unat control_selector) AND push_bit 1 (ucast ctl) = 0 then
       Some (- EINVAL, s, len, data)
     else if unat ch_num \<ge> unat n \<and> ch_num \<noteq> 0xFF then
       Some (- EINVAL, s, len, data)
     else do {
       (s', data_offset, ret) \<leftarrow>
         fu_req_loop pSetup data dir device control_selector (unat ch_start) (unat ch_end)
           (s, 0, - EINVAL);
       if REQTYPE_GET_DIR (bmRequestType pSetup) = REQTYPE_DIR_TO_HOST
       then Some (ret, s', uint data_offset, Tmp_data)
       else Some (ret, s', len, data)
     }
   }"

subsection \<open>Buffer pipeline\<close>

text \<open>
  Modelled from the spec: \<open>usb_get_dev_data_by_ep\<close> belongs to the USB device stack.
  The spec describes it as a linear search of the list of registered functions by the
  key the transport supplies; for the one function of the model it finds the device
  data when the function is registered and the endpoint address is in its endpoint
  table.
\<close>

definition usb_get_dev_data_by_ep :: "usb_cfg_data \<Rightarrow> audio_state \<Rightarrow> u8 \<Rightarrow> bool" where
  "usb_get_dev_data_by_ep cfg s ep = (registered s \<and> ep \<in> set (map ep_addr (endpoint cfg)))"

text \<open>
  \<open>usb_audio_register(dev, ops)\<close>; \<open>interface_descriptor\<close> is
  \<open>cfg->interface_descriptor\<close>.
\<close>

definition usb_audio_register :: "audio_state \<Rightarrow> nat \<Rightarrow> audio_ops option \<Rightarrow> audio_state" where
  "usb_audio_register s interface_descriptor new_ops =
     s\<lparr>dev_data := (dev_data s)\<lparr>ops := new_ops, rx_enable := False, tx_enable := False,
          header_descr := interface_descriptor + USB_PASSIVE_IF_DESC_SIZE\<rparr>,
       registered := True\<rparr>"

text \<open>
  \<open>usb_audio_send(dev, buffer, len)\<close>. \<open>buffer\<close> is a pointer and may be NULL. The
  comparison \<open>len > buffer->size\<close> is made in \<open>int\<close>. The result of \<open>usb_transfer\<close> is
  not looked at.
\<close>

definition usb_audio_send ::
  "usb_cfg_data \<Rightarrow> audio_state \<Rightarrow> net_buf option \<Rightarrow> int \<Rightarrow> (int \<times> audio_state) option" where
  "usb_audio_send cfg s buffer len =
     (case endpoint cfg of
        [] \<Rightarrow> None
      | e # _ \<Rightarrow>
          let ep = ep_addr e in
          if ep AND 0x80 = 0 then Some (- EINVAL, s)
          else if \<not> tx_enable (dev_data s) then Some (- EAGAIN, s)
          else (case buffer of
                  None \<Rightarrow> None
                | Some b \<Rightarrow>
                    if len > uint (buf_size b) then Some (- EINVAL, s)
                    else Some (0, emit (Usb_transfer_write ep (buf_data b) len b) s)))"

text \<open>
  \<open>audio_write_cb(ep, size, priv)\<close>, the completion callback handed to
  \<open>usb_transfer\<close>. The result of the lookup is dereferenced without a test.
\<close>

definition audio_write_cb ::
  "usb_cfg_data \<Rightarrow> audio_state \<Rightarrow> u8 \<Rightarrow> int \<Rightarrow> net_buf \<Rightarrow> audio_state option" where
  "audio_write_cb cfg s ep sz priv =
     (if \<not> usb_get_dev_data_by_ep cfg s ep then None
      else
        let s1 = emit (Net_buf_unref priv) s in
        (case ops (dev_data s1) of
           None \<Rightarrow> Some s1
         | Some cbs \<Rightarrow> if data_written_cb cbs then Some (emit (Data_written_cb sz) s1)
                       else Some s1))"

text \<open>
  What the environment answers during one \<open>audio_receive_cb\<close>: the buffer
  \<open>net_buf_alloc\<close> returns (or NULL), and the status and byte count of \<open>usb_read\<close>.
\<close>

record receive_env =
  alloc_result :: "net_buf option"
  read_ret :: int
  read_bytes :: int

datatype usb_dc_ep_cb_status_code = USB_DC_EP_SETUP | USB_DC_EP_DATA_OUT | USB_DC_EP_DATA_IN

text \<open>\<open>audio_receive_cb(ep, status)\<close>. A failed \<open>__ASSERT\<close> is \<open>None\<close>.\<close>

definition audio_receive_cb ::
  "usb_cfg_data \<Rightarrow> receive_env \<Rightarrow> audio_state \<Rightarrow> u8 \<Rightarrow> usb_dc_ep_cb_status_code
     \<Rightarrow> audio_state option" where
  "audio_receive_cb cfg env s ep status =
     (if status \<noteq> USB_DC_EP_DATA_OUT then None
      else if \<not> usb_get_dev_data_by_ep cfg s ep then Some s
      else if \<not> rx_enable (dev_data s) then Some s
      else
        let s1 = emit Net_buf_alloc s in
        (case alloc_result env of
           None \<Rightarrow> Some s1
         | Some buffer \<Rightarrow>
             let s2 = emit (Usb_read ep buffer) s1 in
             if read_ret env \<noteq> 0 then Some (emit (Net_buf_unref buffer) s2)
             else if read_bytes env = 0 then Some (emit (Net_buf_unref buffer) s2)
             else (case ops (dev_data s2) of
                     None \<Rightarrow> Some s2
                   | Some cbs \<Rightarrow>
                       if data_received_cb cbs
                       then Some (emit (Data_received_cb buffer (read_bytes env)) s2)
                       else Some s2)))"

subsection \<open>Layout of the declared descriptor structures\<close>

text \<open>
  The members of the structures declared by \<open>DECLARE_DESCRIPTOR\<close> and
  \<open>DECLARE_DESCRIPTOR_BIDIR\<close>, in declaration order, with their sizes. The structures
  are packed, so a member's offset is the sum of the sizes before it.
\<close>

definition DECLARE_DESCRIPTOR :: "dt_inst \<Rightarrow> (string \<times> nat) list" where
  "DECLARE_DESCRIPTOR p =
     [(''std_ac_interface'', USB_PASSIVE_IF_DESC_SIZE),
      (''ac_interface_header'', sizeof_header 1),
      (''input_terminal'', INPUT_TERMINAL_DESC_SIZE),
      (''feature_unit'', sizeof_feature_unit p),
      (''output_terminal'', OUTPUT_TERMINAL_DESC_SIZE),
      (''as_interface_alt_0'', USB_PASSIVE_IF_DESC_SIZE),
      (''as_interface_alt_1'', USB_PASSIVE_IF_DESC_SIZE),
      (''as_cs_interface'', USB_AC_CS_IF_DESC_SIZE),
      (''format'', USB_FORMAT_TYPE_I_DESC_SIZE),
      (''std_ep_desc'', USB_STD_AS_AD_EP_DESC_SIZE),
      (''cs_ep_desc'', USB_CS_AS_AD_EP_DESC_SIZE)]"

definition DECLARE_DESCRIPTOR_BIDIR :: "dt_inst \<Rightarrow> (string \<times> nat) list" where
  "DECLARE_DESCRIPTOR_BIDIR p =
     [(''std_ac_interface'', USB_PASSIVE_IF_DESC_SIZE),
      (''ac_interface_header'', sizeof_header 2),
      (''input_terminal_0'', INPUT_TERMINAL_DESC_SIZE),
      (''feature_unit_0'', sizeof_feature_unit p),
      (''output_terminal_0'', OUTPUT_TERMINAL_DESC_SIZE),
      (''input_terminal_1'', INPUT_TERMINAL_DESC_SIZE),
      (''feature_unit_1'', sizeof_feature_unit p),
      (''output_terminal_1'', OUTPUT_TERMINAL_DESC_SIZE),
      (''as_interface_alt_0_0'', USB_PASSIVE_IF_DESC_SIZE),
      (''as_interface_alt_0_1'', USB_PASSIVE_IF_DESC_SIZE),
      (''as_cs_interface_0'', USB_AC_CS_IF_DESC_SIZE),
      (''format_0'', USB_FORMAT_TYPE_I_DESC_SIZE),
      (''std_ep_desc_0'', USB_STD_AS_AD_EP_DESC_SIZE),
      (''cs_ep_desc_0'', USB_CS_AS_AD_EP_DESC_SIZE),
      (''as_interface_alt_1_0'', USB_PASSIVE_IF_DESC_SIZE),
      (''as_interface_alt_1_1'', USB_PASSIVE_IF_DESC_SIZE),
      (''as_cs_interface_1'', USB_AC_CS_IF_DESC_SIZE),
      (''format_1'', USB_FORMAT_TYPE_I_DESC_SIZE),
      (''std_ep_desc_1'', USB_STD_AS_AD_EP_DESC_SIZE),
      (''cs_ep_desc_1'', USB_CS_AS_AD_EP_DESC_SIZE)]"

fun offsetof :: "(string \<times> nat) list \<Rightarrow> string \<Rightarrow> nat" where
  "offsetof [] member = 0"
| "offsetof ((name, sz) # ms) member = (if name = member then 0 else sz + offsetof ms member)"

text \<open>
  The channel count the driver derives from the length byte of the feature unit at
  \<open>fu\<close>, as a natural number, for lengths of at least \<open>FU_FIXED_ELEMS_SIZE\<close>.
\<close>

definition nch :: "u8 list \<Rightarrow> nat \<Rightarrow> nat" where
  "nch m fu = (unat (m ! fu) - 7) div 2"

subsection \<open>A sample headset function\<close>

text \<open>
  A stereo headset with mute and volume controls, as instance 0 of the only device
  type, so that \<open>HS_ID(0)\<close> is 1: microphone endpoint 0x81 (IN), headphones endpoint
  0x01 (OUT), both first in their direction, 16-bit samples. The application
  registers every callback.
\<close>

definition hs_inst :: dt_inst where
  "hs_inst = \<lparr>FEATURE_MUTE = True, FEATURE_VOLUME = True, FEATURE_TONE_CONTROL = False,
     FEATURE_GRAPHIC_EQUALIZER = False, FEATURE_AUTOMATIC_GAIN_CONTROL = False,
     FEATURE_DELAY = False, FEATURE_BASS_BOOST = False, FEATURE_LOUDNESS = False,
     CHANNEL_L = True, CHANNEL_R = True, CHANNEL_C = False, CHANNEL_LFE = False,
     CHANNEL_LS = False, CHANNEL_RS = False, CHANNEL_LC = False, CHANNEL_RC = False,
     CHANNEL_S = False, CHANNEL_SL = False, CHANNEL_SR = False, CHANNEL_T = False\<rparr>"

definition hs_cfg :: usb_cfg_data where
  "hs_cfg = \<lparr>num_endpoints = 2, endpoint = [\<lparr>ep_addr = 0x81\<rparr>, \<lparr>ep_addr = 0x01\<rparr>]\<rparr>"

definition hs_ops :: audio_ops where
  "hs_ops = \<lparr>data_request_cb = True, data_written_cb = True, data_received_cb = True,
     feature_update_cb = True\<rparr>"

definition zero_controls :: controls where
  "zero_controls = \<lparr>mute = 0, volume = 0, tone_control = [0, 0, 0], graphic_equalizer = 0,
     automatic_gain_control = 0, delay = 0, bass_boost = 0, loudness = 0\<rparr>"

text \<open>
  The zero-initialised driver state of \<open>DEFINE_AUDIO_DEV_DATA_BIDIR\<close> for this
  instance (two tables of \<open>CH_CNT + 1\<close> controls), and the state after
  \<open>usb_audio_register\<close>.
\<close>

definition hs_boot :: audio_state where
  "hs_boot = \<lparr>dev_data = \<lparr>ops = None,
       controls = [Some (replicate (CH_CNT hs_inst + 1) zero_controls),
                   Some (replicate (CH_CNT hs_inst + 1) zero_controls)],
       header_descr = 0, rx_enable = False, tx_enable = False\<rparr>,
     trace = [], tmp_data_ptr = [0, 0, 0], tmp_overrun = [], registered = False\<rparr>"

definition hs_state :: audio_state where
  "hs_state = usb_audio_register hs_boot 0 (Some hs_ops)"

definition hs_buf :: net_buf where
  "hs_buf = \<lparr>buf_id = 0, buf_size = AUDIO_EP_SIZE, buf_data = replicate 192 0\<rparr>"

subsection \<open>Requests and tables used in the statements\<close>

text \<open>
  The channels a request addresses, given the channel count \<open>n\<close> of the unit: all of
  them for the wildcard 0xFF, the one named otherwise.
\<close>

definition requested_channels :: "usb_setup_packet \<Rightarrow> u8 \<Rightarrow> nat list" where
  "requested_channels pSetup n =
     (if setup_ch_num pSetup = 0xFF then [0 ..< unat n] else [unat (setup_ch_num pSetup)])"

text \<open>
  A class request to a feature unit, by its fields: \<open>wValue\<close> has the control selector
  in its high byte and the channel in its low byte, \<open>wIndex\<close> the unit identifier in
  its high byte and the interface number in its low byte.
\<close>

definition fu_request :: "u8 \<Rightarrow> u8 \<Rightarrow> u8 \<Rightarrow> u8 \<Rightarrow> u8 \<Rightarrow> u8 \<Rightarrow> u16 \<Rightarrow> usb_setup_packet" where
  "fu_request req_type req cs ch unit_id iface len =
     \<lparr>bmRequestType = req_type, bRequest = req, wValue = le16 ch cs,
      wIndex = le16 iface unit_id, wLength = len\<rparr>"

text \<open>
  The descriptor of the sample headset as the initialiser leaves it, and as it is
  after \<open>audio_interface_config\<close> with base interface number 3. Its entities are
  numbered from \<open>HS_ID(0) = 1\<close>: feature unit 2 sits on the microphone path and
  feature unit 5 on the headphones path.
\<close>

definition hs_desc :: "u8 list" where
  "hs_desc = DEFINE_AUDIO_DESCRIPTOR_BIDIR hs_inst 16 0x81 16 0x01 1"

definition hs_table :: "u8 list" where
  "hs_table = (case audio_interface_config hs_desc 0 3 of Some m \<Rightarrow> m | None \<Rightarrow> [])"

text \<open>
  The sample state after the host has set the mute control of channel 1 of feature
  unit 2 to 1: the flag is stored and the application has been told.
\<close>

definition hs_muted :: audio_state where
  "hs_muted = emit (Feature_update_cb IN MUTE_CONTROL 1 1)
     (hs_state\<lparr>dev_data := (dev_data hs_state)\<lparr>controls :=
        [Some [zero_controls, zero_controls\<lparr>mute := 1\<rparr>, zero_controls],
         Some [zero_controls, zero_controls, zero_controls]]\<rparr>\<rparr>)"

subsection \<open>A build with a headphones and a microphone function\<close>

text \<open>
  The entity identifiers the instantiation macros of audio.c hand to
  \<open>DEFINE_AUDIO_DESCRIPTOR\<close>: \<open>HP_ID(i)\<close>, \<open>HP_LINK(i)\<close>, \<open>MIC_ID(i)\<close> and \<open>MIC_LINK(i)\<close>
  of usb_audio_internal.h. \<open>hp_count\<close> is \<open>CONFIG_USB_AUDIO_HEADPHONES_DEVICE_COUNT\<close>.
\<close>

definition HP_ID :: "nat \<Rightarrow> u8" where "HP_ID i = of_nat (3 * i + 1)"
definition HP_LINK :: "nat \<Rightarrow> u8" where "HP_LINK i = of_nat (3 * i + 1)"
definition MIC_ID :: "nat \<Rightarrow> nat \<Rightarrow> u8" where "MIC_ID hp_count i = of_nat (3 * (hp_count + i) + 1)"
definition MIC_LINK :: "nat \<Rightarrow> nat \<Rightarrow> u8" where
  "MIC_LINK hp_count i = of_nat (3 * (hp_count + i) + 3)"

text \<open>
  The descriptors of a build with one headphones function (OUT endpoint 0x01) and one
  microphone function (IN endpoint 0x81), both stereo with mute and volume, as
  \<open>DEFINE_AUDIO_HP_DESCR_AUTO(0, _)\<close> and \<open>DEFINE_AUDIO_MIC_DESCR_AUTO(0, _)\<close> define
  them: the headphones function has the entities 1, 2, 3 and the microphone function
  the entities 4, 5, 6.
\<close>

definition hp_desc :: "u8 list" where
  "hp_desc = DEFINE_AUDIO_DESCRIPTOR hs_inst 16 0x01 (HP_ID 0) (HP_LINK 0)
     USB_STREAMING OUT_HEADPHONES"

definition mic_desc :: "u8 list" where
  "mic_desc = DEFINE_AUDIO_DESCRIPTOR hs_inst 16 0x81 (MIC_ID 1 0) (MIC_LINK 1 0)
     IN_MICROPHONE USB_STREAMING"

text \<open>
  The descriptor table of that build: the headphones descriptor, the microphone
  descriptor behind it, and the zero-length header that ends the table, after
  \<open>audio_interface_config\<close> has run on each function (interfaces 0 and 1, then 2
  and 3).
\<close>

definition hp_mic_table :: "u8 list" where
  "hp_mic_table =
     (case audio_interface_config (hp_desc @ mic_desc @ [0, 0]) 0 0 of
        None \<Rightarrow> []
      | Some m \<Rightarrow>
          (case audio_interface_config m (length hp_desc) 2 of
             None \<Rightarrow> []
           | Some m' \<Rightarrow> m'))"

text \<open>
  The entities of a function: the terminals and units of its descriptor structure
  \<open>decl\<close>, which lies at \<open>head\<close> in the table, each with its identifier
  (\<open>bTerminalID\<close> or \<open>bUnitID\<close>) and its descriptor subtype.
\<close>

definition terminals_and_units :: "(string \<times> nat) list \<Rightarrow> string list" where
  "terminals_and_units decl =
     filter (\<lambda>n. take 14 n = ''input_terminal'' \<or> take 12 n = ''feature_unit'' \<or>
                 take 15 n = ''output_terminal'')
       (map fst decl)"

definition function_entities :: "u8 list \<Rightarrow> nat \<Rightarrow> (string \<times> nat) list \<Rightarrow> (u8 \<times> u8) list" where
  "function_entities m head decl =
     map (\<lambda>n. (m ! (head + offsetof decl n + off_bEntityID),
                m ! (head + offsetof decl n + off_bDescriptorSubtype)))
       (terminals_and_units decl)"

text \<open>
  In the table \<open>m\<close>, the feature unit at \<open>fu\<close> has \<open>bmaControls[i]\<close> equal to
  \<open>bmaControls[0]\<close> for every \<open>i\<close> from 1 up to the channel count that
  \<open>get_num_of_channels\<close> derives from its \<open>bLength\<close>.
\<close>

definition channels_mirror_channel_0 :: "u8 list \<Rightarrow> nat \<Rightarrow> bool" where
  "channels_mirror_channel_0 m fu =
     (case get_num_of_channels m fu of
        None \<Rightarrow> False
      | Some n \<Rightarrow>
          (case rd16 m (fu + off_bmaControls) of
             None \<Rightarrow> False
           | Some c0 \<Rightarrow>
               (\<forall>i\<in>{1 ..< unat n}. rd16 m (fu + off_bmaControls + 2 * i) = Some c0)))"

text \<open>
  A run of inbound-data notifications on endpoints of the function: \<open>audio_receive_cb\<close>
  called once per element, each with what the environment answers during that call.
\<close>

fun audio_receive_cbs ::
  "usb_cfg_data \<Rightarrow> audio_state \<Rightarrow> (receive_env \<times> u8) list \<Rightarrow> audio_state option" where
  "audio_receive_cbs cfg s [] = Some s"
| "audio_receive_cbs cfg s ((env, ep) # ns) = do {
     s' \<leftarrow> audio_receive_cb cfg env s ep USB_DC_EP_DATA_OUT;
     audio_receive_cbs cfg s' ns
   }"

text \<open>
  What the alternate settings at \<open>alt_0\<close> and \<open>alt_1\<close> of the table \<open>m\<close> do to the
  function in state \<open>s\<close>. Selecting \<open>alt_0\<close> clears \<open>rx_enable\<close>, and then every run of
  inbound-data notifications leaves the state as it is, the record of external calls
  included. Selecting \<open>alt_1\<close> afterwards sets \<open>rx_enable\<close>, and then a notification on
  an endpoint of the registered function, with a buffer in the pool and a non-empty
  read, hands the buffer to \<open>data_received_cb\<close>.
\<close>

abbreviation rx_gated ::
  "u8 list \<Rightarrow> usb_cfg_data \<Rightarrow> audio_state \<Rightarrow> nat \<Rightarrow> nat \<Rightarrow> bool" where
  "rx_gated m cfg s alt_0 alt_1 \<equiv>
     audio_dc_interface m (dev_data s) alt_0 = Some ((dev_data s)\<lparr>rx_enable := False\<rparr>) \<and>
     (\<forall>ns. audio_receive_cbs cfg (s\<lparr>dev_data := (dev_data s)\<lparr>rx_enable := False\<rparr>\<rparr>) ns =
             Some (s\<lparr>dev_data := (dev_data s)\<lparr>rx_enable := False\<rparr>\<rparr>)) \<and>
     audio_dc_interface m ((dev_data s)\<lparr>rx_enable := False\<rparr>) alt_1 =
       Some ((dev_data s)\<lparr>rx_enable := True\<rparr>) \<and>
     (\<forall>env ep buffer cbs.
        usb_get_dev_data_by_ep cfg s ep \<and> alloc_result env = Some buffer \<and>
        read_ret env = 0 \<and> read_bytes env \<noteq> 0 \<and>
        ops (dev_data s) = Some cbs \<and> data_received_cb cbs \<longrightarrow>
        audio_receive_cb cfg env (s\<lparr>dev_data := (dev_data s)\<lparr>rx_enable := True\<rparr>\<rparr>) ep
            USB_DC_EP_DATA_OUT =
          Some (emit (Data_received_cb buffer (read_bytes env))
                 (emit (Usb_read ep buffer)
                   (emit Net_buf_alloc (s\<lparr>dev_data := (dev_data s)\<lparr>rx_enable := True\<rparr>\<rparr>)))))"

section \<open>Properties\<close>

lemmas desc_sizes = USB_PASSIVE_IF_DESC_SIZE_def USB_AC_CS_IF_DESC_SIZE_def
  USB_FORMAT_TYPE_I_DESC_SIZE_def USB_STD_AS_AD_EP_DESC_SIZE_def
  USB_CS_AS_AD_EP_DESC_SIZE_def USB_ACTIVE_IF_DESC_SIZE_def INPUT_TERMINAL_DESC_SIZE_def
  OUTPUT_TERMINAL_DESC_SIZE_def BMA_CONTROLS_OFFSET_def FU_FIXED_ELEMS_SIZE_def

lemmas field_offs = off_bLength_def off_bDescriptorType_def off_bDescriptorSubtype_def
  off_bEntityID_def off_bInterfaceNumber_def off_bAlternateSetting_def
  off_bEndpointAddress_def off_wTotalLength_def off_bInCollection_def
  off_baInterfaceNr_def off_bUnitID_def off_bmaControls_def off_wTerminalType_def

declare fix_fu_loop.simps [simp del] this_iface.simps [simp del]
  is_entity_valid_loop.simps [simp del] fu_req_loop.simps [simp del]

subsection \<open>Words and bytes\<close>

lemma u8_less_256: "unat (w :: u8) < 256"
  using unsigned_less [of w, where ?'a = nat] by simp

lemma unat_of_nat_u8: "n < 256 \<Longrightarrow> unat (of_nat n :: u8) = n"
  by (simp add: unat_of_nat)

lemma unat_of_nat_u16: "n < 65536 \<Longrightarrow> unat (of_nat n :: u16) = n"
  by (simp add: unat_of_nat)

lemma unat_ucast_u8_u32: "unat (ucast (l :: u8) :: u32) = unat l"
proof -
  have "unat l < 2 ^ 32" using u8_less_256 [of l] by simp
  then show ?thesis by (simp add: unsigned_ucast_eq take_bit_nat_eq_self)
qed

lemma num_channels_unat:
  assumes "7 \<le> unat (l :: u8)"
  shows "unat (ucast (((ucast l :: u32) - 7) div 2) :: u8) = (unat l - 7) div 2"
proof -
  let ?x = "ucast l :: u32"
  have ux: "unat ?x = unat l" by (rule unat_ucast_u8_u32)
  have "(7 :: u32) \<le> ?x" using assms ux by (simp add: word_le_nat_alt)
  then have "unat (?x - 7) = unat l - 7" using ux by (simp add: unat_sub)
  then have d: "unat ((?x - 7) div 2) = (unat l - 7) div 2" by (simp add: unat_div)
  have "(unat l - 7) div 2 < 2 ^ 8" using u8_less_256 [of l] by simp
  then show ?thesis using d by (simp add: unsigned_ucast_eq take_bit_nat_eq_self)
qed

lemma le16_lo: "ucast (le16 lo hi) = lo"
  unfolding le16_def by (rule bit_word_eqI) (auto simp: bit_simps)

lemma le16_hi: "ucast (drop_bit 8 (le16 lo hi)) = hi"
  unfolding le16_def by (rule bit_word_eqI) (auto simp: bit_simps dest: bit_imp_le_length)

lemma le16_bytes: "le16 (ucast v) (ucast (drop_bit 8 v)) = v"
  unfolding le16_def by (rule bit_word_eqI) (auto simp: bit_simps)

lemma CH_CNT_le: "CH_CNT p \<le> 12"
  by (simp add: CH_CNT_def COND_CODE_1_def)

subsection \<open>The copy loop of the descriptor fixup\<close>

lemma get_num_of_channels_eq:
  assumes "fu < length m" "7 \<le> unat (m ! fu)"
  shows "\<exists>c. get_num_of_channels m fu = Some c \<and> unat c = nch m fu"
  using assms
  by (simp add: get_num_of_channels_def rd8_def off_bLength_def FU_FIXED_ELEMS_SIZE_def
      sizeof_u16_def num_channels_unat nch_def)

text \<open>
  On a feature unit that lies inside the table, the loop started at \<open>i \<ge> 1\<close> returns,
  keeps the length of the table, writes the two bytes of \<open>bmaControls[0]\<close> over the
  elements \<open>i\<close> up to the channel count, and leaves every other byte as it was.
\<close>

lemma fix_fu_loop_frame:
  assumes "fu + unat (m ! fu) \<le> length m" and "7 \<le> unat (m ! fu)" and "1 \<le> i"
  shows "\<exists>m'. fix_fu_loop m fu i = Some m' \<and> length m' = length m \<and>
     (\<forall>k. m' ! k = (if fu + 6 + 2 * i \<le> k \<and> k < fu + 6 + 2 * nch m fu
                    then m ! (fu + 6 + (k - fu) mod 2) else m ! k))"
  using assms
proof (induction "nch m fu - i" arbitrary: m i)
  case 0
  from "0.prems" obtain c where c: "get_num_of_channels m fu = Some c" "unat c = nch m fu"
    using get_num_of_channels_eq [of fu m] by auto
  from 0 have "\<not> i < nch m fu" by simp
  then show ?case using c
    by (subst fix_fu_loop.simps) auto
next
  case (Suc d)
  from Suc.prems obtain c where c: "get_num_of_channels m fu = Some c" "unat c = nch m fu"
    using get_num_of_channels_eq [of fu m] by auto
  from Suc have lt: "i < nch m fu" by simp
  then have big: "2 * i + 9 \<le> unat (m ! fu)" by (simp add: nch_def)
  let ?lo = "m ! (fu + 6)" and ?hi = "m ! (fu + 6 + 1)"
  let ?a = "fu + 6 + 2 * i"
  let ?m1 = "m[?a := ?lo, ?a + 1 := ?hi]"
  have inb: "?a + 1 < length m" "fu + 6 + 1 < length m" using big Suc.prems by auto
  have rd: "rd16 m (fu + off_bmaControls) = Some (le16 ?lo ?hi)"
    using inb by (simp add: rd16_def rd8_def off_bmaControls_def)
  have wr: "wr16 m (fu + off_bmaControls + 2 * i) (le16 ?lo ?hi) = Some ?m1"
    using inb by (simp add: wr16_def wr8_def off_bmaControls_def le16_lo le16_hi)
  have step: "fix_fu_loop m fu i = fix_fu_loop ?m1 fu (i + 1)"
    using c lt rd wr by (subst fix_fu_loop.simps) simp
  have keep: "?m1 ! fu = m ! fu" using Suc.prems by simp
  then have nch1: "nch ?m1 fu = nch m fu" by (simp add: nch_def)
  have "\<exists>m'. fix_fu_loop ?m1 fu (i + 1) = Some m' \<and> length m' = length ?m1 \<and>
     (\<forall>k. m' ! k = (if fu + 6 + 2 * (i + 1) \<le> k \<and> k < fu + 6 + 2 * nch ?m1 fu
                    then ?m1 ! (fu + 6 + (k - fu) mod 2) else ?m1 ! k))"
  proof (rule Suc.hyps(1))
    show "d = nch ?m1 fu - (i + 1)" using Suc.hyps(2) nch1 by simp
    show "fu + unat (?m1 ! fu) \<le> length ?m1" using Suc.prems keep by simp
    show "7 \<le> unat (?m1 ! fu)" using Suc.prems keep by simp
    show "1 \<le> i + 1" by simp
  qed
  then obtain m' where m': "fix_fu_loop ?m1 fu (i + 1) = Some m'" "length m' = length m"
    and pt: "\<And>k. m' ! k = (if fu + 6 + 2 * (i + 1) \<le> k \<and> k < fu + 6 + 2 * nch m fu
                    then ?m1 ! (fu + 6 + (k - fu) mod 2) else ?m1 ! k)"
    using nch1 by auto
  have src: "\<And>x. x < 2 \<Longrightarrow> ?m1 ! (fu + 6 + x) = m ! (fu + 6 + x)"
    using Suc.prems(3) by simp
  have "m' ! k = (if fu + 6 + 2 * i \<le> k \<and> k < fu + 6 + 2 * nch m fu
                    then m ! (fu + 6 + (k - fu) mod 2) else m ! k)" for k
  proof (cases "fu + 6 + 2 * (i + 1) \<le> k \<and> k < fu + 6 + 2 * nch m fu")
    case True
    then show ?thesis using pt [of k] src [of "(k - fu) mod 2"] by simp
  next
    case False
    note F = this
    show ?thesis
    proof (cases "k = ?a")
      case True
      then have "(k - fu) mod 2 = 0" by simp
      then show ?thesis using pt [of k] F True lt inb by simp
    next
      case False
      note F2 = this
      show ?thesis
      proof (cases "k = ?a + 1")
        case True
        then have "(k - fu) mod 2 = 1" by (simp add: mod_Suc)
        then show ?thesis using pt [of k] F True lt inb by simp
      next
        case False
        then show ?thesis using pt [of k] F F2 by auto
      qed
    qed
  qed
  then show ?case using step m' by auto
qed

subsection \<open>Sending\<close>

text \<open>
  C9. Whenever \<open>usb_audio_send\<close> returns a negative status, one of its three checks
  failed (the first endpoint is not an IN endpoint, \<open>tx_enable\<close> is false, or \<open>len\<close>
  exceeds the size of the buffer), and the driver state is the one it was called
  with: no call to the transport, none to the buffer pool, none to the application,
  and no change of the device data.
\<close>

theorem usb_audio_send_negative_no_effect:
  assumes "usb_audio_send cfg s buffer len = Some (r, s')" and "r < 0"
  shows "s' = s \<and>
         (ep_addr (hd (endpoint cfg)) AND 0x80 = 0 \<or> \<not> tx_enable (dev_data s) \<or>
          (\<exists>b. buffer = Some b \<and> len > uint (buf_size b)))"
  using assms
  by (auto simp: usb_audio_send_def Let_def emit_def
      split: list.splits option.splits if_splits)

theorem usb_audio_send_negative_no_effect_witness:
  "usb_audio_send hs_cfg hs_state (Some hs_buf) 192 = Some (- 11, hs_state) \<and> (- 11 :: int) < 0"
proof -
  have run: "usb_audio_send hs_cfg hs_state (Some hs_buf) 192 = Some (- 11, hs_state)"
    by (simp add: usb_audio_send_def hs_cfg_def hs_state_def usb_audio_register_def
        hs_boot_def EAGAIN_def EINVAL_def)
  have neg: "(- 11 :: int) < 0" by simp
  from usb_audio_send_negative_no_effect [OF run neg] run neg show ?thesis by simp
qed

text \<open>
  C3. On a function whose first endpoint is an IN endpoint: with \<open>tx_enable\<close> false,
  \<open>usb_audio_send\<close> returns \<open>-EAGAIN\<close> and makes no call at all; with \<open>tx_enable\<close>
  true and \<open>len\<close> at most the size of the buffer, it returns 0 after exactly one call
  of the transport write, which carries the buffer as its completion argument. The
  completion callback \<open>audio_write_cb\<close> of a registered function then releases that
  buffer and, when \<open>data_written_cb\<close> is registered, calls it exactly once with the
  transmitted size (and not at all when it is not registered).
\<close>

theorem usb_audio_send_tx_gate:
  assumes "endpoint cfg = e # es" and "ep_addr e AND 0x80 \<noteq> 0"
  shows "(\<not> tx_enable (dev_data s) \<longrightarrow>
            usb_audio_send cfg s buffer len = Some (- EAGAIN, s)) \<and>
         (tx_enable (dev_data s) \<and> len \<le> uint (buf_size b) \<longrightarrow>
            usb_audio_send cfg s (Some b) len =
              Some (0, emit (Usb_transfer_write (ep_addr e) (buf_data b) len b) s) \<and>
            (registered s \<longrightarrow>
               audio_write_cb cfg (emit (Usb_transfer_write (ep_addr e) (buf_data b) len b) s)
                   (ep_addr e) sz b =
                 Some (if (\<exists>cbs. ops (dev_data s) = Some cbs \<and> data_written_cb cbs)
                       then emit (Data_written_cb sz) (emit (Net_buf_unref b)
                              (emit (Usb_transfer_write (ep_addr e) (buf_data b) len b) s))
                       else emit (Net_buf_unref b)
                              (emit (Usb_transfer_write (ep_addr e) (buf_data b) len b) s))))"
  using assms
  by (auto simp: usb_audio_send_def audio_write_cb_def usb_get_dev_data_by_ep_def
      Let_def emit_def split: option.splits)

theorem usb_audio_send_tx_gate_witness:
  "usb_audio_send hs_cfg hs_state (Some hs_buf) 192 = Some (- EAGAIN, hs_state) \<and>
   usb_audio_send hs_cfg (hs_state\<lparr>dev_data := (dev_data hs_state)\<lparr>tx_enable := True\<rparr>\<rparr>)
       (Some hs_buf) 192 =
     Some (0, emit (Usb_transfer_write 0x81 (buf_data hs_buf) 192 hs_buf)
                (hs_state\<lparr>dev_data := (dev_data hs_state)\<lparr>tx_enable := True\<rparr>\<rparr>)) \<and>
   audio_write_cb hs_cfg (emit (Usb_transfer_write 0x81 (buf_data hs_buf) 192 hs_buf)
       (hs_state\<lparr>dev_data := (dev_data hs_state)\<lparr>tx_enable := True\<rparr>\<rparr>)) 0x81 192 hs_buf =
     Some (emit (Data_written_cb 192) (emit (Net_buf_unref hs_buf)
            (emit (Usb_transfer_write 0x81 (buf_data hs_buf) 192 hs_buf)
              (hs_state\<lparr>dev_data := (dev_data hs_state)\<lparr>tx_enable := True\<rparr>\<rparr>))))"
proof -
  have ep: "endpoint hs_cfg = \<lparr>ep_addr = 0x81\<rparr> # [\<lparr>ep_addr = 0x01\<rparr>]"
    by (simp add: hs_cfg_def)
  have inb: "ep_addr \<lparr>ep_addr = 0x81\<rparr> AND (0x80 :: u8) \<noteq> 0" by simp
  note gate = usb_audio_send_tx_gate [OF ep inb]
  have off: "\<not> tx_enable (dev_data hs_state)"
    by (simp add: hs_state_def usb_audio_register_def hs_boot_def)
  let ?on = "hs_state\<lparr>dev_data := (dev_data hs_state)\<lparr>tx_enable := True\<rparr>\<rparr>"
  have on: "tx_enable (dev_data ?on) \<and> (192 :: int) \<le> uint (buf_size hs_buf)"
    by (simp add: hs_buf_def AUDIO_EP_SIZE_def)
  have reg: "registered ?on" by (simp add: hs_state_def usb_audio_register_def)
  have cb: "\<exists>cbs. ops (dev_data ?on) = Some cbs \<and> data_written_cb cbs"
    by (simp add: hs_state_def usb_audio_register_def hs_ops_def)
  from gate [of hs_state "Some hs_buf" 192 hs_buf 192] off
  have a: "usb_audio_send hs_cfg hs_state (Some hs_buf) 192 = Some (- EAGAIN, hs_state)"
    by simp
  from gate [of ?on "Some hs_buf" 192 hs_buf 192] on reg cb
  show ?thesis using a by simp
qed

subsection \<open>Feature unit requests\<close>

lemma GET_CUR_neq_SET_CUR: "GET_CUR \<noteq> SET_CUR"
  by (simp add: GET_CUR_def SET_CUR_def)

lemma option_bind_Some_id: "Option.bind x Some = x"
  by (cases x) simp_all

lemma unat_succ_u8:
  assumes "(w :: u8) \<noteq> 0xFF"
  shows "unat (w + 1) = Suc (unat w)"
proof -
  have "unat w \<noteq> unat (0xFF :: u8)" using assms by (simp add: word_unat_eq_iff)
  then have "unat w < 255" using u8_less_256 [of w] by simp
  then show ?thesis by (simp add: unat_word_ariths)
qed

text \<open>A selector other than \<open>MUTE_CONTROL\<close> takes the loop through without any effect.\<close>

lemma fu_req_loop_other:
  "cs \<noteq> MUTE_CONTROL \<Longrightarrow> fu_req_loop pSetup data dir device cs ch ch_end st = Some st"
proof (induction "ch_end - ch" arbitrary: ch)
  case 0
  then show ?case by (subst fu_req_loop.simps) simp
next
  case (Suc d)
  then have "fu_req_loop pSetup data dir device cs (ch + 1) ch_end st = Some st" by simp
  then show ?case using Suc.prems
    by (subst fu_req_loop.simps) (simp add: fu_req_channel_def split: prod.splits)
qed

text \<open>For an explicit channel the loop is one iteration.\<close>

lemma fu_req_loop_single:
  "fu_req_loop pSetup data dir device cs c (Suc c) st =
     fu_req_channel pSetup data dir device cs c st"
proof -
  have stop: "fu_req_loop pSetup data dir device cs (Suc c) (Suc c) = Some"
    by (rule ext) (subst fu_req_loop.simps, simp)
  show ?thesis
    by (subst fu_req_loop.simps) (simp add: stop option_bind_Some_id)
qed

lemma get_mute_set_mute:
  "set_mute s device ch v = Some s1 \<Longrightarrow> get_mute s1 device ch = Some v"
  by (auto simp: set_mute_def get_mute_def split: if_splits option.splits)

lemma get_mute_dev_data:
  "dev_data s1 = dev_data s0 \<Longrightarrow> get_mute s1 device ch = get_mute s0 device ch"
  by (simp add: get_mute_def)

lemma get_mute_tab:
  "device < length (controls (dev_data s)) \<Longrightarrow> controls (dev_data s) ! device = Some tab \<Longrightarrow>
   ch < length tab \<Longrightarrow> get_mute s device ch = Some (mute (tab ! ch))"
  by (simp add: get_mute_def)

lemma set_mute_frame:
  "set_mute s device ch v = Some s1 \<Longrightarrow>
     header_descr (dev_data s1) = header_descr (dev_data s) \<and>
     ops (dev_data s1) = ops (dev_data s) \<and>
     tmp_data_ptr s1 = tmp_data_ptr s \<and> tmp_overrun s1 = tmp_overrun s \<and> trace s1 = trace s"
  by (auto simp: set_mute_def split: if_splits option.splits)

lemma get_feature_unit_header:
  "header_descr d' = header_descr d \<Longrightarrow> get_feature_unit m d' fu_id = get_feature_unit m d fu_id"
  by (simp add: get_feature_unit_def)

lemma fu_req_channel_set:
  assumes "fu_req_channel pSetup data dir device MUTE_CONTROL c (s, off, r) = Some (s1, off', r')"
    and "bRequest pSetup = SET_CUR"
  shows "\<exists>v s0. request_byte data s (unat off) = Some v \<and> set_mute s device c v = Some s0 \<and>
           dev_data s1 = dev_data s0 \<and> tmp_data_ptr s1 = tmp_data_ptr s0"
  using assms
  by (auto simp: fu_req_channel_def Let_def emit_def split: Option.bind_splits if_splits)

lemma hs_table_bytes:
  "hs_table = [9, 4, 3, 0, 0, 1, 1, 0, 0, 10, 36, 1, 0, 1, 78, 0, 2, 4, 5, 12, 36, 2, 1,
  2, 4, 0, 2, 3, 0, 0, 0, 13, 36, 6, 2, 1, 2, 3, 0, 3, 0, 3, 0, 0, 9, 36, 3,
  3, 1, 1, 0, 2, 0, 12, 36, 2, 4, 1, 1, 0, 2, 3, 0, 0, 0, 13, 36, 6, 5, 4,
  2, 3, 0, 3, 0, 3, 0, 0, 9, 36, 3, 6, 2, 4, 0, 5, 0, 9, 4, 4, 0, 0, 1, 2,
  0, 0, 9, 4, 4, 1, 1, 1, 2, 0, 0, 7, 36, 1, 3, 0, 1, 0, 11, 36, 2, 1, 2, 2,
  16, 1, 128, 187, 0, 9, 5, 129, 1, 192, 0, 1, 0, 0, 7, 37, 1, 0, 0, 0, 0,
  9, 4, 5, 0, 0, 1, 2, 0, 0, 9, 4, 5, 1, 1, 1, 2, 0, 0, 7, 36, 1, 4, 0, 1,
  0, 11, 36, 2, 1, 2, 2, 16, 1, 128, 187, 0, 9, 5, 1, 1, 192, 0, 1, 0, 0, 7,
  37, 1, 0, 0, 0, 0]"
  by code_simp

text \<open>
  C4. A request to a feature unit whose explicit channel number (not the wildcard
  0xFF) is at least the unit's channel count, or whose selector bit is not in the
  unit's bitmap shifted left by one, returns \<open>-EINVAL\<close>, whatever its request code and
  payload; the driver state, \<open>*len\<close> and \<open>*data\<close> are as they were.
\<close>

theorem feature_unit_req_invalid_rejected:
  assumes "get_feature_unit m (dev_data s) (setup_fu_id pSetup) = Some (fu, device)"
    and "get_fu_dir m fu = Some dir"
    and "get_num_of_channels m fu = Some n"
    and "get_controls m fu = Some ctl"
    and "(setup_ch_num pSetup \<noteq> 0xFF \<and> unat n \<le> unat (setup_ch_num pSetup)) \<or>
         BIT (unat (setup_control_selector pSetup)) AND push_bit 1 (ucast ctl) = 0"
  shows "handle_feature_unit_req m s pSetup len data = Some (- EINVAL, s, len, data) \<and>
         - EINVAL < 0"
  using assms by (auto simp: handle_feature_unit_req_def Let_def EINVAL_def)

theorem feature_unit_req_invalid_rejected_witness:
  "handle_feature_unit_req hs_table hs_state (fu_request 0x21 SET_CUR MUTE_CONTROL 3 2 3 1) 1
       (Request_data [1]) = Some (- EINVAL, hs_state, 1, Request_data [1]) \<and>
   handle_feature_unit_req hs_table hs_state (fu_request 0xA1 GET_CUR 3 0 2 3 1) 1
       (Request_data []) = Some (- EINVAL, hs_state, 1, Request_data []) \<and>
   - EINVAL < 0"
proof -
  have loc: "get_feature_unit hs_table (dev_data hs_state)
      (setup_fu_id (fu_request 0x21 SET_CUR MUTE_CONTROL 3 2 3 1)) = Some (31, 0)"
    "get_feature_unit hs_table (dev_data hs_state)
      (setup_fu_id (fu_request 0xA1 GET_CUR 3 0 2 3 1)) = Some (31, 0)"
    by code_simp+
  have dir: "get_fu_dir hs_table 31 = Some IN" by code_simp
  have n: "get_num_of_channels hs_table 31 = Some 3" by code_simp
  have ctl: "get_controls hs_table 31 = Some 3" by code_simp
  have bad1: "(setup_ch_num (fu_request 0x21 SET_CUR MUTE_CONTROL 3 2 3 1) \<noteq> 0xFF \<and>
      unat (3 :: u8) \<le> unat (setup_ch_num (fu_request 0x21 SET_CUR MUTE_CONTROL 3 2 3 1))) \<or>
      BIT (unat (setup_control_selector (fu_request 0x21 SET_CUR MUTE_CONTROL 3 2 3 1)))
        AND push_bit 1 (ucast (3 :: u16)) = 0"
    by code_simp
  have bad2: "(setup_ch_num (fu_request 0xA1 GET_CUR 3 0 2 3 1) \<noteq> 0xFF \<and>
      unat (3 :: u8) \<le> unat (setup_ch_num (fu_request 0xA1 GET_CUR 3 0 2 3 1))) \<or>
      BIT (unat (setup_control_selector (fu_request 0xA1 GET_CUR 3 0 2 3 1)))
        AND push_bit 1 (ucast (3 :: u16)) = 0"
    by code_simp
  from feature_unit_req_invalid_rejected [OF loc(1) dir n ctl bad1]
       feature_unit_req_invalid_rejected [OF loc(2) dir n ctl bad2]
  show ?thesis by simp
qed

text \<open>
  C5, as the code has it. A request on a selector other than \<open>MUTE_CONTROL\<close> whose
  bit is set in the unit's bitmap, with a valid channel, passes the validation and
  changes no control state, but it is not accepted: no branch of the loop sets the
  return value, which stays at its initial \<open>-EINVAL\<close>. A device-to-host request
  also gets an empty reply (\<open>*len = 0\<close>, \<open>*data\<close> the static array).
\<close>

theorem feature_unit_req_other_selector:
  assumes "get_feature_unit m (dev_data s) (setup_fu_id pSetup) = Some (fu, device)"
    and "get_fu_dir m fu = Some dir"
    and "get_num_of_channels m fu = Some n"
    and "get_controls m fu = Some ctl"
    and "setup_control_selector pSetup \<noteq> MUTE_CONTROL"
    and "BIT (unat (setup_control_selector pSetup)) AND push_bit 1 (ucast ctl) \<noteq> 0"
    and "setup_ch_num pSetup = 0xFF \<or> unat (setup_ch_num pSetup) < unat n"
  shows "handle_feature_unit_req m s pSetup len data =
           Some (- EINVAL, s,
             if REQTYPE_GET_DIR (bmRequestType pSetup) = REQTYPE_DIR_TO_HOST then 0 else len,
             if REQTYPE_GET_DIR (bmRequestType pSetup) = REQTYPE_DIR_TO_HOST then Tmp_data else data)"
  using assms by (auto simp: handle_feature_unit_req_def Let_def fu_req_loop_other)

theorem feature_unit_req_other_selector_witness:
  "handle_feature_unit_req hs_table hs_state (fu_request 0x21 SET_CUR VOLUME_CONTROL 0 2 3 2) 2
       (Request_data [0, 0x80]) = Some (- EINVAL, hs_state, 2, Request_data [0, 0x80])"
proof -
  let ?r = "fu_request 0x21 SET_CUR VOLUME_CONTROL 0 2 3 2"
  have loc: "get_feature_unit hs_table (dev_data hs_state) (setup_fu_id ?r) = Some (31, 0)"
    by code_simp
  have dir: "get_fu_dir hs_table 31 = Some IN" by code_simp
  have n: "get_num_of_channels hs_table 31 = Some 3" by code_simp
  have ctl: "get_controls hs_table 31 = Some 3" by code_simp
  have sel: "setup_control_selector ?r \<noteq> MUTE_CONTROL" by code_simp
  have bit: "BIT (unat (setup_control_selector ?r)) AND push_bit 1 (ucast (3 :: u16)) \<noteq> 0"
    by code_simp
  have ch: "setup_ch_num ?r = 0xFF \<or> unat (setup_ch_num ?r) < unat (3 :: u8)"
    by code_simp
  have host: "REQTYPE_GET_DIR (bmRequestType ?r) \<noteq> REQTYPE_DIR_TO_HOST" by code_simp
  from feature_unit_req_other_selector [OF loc dir n ctl sel bit ch, of 2 "Request_data [0, 0x80]"] host
  show ?thesis by simp
qed

text \<open>
  The claim C5 as the specification states it (such a request returns 0) fails on the
  sample headset: the volume bit is in the bitmap of feature unit 2, channel 0 is
  valid, and \<open>GET_CUR\<close> on \<open>VOLUME_CONTROL\<close> returns \<open>-22\<close>.
\<close>

theorem feature_unit_req_other_selector_counterexample:
  "setup_control_selector (fu_request 0xA1 GET_CUR VOLUME_CONTROL 0 2 3 2) = VOLUME_CONTROL \<and>
   VOLUME_CONTROL \<noteq> MUTE_CONTROL \<and>
   get_feature_unit hs_table (dev_data hs_state)
     (setup_fu_id (fu_request 0xA1 GET_CUR VOLUME_CONTROL 0 2 3 2)) = Some (31, 0) \<and>
   get_controls hs_table 31 = Some 3 \<and>
   BIT (unat VOLUME_CONTROL) AND push_bit 1 (ucast (3 :: u16)) \<noteq> 0 \<and>
   get_num_of_channels hs_table 31 = Some 3 \<and>
   unat (setup_ch_num (fu_request 0xA1 GET_CUR VOLUME_CONTROL 0 2 3 2)) < unat (3 :: u8) \<and>
   handle_feature_unit_req hs_table hs_state (fu_request 0xA1 GET_CUR VOLUME_CONTROL 0 2 3 2) 2
       (Request_data []) = Some (- 22, hs_state, 0, Tmp_data)"
  by code_simp

text \<open>
  C1. On a feature unit whose bitmap has the mute bit, for a valid channel of the
  unit: when a \<open>SET_CUR\<close> request on \<open>MUTE_CONTROL\<close> with the one-byte payload \<open>v\<close>
  has returned 0, a device-to-host \<open>GET_CUR\<close> request with the same \<open>wValue\<close> and
  \<open>wIndex\<close> returns 0 with a reply of length 1 in the static array, whose byte is
  \<open>v\<close>.
\<close>

theorem mute_set_then_get:
  assumes loc: "get_feature_unit m (dev_data s) (setup_fu_id set_req) = Some (fu, device)"
    and dir: "get_fu_dir m fu = Some dir"
    and n: "get_num_of_channels m fu = Some n"
    and ctl: "get_controls m fu = Some ctl"
    and mute_bit: "BIT (unat MUTE_CONTROL) AND push_bit 1 (ucast ctl) \<noteq> 0"
    and sel: "setup_control_selector set_req = MUTE_CONTROL"
    and ch: "setup_ch_num set_req \<noteq> 0xFF" "unat (setup_ch_num set_req) < unat n"
    and set_cur: "bRequest set_req = SET_CUR"
    and tmp: "length (tmp_data_ptr s) = 3"
    and ok: "handle_feature_unit_req m s set_req 1 (Request_data [v]) = Some (0, s1, len1, data1)"
    and get_cur: "bRequest get_req = GET_CUR"
    and same: "wValue get_req = wValue set_req" "wIndex get_req = wIndex set_req"
    and to_host: "REQTYPE_GET_DIR (bmRequestType get_req) = REQTYPE_DIR_TO_HOST"
  shows "handle_feature_unit_req m s1 get_req len2 data2 =
           Some (0, tmp_store s1 0 v, 1, Tmp_data) \<and>
         request_byte Tmp_data (tmp_store s1 0 v) 0 = Some v"
proof -
  let ?c = "unat (setup_ch_num set_req)"
  have end1: "unat (setup_ch_num set_req + 1) = Suc ?c"
    using ch(1) by (rule unat_succ_u8)
  have valid: "\<not> (unat n \<le> ?c \<and> setup_ch_num set_req \<noteq> 0xFF)" using ch by simp
  from ok loc dir n ctl mute_bit sel ch(1) valid end1
  have chan: "\<exists>off. fu_req_channel set_req (Request_data [v]) dir device MUTE_CONTROL ?c
              (s, 0, - EINVAL) = Some (s1, off, 0)"
    by (auto simp: handle_feature_unit_req_def Let_def fu_req_loop_single
        split: if_splits Option.bind_splits prod.splits)
  then obtain off where off: "fu_req_channel set_req (Request_data [v]) dir device MUTE_CONTROL ?c
              (s, 0, - EINVAL) = Some (s1, off, 0)" by auto
  from fu_req_channel_set [OF off set_cur]
  obtain s0 where s0: "set_mute s device ?c v = Some s0"
    and dd: "dev_data s1 = dev_data s0" and tt: "tmp_data_ptr s1 = tmp_data_ptr s0"
    by (auto simp: request_byte_def)
  have gm: "get_mute s1 device ?c = Some v"
    using get_mute_set_mute [OF s0] get_mute_dev_data [OF dd] by simp
  have hd: "header_descr (dev_data s1) = header_descr (dev_data s)"
    using set_mute_frame [OF s0] dd by simp
  have tmp1: "length (tmp_data_ptr s1) = 3"
    using set_mute_frame [OF s0] tt tmp by simp
  have fields: "setup_fu_id get_req = setup_fu_id set_req"
    "setup_ch_num get_req = setup_ch_num set_req"
    "setup_control_selector get_req = setup_control_selector set_req"
    using same by (simp_all add: setup_fu_id_def setup_ch_num_def setup_control_selector_def)
  have loc1: "get_feature_unit m (dev_data s1) (setup_fu_id get_req) = Some (fu, device)"
    using loc get_feature_unit_header [OF hd] fields by simp
  have chan_get: "fu_req_channel get_req data2 dir device MUTE_CONTROL ?c (s1, 0, - EINVAL)
      = Some (tmp_store s1 0 v, 1, 0)"
    using get_cur gm by (simp add: fu_req_channel_def GET_CUR_neq_SET_CUR)
  have res: "handle_feature_unit_req m s1 get_req len2 data2 = Some (0, tmp_store s1 0 v, 1, Tmp_data)"
    using loc1 dir n ctl mute_bit sel ch(1) valid end1 fields to_host chan_get
    by (simp add: handle_feature_unit_req_def Let_def fu_req_loop_single)
  have "request_byte Tmp_data (tmp_store s1 0 v) 0 = Some v"
    using tmp1 by (simp add: request_byte_def tmp_store_def)
  then show ?thesis using res by simp
qed

theorem mute_set_then_get_witness:
  "handle_feature_unit_req hs_table hs_state (fu_request 0x21 SET_CUR MUTE_CONTROL 1 2 3 1) 1
       (Request_data [1]) = Some (0, hs_muted, 1, Request_data [1]) \<and>
   handle_feature_unit_req hs_table hs_muted (fu_request 0xA1 GET_CUR MUTE_CONTROL 1 2 3 1) 1
       (Request_data []) = Some (0, tmp_store hs_muted 0 1, 1, Tmp_data) \<and>
   request_byte Tmp_data (tmp_store hs_muted 0 1) 0 = Some 1"
proof -
  let ?set = "fu_request 0x21 SET_CUR MUTE_CONTROL 1 2 3 1"
  let ?get = "fu_request 0xA1 GET_CUR MUTE_CONTROL 1 2 3 1"
  have loc: "get_feature_unit hs_table (dev_data hs_state) (setup_fu_id ?set) = Some (31, 0)"
    by code_simp
  have dir: "get_fu_dir hs_table 31 = Some IN" by code_simp
  have n: "get_num_of_channels hs_table 31 = Some 3" by code_simp
  have ctl: "get_controls hs_table 31 = Some 3" by code_simp
  have bit: "BIT (unat MUTE_CONTROL) AND push_bit 1 (ucast (3 :: u16)) \<noteq> 0" by code_simp
  have sel: "setup_control_selector ?set = MUTE_CONTROL" by code_simp
  have ch: "setup_ch_num ?set \<noteq> 0xFF" "unat (setup_ch_num ?set) < unat (3 :: u8)"
    by code_simp+
  have set_cur: "bRequest ?set = SET_CUR" by code_simp
  have tmp: "length (tmp_data_ptr hs_state) = 3" by code_simp
  have ok: "handle_feature_unit_req hs_table hs_state ?set 1 (Request_data [1]) =
      Some (0, hs_muted, 1, Request_data [1])"
    by code_simp
  have get_cur: "bRequest ?get = GET_CUR" by code_simp
  have same: "wValue ?get = wValue ?set" "wIndex ?get = wIndex ?set" by code_simp+
  have host: "REQTYPE_GET_DIR (bmRequestType ?get) = REQTYPE_DIR_TO_HOST" by code_simp
  from mute_set_then_get [OF loc dir n ctl bit sel ch set_cur tmp ok get_cur same host,
      of 1 "Request_data []"] ok
  show ?thesis by simp
qed

text \<open>
  The loop over the channels for \<open>GET_CUR\<close> on \<open>MUTE_CONTROL\<close>, started with
  \<open>data_offset = k\<close>: it stores the mute flag of each channel at consecutive
  indices of the static array, counts them in \<open>data_offset\<close>, and every store at an
  index of 3 or more falls outside the array.
\<close>

lemma fu_req_loop_get:
  assumes "bRequest pSetup = GET_CUR"
    and "device < length (controls (dev_data s))"
    and "controls (dev_data s) ! device = Some tab"
    and "ch_end \<le> length tab"
    and "length (tmp_data_ptr s) = 3"
    and "k + (ch_end - ch) < 256"
  shows "\<exists>s'. fu_req_loop pSetup data dir device MUTE_CONTROL ch ch_end (s, of_nat k, ret) =
           Some (s', of_nat (k + (ch_end - ch)), if ch < ch_end then 0 else ret) \<and>
         dev_data s' = dev_data s \<and> trace s' = trace s \<and> registered s' = registered s \<and>
         length (tmp_data_ptr s') = 3 \<and>
         (\<forall>i<3. tmp_data_ptr s' ! i =
            (if k \<le> i \<and> i < k + (ch_end - ch) then mute (tab ! (ch + (i - k)))
             else tmp_data_ptr s ! i)) \<and>
         tmp_overrun s' = tmp_overrun s @
            map (\<lambda>j. (j, mute (tab ! (ch + (j - k))))) [max 3 k ..< k + (ch_end - ch)]"
  using assms
proof (induction "ch_end - ch" arbitrary: ch k s ret)
  case 0
  then show ?case by (subst fu_req_loop.simps) auto
next
  case (Suc d)
  from Suc.hyps(2) have lt: "ch < ch_end" by simp
  let ?v = "mute (tab ! ch)"
  let ?s1 = "tmp_store s k ?v"
  have k: "unat (of_nat k :: u8) = k" using Suc.prems(6) lt by (simp add: unat_of_nat)
  have chan: "fu_req_channel pSetup data dir device MUTE_CONTROL ch (s, of_nat k, ret) =
      Some (?s1, of_nat (k + 1), 0)"
    using Suc.prems lt k
    by (simp add: fu_req_channel_def GET_CUR_neq_SET_CUR get_mute_tab)
  have dd1: "dev_data ?s1 = dev_data s" "trace ?s1 = trace s" "registered ?s1 = registered s"
    "length (tmp_data_ptr ?s1) = 3"
    using Suc.prems(5) by (simp_all add: tmp_store_def)
  have "\<exists>s'. fu_req_loop pSetup data dir device MUTE_CONTROL (ch + 1) ch_end (?s1, of_nat (k + 1), 0) =
           Some (s', of_nat (k + 1 + (ch_end - (ch + 1))), if ch + 1 < ch_end then 0 else 0) \<and>
         dev_data s' = dev_data ?s1 \<and> trace s' = trace ?s1 \<and> registered s' = registered ?s1 \<and>
         length (tmp_data_ptr s') = 3 \<and>
         (\<forall>i<3. tmp_data_ptr s' ! i =
            (if k + 1 \<le> i \<and> i < k + 1 + (ch_end - (ch + 1)) then mute (tab ! (ch + 1 + (i - (k + 1))))
             else tmp_data_ptr ?s1 ! i)) \<and>
         tmp_overrun s' = tmp_overrun ?s1 @
            map (\<lambda>j. (j, mute (tab ! (ch + 1 + (j - (k + 1)))))) [max 3 (k + 1) ..< k + 1 + (ch_end - (ch + 1))]"
  proof (rule Suc.hyps(1))
    show "d = ch_end - (ch + 1)" using Suc.hyps(2) by simp
    show "bRequest pSetup = GET_CUR" by (rule Suc.prems(1))
    show "device < length (controls (dev_data ?s1))" using Suc.prems(2) dd1 by simp
    show "controls (dev_data ?s1) ! device = Some tab" using Suc.prems(3) dd1 by simp
    show "ch_end \<le> length tab" by (rule Suc.prems(4))
    show "length (tmp_data_ptr ?s1) = 3" by (rule dd1(4))
    show "k + 1 + (ch_end - (ch + 1)) < 256" using Suc.prems(6) lt by simp
  qed
  then obtain s' where
    run: "fu_req_loop pSetup data dir device MUTE_CONTROL (ch + 1) ch_end (?s1, of_nat (k + 1), 0) =
           Some (s', of_nat (k + 1 + (ch_end - (ch + 1))), 0)"
    and fr: "dev_data s' = dev_data s" "trace s' = trace s" "registered s' = registered s"
      "length (tmp_data_ptr s') = 3"
    and pt: "\<And>i. i < 3 \<Longrightarrow> tmp_data_ptr s' ! i =
            (if k + 1 \<le> i \<and> i < k + 1 + (ch_end - (ch + 1)) then mute (tab ! (ch + 1 + (i - (k + 1))))
             else tmp_data_ptr ?s1 ! i)"
    and ov: "tmp_overrun s' = tmp_overrun ?s1 @
            map (\<lambda>j. (j, mute (tab ! (ch + 1 + (j - (k + 1)))))) [max 3 (k + 1) ..< k + 1 + (ch_end - (ch + 1))]"
    using dd1 by auto
  have len: "k + 1 + (ch_end - (ch + 1)) = k + (ch_end - ch)" using lt by simp
  have step: "fu_req_loop pSetup data dir device MUTE_CONTROL ch ch_end (s, of_nat k, ret) =
      Some (s', of_nat (k + (ch_end - ch)), 0)"
    using lt chan run len by (subst fu_req_loop.simps) simp
  have pt': "tmp_data_ptr s' ! i =
            (if k \<le> i \<and> i < k + (ch_end - ch) then mute (tab ! (ch + (i - k)))
             else tmp_data_ptr s ! i)" if "i < 3" for i
  proof (cases "i = k")
    case True
    then show ?thesis using pt [OF that] that lt Suc.prems(5) by (auto simp: tmp_store_def)
  next
    case False
    then have "tmp_data_ptr ?s1 ! i = tmp_data_ptr s ! i" by (simp add: tmp_store_def)
    moreover have "k + 1 \<le> i \<Longrightarrow> ch + 1 + (i - (k + 1)) = ch + (i - k)" by simp
    ultimately show ?thesis using pt [OF that] False len by auto
  qed
  have idx: "\<And>j. k + 1 \<le> j \<Longrightarrow> ch + 1 + (j - (k + 1)) = ch + (j - k)" by simp
  have mapeq: "map (\<lambda>j. (j, mute (tab ! (ch + 1 + (j - (k + 1)))))) [max 3 (k + 1) ..< k + (ch_end - ch)]
      = map (\<lambda>j. (j, mute (tab ! (ch + (j - k))))) [max 3 (k + 1) ..< k + (ch_end - ch)]"
  proof (rule map_cong [OF refl])
    fix j assume "j \<in> set [max 3 (k + 1) ..< k + (ch_end - ch)]"
    then have "k + 1 \<le> j" by auto
    then show "(j, mute (tab ! (ch + 1 + (j - (k + 1))))) = (j, mute (tab ! (ch + (j - k))))"
      using idx [of j] by simp
  qed
  note ov2 = ov [unfolded len mapeq]
  have ov': "tmp_overrun s' = tmp_overrun s @
            map (\<lambda>j. (j, mute (tab ! (ch + (j - k))))) [max 3 k ..< k + (ch_end - ch)]"
  proof (cases "k < 3")
    case True
    then have e: "tmp_overrun ?s1 = tmp_overrun s" "max 3 (k + 1) = max 3 k"
      using Suc.prems(5) by (simp_all add: tmp_store_def)
    show ?thesis using ov2 by (simp only: e)
  next
    case False
    then have a: "tmp_overrun ?s1 = tmp_overrun s @ [(k, ?v)]"
      using Suc.prems(5) by (simp add: tmp_store_def)
    from False have mx: "max 3 (k + 1) = k + 1" "max 3 k = k" by simp_all
    have "k < k + (ch_end - ch)" using lt by simp
    then have u: "[k ..< k + (ch_end - ch)] = k # [k + 1 ..< k + (ch_end - ch)]"
      by (simp only: upt_conv_Cons Suc_eq_plus1)
    show ?thesis using ov2 by (simp only: a mx u) simp
  qed
  show ?case using step fr pt' ov' lt by auto
qed

text \<open>
  C10. A device-to-host \<open>GET_CUR\<close> request on \<open>MUTE_CONTROL\<close> that passes the
  validation, on a unit whose controls table covers its channels: the reply is the
  static array and its length is the number of channels requested (1 for an explicit
  channel, the channel count for the wildcard); the mute flag of the \<open>i\<close>-th
  requested channel is stored at index \<open>i\<close>; the stores at the indices from 3 on fall
  outside the three bytes of the array, so all stores are in bounds exactly when at
  most 3 channels are requested. Neither the device data nor the trace changes.
\<close>

theorem mute_get_cur_reply:
  assumes loc: "get_feature_unit m (dev_data s) (setup_fu_id pSetup) = Some (fu, device)"
    and dir: "get_fu_dir m fu = Some dir"
    and n: "get_num_of_channels m fu = Some n"
    and ctl: "get_controls m fu = Some ctl"
    and sel: "setup_control_selector pSetup = MUTE_CONTROL"
    and mute_bit: "BIT (unat MUTE_CONTROL) AND push_bit 1 (ucast ctl) \<noteq> 0"
    and ch: "setup_ch_num pSetup = 0xFF \<or> unat (setup_ch_num pSetup) < unat n"
    and get_cur: "bRequest pSetup = GET_CUR"
    and to_host: "REQTYPE_GET_DIR (bmRequestType pSetup) = REQTYPE_DIR_TO_HOST"
    and tab: "device < length (controls (dev_data s))"
             "controls (dev_data s) ! device = Some tab" "unat n \<le> length tab"
    and tmp: "length (tmp_data_ptr s) = 3"
  shows "\<exists>s'. handle_feature_unit_req m s pSetup len data =
             Some (if requested_channels pSetup n = [] then - EINVAL else 0, s',
                   int (length (requested_channels pSetup n)), Tmp_data) \<and>
           dev_data s' = dev_data s \<and> trace s' = trace s \<and>
           length (tmp_data_ptr s') = 3 \<and>
           (\<forall>i<3. i < length (requested_channels pSetup n) \<longrightarrow>
              tmp_data_ptr s' ! i = mute (tab ! (requested_channels pSetup n ! i))) \<and>
           tmp_overrun s' = tmp_overrun s @
              map (\<lambda>i. (i, mute (tab ! (requested_channels pSetup n ! i))))
                [3 ..< length (requested_channels pSetup n)] \<and>
           (tmp_overrun s' = tmp_overrun s \<longleftrightarrow> length (requested_channels pSetup n) \<le> 3)"
proof -
  let ?chn = "setup_ch_num pSetup"
  define start where "start = (if ?chn = 0xFF then 0 else unat ?chn)"
  define stop where "stop = (if ?chn = 0xFF then unat n else Suc (unat ?chn))"
  have le: "start \<le> stop" "stop \<le> length tab" "stop - start < 256"
    using ch tab(3) u8_less_256 [of n] by (auto simp: start_def stop_def)
  have chs: "requested_channels pSetup n = [start ..< stop]"
    by (simp add: requested_channels_def start_def stop_def)
  have bounds: "unat (if ?chn = 0xFF then 0 else ?chn) = start"
    "unat (if ?chn = 0xFF then n else ?chn + 1) = stop"
    by (simp_all add: start_def stop_def unat_succ_u8)
  from fu_req_loop_get [of pSetup device s tab stop 0 start data dir "- EINVAL",
      OF get_cur tab(1) tab(2) le(2) tmp] le(3)
  obtain s' where
    run: "fu_req_loop pSetup data dir device MUTE_CONTROL start stop (s, 0, - EINVAL) =
           Some (s', of_nat (stop - start), if start < stop then 0 else - EINVAL)"
    and fr: "dev_data s' = dev_data s" "trace s' = trace s" "length (tmp_data_ptr s') = 3"
    and pt: "\<And>i. i < 3 \<Longrightarrow> tmp_data_ptr s' ! i =
            (if i < stop - start then mute (tab ! (start + i)) else tmp_data_ptr s ! i)"
    and ov: "tmp_overrun s' = tmp_overrun s @
            map (\<lambda>j. (j, mute (tab ! (start + j)))) [3 ..< stop - start]"
    by auto
  have valid: "(unat n \<le> unat ?chn \<and> ?chn \<noteq> 0xFF) = False" using ch by auto
  have cnt: "uint (of_nat (stop - start) :: u8) = int (stop - start)"
    using le(3) by (simp add: uint_nat unat_of_nat)
  have res: "handle_feature_unit_req m s pSetup len data =
      Some (if start < stop then 0 else - EINVAL, s', int (stop - start), Tmp_data)"
    using loc dir n ctl sel mute_bit to_host run cnt bounds
    by (simp add: handle_feature_unit_req_def Let_def valid)
  have mapeq: "map (\<lambda>i. (i, mute (tab ! ([start ..< stop] ! i)))) [3 ..< stop - start] =
      map (\<lambda>j. (j, mute (tab ! (start + j)))) [3 ..< stop - start]"
    by (rule map_cong [OF refl]) auto
  have ovi: "(tmp_overrun s' = tmp_overrun s) = (stop - start \<le> 3)"
    unfolding ov by auto
  show ?thesis
    unfolding chs using res fr pt ov ovi by (auto simp: mapeq)
qed

theorem mute_get_cur_reply_witness:
  "\<exists>s'. handle_feature_unit_req hs_table hs_muted (fu_request 0xA1 GET_CUR MUTE_CONTROL 0xFF 2 3 3)
             3 (Request_data []) = Some (0, s', 3, Tmp_data) \<and>
        dev_data s' = dev_data hs_muted \<and> trace s' = trace hs_muted \<and>
        tmp_data_ptr s' = [0, 1, 0] \<and> tmp_overrun s' = []"
proof -
  let ?get = "fu_request 0xA1 GET_CUR MUTE_CONTROL 0xFF 2 3 3"
  let ?tab = "[zero_controls, zero_controls\<lparr>mute := 1\<rparr>, zero_controls]"
  have loc: "get_feature_unit hs_table (dev_data hs_muted) (setup_fu_id ?get) = Some (31, 0)"
    by code_simp
  have dir: "get_fu_dir hs_table 31 = Some IN" by code_simp
  have n: "get_num_of_channels hs_table 31 = Some 3" by code_simp
  have ctl: "get_controls hs_table 31 = Some 3" by code_simp
  have sel: "setup_control_selector ?get = MUTE_CONTROL" by code_simp
  have bit: "BIT (unat MUTE_CONTROL) AND push_bit 1 (ucast (3 :: u16)) \<noteq> 0" by code_simp
  have ch: "setup_ch_num ?get = 0xFF \<or> unat (setup_ch_num ?get) < unat (3 :: u8)"
    by code_simp
  have get_cur: "bRequest ?get = GET_CUR" by code_simp
  have host: "REQTYPE_GET_DIR (bmRequestType ?get) = REQTYPE_DIR_TO_HOST" by code_simp
  have tab: "0 < length (controls (dev_data hs_muted))"
    "controls (dev_data hs_muted) ! 0 = Some ?tab" "unat (3 :: u8) \<le> length ?tab"
    by code_simp+
  have tmp: "length (tmp_data_ptr hs_muted) = 3" by code_simp
  have chs: "requested_channels ?get 3 = [0, 1, 2]" by code_simp
  have ov: "tmp_overrun hs_muted = []" by code_simp
  from mute_get_cur_reply [OF loc dir n ctl sel bit ch get_cur host tab tmp,
      of 3 "Request_data []"]
  obtain s' where run: "handle_feature_unit_req hs_table hs_muted ?get 3 (Request_data []) =
        Some (0, s', 3, Tmp_data)"
    and fr: "dev_data s' = dev_data hs_muted" "trace s' = trace hs_muted"
      "length (tmp_data_ptr s') = 3"
    and pt: "\<And>i. i < 3 \<Longrightarrow> tmp_data_ptr s' ! i = mute (?tab ! ([0, 1, 2] ! i))"
    and over: "tmp_overrun s' = []"
    unfolding chs using ov by auto
  have "tmp_data_ptr s' ! 0 = 0" "tmp_data_ptr s' ! 1 = 1" "tmp_data_ptr s' ! 2 = 0"
    using pt [of 0] pt [of 1] pt [of 2] by (simp_all add: zero_controls_def)
  then have "tmp_data_ptr s' = [0, 1, 0]"
    using fr(3) by (intro nth_equalityI) (auto simp: less_Suc_eq numeral_3_eq_3 numeral_2_eq_2)
  then show ?thesis using run fr over by auto
qed

subsection \<open>Entity validity\<close>

text \<open>
  C8. The walk of \<open>is_entity_valid\<close> reports identifiers that name no entity of the
  function. In the build with one headphones and one microphone function, the
  entities of the microphone function are 4, 5 and 6, and of the headphones function
  1, 2 and 3. For the microphone function and the identifier 1 the walk returns true
  with subtype 2: it stops at the format descriptor of the streaming interface, whose
  fourth byte is \<open>bFormatType = 1\<close> and whose subtype \<open>FORMAT_TYPE\<close> has the value of
  \<open>INPUT_TERMINAL\<close>. For the headphones function and the identifier 5 the walk
  returns true with subtype \<open>FEATURE_UNIT\<close>: it runs past the end of the function's
  descriptor into the microphone function's. Only an identifier that matches nowhere
  up to the zero-length header, such as 9, is reported as not found.
\<close>

theorem is_entity_valid_finds_non_entities:
  "function_entities hp_mic_table (length hp_desc) (DECLARE_DESCRIPTOR hs_inst) =
     [(4, INPUT_TERMINAL), (5, FEATURE_UNIT), (6, OUTPUT_TERMINAL)] \<and>
   is_entity_valid hp_mic_table (length hp_desc) \<lparr>subtype = 0, ent_id = 1\<rparr> =
     Some (True, \<lparr>subtype = FORMAT_TYPE, ent_id = 1\<rparr>) \<and>
   function_entities hp_mic_table 0 (DECLARE_DESCRIPTOR hs_inst) =
     [(1, INPUT_TERMINAL), (2, FEATURE_UNIT), (3, OUTPUT_TERMINAL)] \<and>
   is_entity_valid hp_mic_table 0 \<lparr>subtype = 0, ent_id = 5\<rparr> =
     Some (True, \<lparr>subtype = FEATURE_UNIT, ent_id = 5\<rparr>) \<and>
   is_entity_valid hp_mic_table 0 \<lparr>subtype = 0, ent_id = 9\<rparr> =
     Some (False, \<lparr>subtype = 0, ent_id = 9\<rparr>)"
  by code_simp

subsection \<open>Descriptor fixup on a table\<close>

lemma rd8_nth: "a < length m \<Longrightarrow> rd8 m a = Some (m ! a)"
  by (simp add: rd8_def)

lemma wr8_upd: "a < length m \<Longrightarrow> wr8 m a v = Some (m[a := v])"
  by (simp add: wr8_def)

lemma rd16_nth: "a + 1 < length m \<Longrightarrow> rd16 m a = Some (le16 (m ! a) (m ! (a + 1)))"
  by (simp add: rd16_def rd8_def)

text \<open>
  \<open>fix_fu_descriptors\<close> on a function with one feature unit, whose header has length
  \<open>hl\<close>, and on a function with two. \<open>fu\<close> and \<open>fu2\<close> are where the driver looks for
  the units.
\<close>

lemma fix_fu_descriptors_one:
  assumes hl: "head + 9 < length m" "unat (m ! (head + 9)) = hl" "8 \<le> hl"
    and fu: "fu = head + 21 + hl" "fu + unat (m ! fu) \<le> length m" "7 \<le> unat (m ! fu)"
    and one: "m ! (head + 16) \<noteq> 2"
  shows "\<exists>m'. fix_fu_descriptors m head = Some m' \<and> length m' = length m \<and>
     (\<forall>k. m' ! k = (if fu + 8 \<le> k \<and> k < fu + 6 + 2 * nch m fu
                    then m ! (fu + 6 + (k - fu) mod 2) else m ! k))"
proof -
  from fix_fu_loop_frame [OF fu(2) fu(3), of 1]
  obtain m1 where m1: "fix_fu_loop m fu 1 = Some m1" "length m1 = length m"
    and pt: "\<And>k. m1 ! k = (if fu + 8 \<le> k \<and> k < fu + 6 + 2 * nch m fu
                    then m ! (fu + 6 + (k - fu) mod 2) else m ! k)"
    by auto
  have c: "m1 ! (head + 16) = m ! (head + 16)" using pt [of "head + 16"] fu(1) by simp
  have inb: "head + 16 < length m" using fu by simp
  have "fix_fu_descriptors m head = Some m1"
    using hl fu(1) m1 c one inb
    by (simp add: fix_fu_descriptors_def Let_def rd8_nth desc_sizes field_offs ac_simps)
  then show ?thesis using m1 pt by auto
qed

lemma fix_fu_descriptors_two:
  assumes hl: "head + 9 < length m" "unat (m ! (head + 9)) = hl" "8 \<le> hl"
    and fu: "fu = head + 21 + hl" "7 \<le> unat (m ! fu)"
    and fu2: "fu2 = fu + unat (m ! fu) + 21" "fu2 + unat (m ! fu2) \<le> length m"
      "7 \<le> unat (m ! fu2)"
    and two: "m ! (head + 16) = 2"
  shows "\<exists>m'. fix_fu_descriptors m head = Some m' \<and> length m' = length m \<and>
     (\<forall>k. m' ! k = (if fu + 8 \<le> k \<and> k < fu + 6 + 2 * nch m fu
                    then m ! (fu + 6 + (k - fu) mod 2)
                    else if fu2 + 8 \<le> k \<and> k < fu2 + 6 + 2 * nch m fu2
                    then m ! (fu2 + 6 + (k - fu2) mod 2) else m ! k))"
proof -
  have fu_in: "fu + unat (m ! fu) \<le> length m" using fu2 by simp
  from fix_fu_loop_frame [OF fu_in fu(2), of 1]
  obtain m1 where m1: "fix_fu_loop m fu 1 = Some m1" "length m1 = length m"
    and pt: "\<And>k. m1 ! k = (if fu + 8 \<le> k \<and> k < fu + 6 + 2 * nch m fu
                    then m ! (fu + 6 + (k - fu) mod 2) else m ! k)"
    by auto
  have top: "fu + 6 + 2 * nch m fu < fu + unat (m ! fu)"
    using fu(2) by (simp add: nch_def)
  have c: "m1 ! (head + 16) = m ! (head + 16)" using pt [of "head + 16"] fu(1) by simp
  have l: "m1 ! fu = m ! fu" using pt [of fu] by simp
  have l2: "m1 ! fu2 = m ! fu2" using pt [of fu2] fu2(1) top by simp
  have src: "\<And>x. x < 2 \<Longrightarrow> m1 ! (fu2 + 6 + x) = m ! (fu2 + 6 + x)"
    using pt fu2(1) top by simp
  have n2: "nch m1 fu2 = nch m fu2" using l2 by (simp add: nch_def)
  have "fu2 + unat (m1 ! fu2) \<le> length m1" "7 \<le> unat (m1 ! fu2)"
    using fu2 l2 m1(2) by simp_all
  from fix_fu_loop_frame [OF this, of 1]
  obtain m2 where m2: "fix_fu_loop m1 fu2 1 = Some m2" "length m2 = length m"
    and pt2: "\<And>k. m2 ! k = (if fu2 + 8 \<le> k \<and> k < fu2 + 6 + 2 * nch m fu2
                    then m1 ! (fu2 + 6 + (k - fu2) mod 2) else m1 ! k)"
    using m1(2) n2 by auto
  have inb: "head + 16 < length m" "fu < length m" using fu fu2 by simp_all
  have run: "fix_fu_descriptors m head = Some m2"
    using hl fu(1) fu2(1) m1 m2 c l two inb
    by (simp add: fix_fu_descriptors_def Let_def rd8_nth desc_sizes field_offs ac_simps)
  have "m2 ! k = (if fu + 8 \<le> k \<and> k < fu + 6 + 2 * nch m fu
                    then m ! (fu + 6 + (k - fu) mod 2)
                    else if fu2 + 8 \<le> k \<and> k < fu2 + 6 + 2 * nch m fu2
                    then m ! (fu2 + 6 + (k - fu2) mod 2) else m ! k)" for k
  proof (cases "fu2 + 8 \<le> k \<and> k < fu2 + 6 + 2 * nch m fu2")
    case True
    then have "\<not> (fu + 8 \<le> k \<and> k < fu + 6 + 2 * nch m fu)" using fu2(1) top by simp
    then show ?thesis using True pt2 [of k] src [of "(k - fu2) mod 2"] by auto
  next
    case False
    then show ?thesis using pt2 [of k] pt [of k] by auto
  qed
  then show ?thesis using run m2 by auto
qed

text \<open>
  \<open>audio_interface_config\<close> after the copy loops: four stores on a function with
  one streaming interface, seven on a function with two. \<open>t\<close> is \<open>wTotalLength\<close>.
\<close>

lemma audio_interface_config_one:
  assumes fixd: "fix_fu_descriptors m head = Some m1"
    and rd: "unat (m1 ! head) = 9" "unat (le16 (m1 ! (head + 14)) (m1 ! (head + 15))) = t"
      "unat (m1 ! (head + 9 + t)) = 9" "m1 ! (head + 16) \<noteq> 2"
    and sz: "9 \<le> t" "head + 9 + t + 11 < length m1"
  shows "audio_interface_config m head N =
     Some (m1[head + 2 := N, head + 17 := N + 1, head + 9 + t + 2 := N + 1,
              head + 9 + t + 11 := N + 1])"
proof -
  have w: "le16 (m1[head + 2 := N, head + 17 := N + 1] ! (head + 14))
            (m1[head + 2 := N, head + 17 := N + 1] ! (head + 14 + 1)) =
           le16 (m1 ! (head + 14)) (m1 ! (head + 15))"
    by (simp add: ac_simps)
  show ?thesis
    using fixd rd sz
    by (simp add: audio_interface_config_def Let_def rd8_nth wr8_upd rd16_nth w
        desc_sizes field_offs ac_simps)
qed

lemma audio_interface_config_two:
  assumes fixd: "fix_fu_descriptors m head = Some m1"
    and rd: "unat (m1 ! head) = 9" "unat (le16 (m1 ! (head + 14)) (m1 ! (head + 15))) = t"
      "unat (m1 ! (head + 9 + t)) = 9" "m1 ! (head + 16) = 2"
    and sz: "10 \<le> t" "head + 9 + t + 63 < length m1"
  shows "audio_interface_config m head N =
     Some (m1[head + 2 := N, head + 17 := N + 1, head + 9 + t + 2 := N + 1,
              head + 9 + t + 11 := N + 1, head + 18 := N + 2,
              head + 9 + t + 54 := N + 2, head + 9 + t + 63 := N + 2])"
proof -
  have w: "le16 (m1[head + 2 := N, head + 17 := N + 1] ! (head + 14))
            (m1[head + 2 := N, head + 17 := N + 1] ! (head + 14 + 1)) =
           le16 (m1 ! (head + 14)) (m1 ! (head + 15))"
    by (simp add: ac_simps)
  show ?thesis
    using fixd rd sz
    by (simp add: audio_interface_config_def Let_def rd8_nth wr8_upd rd16_nth w
        desc_sizes field_offs ac_simps)
qed
subsection \<open>The statically initialised descriptors under the fixup\<close>

lemmas init_defs = DEFINE_AUDIO_DESCRIPTOR_def DEFINE_AUDIO_DESCRIPTOR_BIDIR_def
  INIT_STD_IF_def INIT_CS_AC_IF_HEADER_def INIT_CS_AC_IF_HEADER_BIDIR_def
  INIT_IN_TERMINAL_def INIT_OUT_TERMINAL_def INIT_FEATURE_UNIT_def INIT_AS_GENERAL_def
  INIT_AS_FORMAT_I_def INIT_STD_AS_AD_EP_def INIT_CS_AS_AD_EP_def sys_cpu_to_le16_def
  sizeof_header_def

lemma sizeof_feature_unit_bounds:
  "9 \<le> sizeof_feature_unit p" "sizeof_feature_unit p \<le> 33"
  "unat (of_nat (sizeof_feature_unit p) :: u8) = sizeof_feature_unit p"
  "(sizeof_feature_unit p - 7) div 2 = CH_CNT p + 1"
proof -
  show "9 \<le> sizeof_feature_unit p" "sizeof_feature_unit p \<le> 33"
    "(sizeof_feature_unit p - 7) div 2 = CH_CNT p + 1"
    using CH_CNT_le [of p] by (simp_all add: sizeof_feature_unit_def)
  then show "unat (of_nat (sizeof_feature_unit p) :: u8) = sizeof_feature_unit p"
    by (intro unat_of_nat_u8) simp
qed

text \<open>Bytes of a headphones or microphone descriptor, wherever it lies in the table.\<close>

lemma unidir_bytes:
  assumes "m = pre @ DEFINE_AUDIO_DESCRIPTOR p res addr ident link it ot @ post"
  shows "length m = length pre + 91 + sizeof_feature_unit p + length post"
    "m ! (length pre) = 9" "m ! (length pre + 9) = 9" "m ! (length pre + 16) = 1"
    "m ! (length pre + 14) = ucast (of_nat (30 + sizeof_feature_unit p) :: u16)"
    "m ! (length pre + 15) = ucast (drop_bit 8 (of_nat (30 + sizeof_feature_unit p) :: u16))"
    "m ! (length pre + 30) = of_nat (sizeof_feature_unit p)"
    "m ! (length pre + 36) = ucast (FEATURES p)"
    "m ! (length pre + 37) = ucast (drop_bit 8 (FEATURES p))"
    "m ! (length pre + 39 + sizeof_feature_unit p) = 9"
    "m ! (length pre + 42 + sizeof_feature_unit p) = 0"
    "m ! (length pre + 51 + sizeof_feature_unit p) = 1"
    "m ! (length pre + 77 + sizeof_feature_unit p) = addr"
  unfolding assms
  by (simp_all add: init_defs nth_append desc_sizes sizeof_feature_unit_def)

lemma unidir_fixup:
  assumes m: "m = pre @ DEFINE_AUDIO_DESCRIPTOR p res addr ident link it ot @ post"
  shows "\<exists>m1. fix_fu_descriptors m (length pre) = Some m1 \<and> length m1 = length m \<and>
     (\<forall>k. m1 ! k =
        (if length pre + 30 + 8 \<le> k \<and> k < length pre + 30 + 6 + 2 * (CH_CNT p + 1)
         then m ! (length pre + 30 + 6 + (k - (length pre + 30)) mod 2) else m ! k)) \<and>
     audio_interface_config m (length pre) N =
       Some (m1[length pre + 2 := N, length pre + 17 := N + 1,
                length pre + 41 + sizeof_feature_unit p := N + 1,
                length pre + 50 + sizeof_feature_unit p := N + 1])"
proof -
  let ?b = "length pre" and ?fl = "sizeof_feature_unit p"
  note tb = unidir_bytes [OF m]
  note fl = sizeof_feature_unit_bounds [of p]
  have ufl: "unat (m ! (?b + 30)) = ?fl" by (simp only: tb(7) fl(3))
  have nc: "nch m (?b + 30) = CH_CNT p + 1"
    by (simp only: nch_def ufl fl(4))
  have "\<exists>m'. fix_fu_descriptors m ?b = Some m' \<and> length m' = length m \<and>
     (\<forall>k. m' ! k = (if ?b + 30 + 8 \<le> k \<and> k < ?b + 30 + 6 + 2 * nch m (?b + 30)
                    then m ! (?b + 30 + 6 + (k - (?b + 30)) mod 2) else m ! k))"
  proof (rule fix_fu_descriptors_one [where hl = 9])
    show "?b + 9 < length m" by (simp only: tb(1), simp?)
    show "unat (m ! (?b + 9)) = 9" by (simp only: tb(3), simp?)
    show "(8 :: nat) \<le> 9" by simp
    show "?b + 30 = ?b + 21 + 9" by simp
    show "?b + 30 + unat (m ! (?b + 30)) \<le> length m" by (simp only: ufl tb(1), simp?)
    show "7 \<le> unat (m ! (?b + 30))" using fl(1) by (simp only: ufl, simp?)
    show "m ! (?b + 16) \<noteq> 2" by (simp only: tb(4), simp?)
  qed
  then obtain m1 where m1: "fix_fu_descriptors m ?b = Some m1" "length m1 = length m"
    and pt: "\<And>k. m1 ! k = (if ?b + 30 + 8 \<le> k \<and> k < ?b + 30 + 6 + 2 * (CH_CNT p + 1)
                    then m ! (?b + 30 + 6 + (k - (?b + 30)) mod 2) else m ! k)"
    unfolding nc by blast
  have out: "k < ?b + 38 \<or> ?b + 38 + 2 * CH_CNT p \<le> k \<Longrightarrow> m1 ! k = m ! k" for k
    using pt [of k] by auto
  have top: "?b + 38 + 2 * CH_CNT p < ?b + 39 + ?fl" by (simp add: sizeof_feature_unit_def)
  have keep: "m1 ! ?b = m ! ?b" "m1 ! (?b + 14) = m ! (?b + 14)" "m1 ! (?b + 15) = m ! (?b + 15)"
    "m1 ! (?b + 16) = m ! (?b + 16)" "m1 ! (?b + 39 + ?fl) = m ! (?b + 39 + ?fl)"
    using top by (simp_all add: out)
  have "le16 (m1 ! (?b + 14)) (m1 ! (?b + 15)) = of_nat (30 + ?fl)"
    by (simp only: keep tb(5,6) le16_bytes)
  moreover have "30 + ?fl < 65536" using fl(2) by simp
  ultimately have t: "unat (le16 (m1 ! (?b + 14)) (m1 ! (?b + 15))) = 30 + ?fl"
    by (simp only: unat_of_nat_u16)
  have i1: "?b + 9 + (30 + ?fl) = ?b + 39 + ?fl" by simp
  have "audio_interface_config m ?b N =
     Some (m1[?b + 2 := N, ?b + 17 := N + 1, ?b + 9 + (30 + ?fl) + 2 := N + 1,
              ?b + 9 + (30 + ?fl) + 11 := N + 1])"
  proof (rule audio_interface_config_one [OF m1(1)])
    show "unat (m1 ! ?b) = 9" by (simp only: keep tb(2), simp?)
    show "unat (le16 (m1 ! (?b + 14)) (m1 ! (?b + 15))) = 30 + ?fl" by (rule t)
    show "unat (m1 ! (?b + 9 + (30 + ?fl))) = 9" by (simp only: i1 keep tb(10), simp?)
    show "m1 ! (?b + 16) \<noteq> 2" by (simp only: keep tb(4), simp?)
    show "9 \<le> 30 + ?fl" by simp
    show "?b + 9 + (30 + ?fl) + 11 < length m1" by (simp only: m1(2) tb(1), simp?)
  qed
  moreover have "?b + 9 + (30 + ?fl) + 2 = ?b + 41 + ?fl" "?b + 9 + (30 + ?fl) + 11 = ?b + 50 + ?fl"
    by simp_all
  ultimately have "audio_interface_config m ?b N =
       Some (m1[?b + 2 := N, ?b + 17 := N + 1, ?b + 41 + ?fl := N + 1, ?b + 50 + ?fl := N + 1])"
    by (simp only:)
  then show ?thesis using m1 pt by blast
qed

text \<open>Bytes of a headset descriptor, wherever it lies in the table.\<close>

lemma bidir_bytes:
  assumes "m = pre @ DEFINE_AUDIO_DESCRIPTOR_BIDIR p res_mic addr_mic res_hp addr_hp ident @ post"
  shows "length m = length pre + 165 + 2 * sizeof_feature_unit p + length post"
    "m ! (length pre) = 9" "m ! (length pre + 9) = 10" "m ! (length pre + 16) = 2"
    "m ! (length pre + 14) = ucast (of_nat (52 + 2 * sizeof_feature_unit p) :: u16)"
    "m ! (length pre + 15) = ucast (drop_bit 8 (of_nat (52 + 2 * sizeof_feature_unit p) :: u16))"
    "m ! (length pre + 31) = of_nat (sizeof_feature_unit p)"
    "m ! (length pre + 37) = ucast (FEATURES p)"
    "m ! (length pre + 38) = ucast (drop_bit 8 (FEATURES p))"
    "m ! (length pre + 52 + sizeof_feature_unit p) = of_nat (sizeof_feature_unit p)"
    "m ! (length pre + 58 + sizeof_feature_unit p) = ucast (FEATURES p)"
    "m ! (length pre + 59 + sizeof_feature_unit p) = ucast (drop_bit 8 (FEATURES p))"
    "m ! (length pre + 61 + 2 * sizeof_feature_unit p) = 9"
    "m ! (length pre + 64 + 2 * sizeof_feature_unit p) = 0"
    "m ! (length pre + 73 + 2 * sizeof_feature_unit p) = 1"
    "m ! (length pre + 99 + 2 * sizeof_feature_unit p) = addr_mic"
    "m ! (length pre + 116 + 2 * sizeof_feature_unit p) = 0"
    "m ! (length pre + 125 + 2 * sizeof_feature_unit p) = 1"
    "m ! (length pre + 151 + 2 * sizeof_feature_unit p) = addr_hp"
  unfolding assms
  by (simp_all add: init_defs nth_append desc_sizes sizeof_feature_unit_def)
lemma bidir_fixup:
  assumes m: "m = pre @ DEFINE_AUDIO_DESCRIPTOR_BIDIR p res_mic addr_mic res_hp addr_hp ident @ post"
  shows "\<exists>m1. fix_fu_descriptors m (length pre) = Some m1 \<and> length m1 = length m \<and>
     (\<forall>k. m1 ! k =
        (if length pre + 31 + 8 \<le> k \<and> k < length pre + 31 + 6 + 2 * (CH_CNT p + 1)
         then m ! (length pre + 31 + 6 + (k - (length pre + 31)) mod 2)
         else if length pre + 52 + sizeof_feature_unit p + 8 \<le> k \<and>
                 k < length pre + 52 + sizeof_feature_unit p + 6 + 2 * (CH_CNT p + 1)
         then m ! (length pre + 52 + sizeof_feature_unit p + 6 +
                   (k - (length pre + 52 + sizeof_feature_unit p)) mod 2)
         else m ! k)) \<and>
     audio_interface_config m (length pre) N =
       Some (m1[length pre + 2 := N, length pre + 17 := N + 1,
                length pre + 63 + 2 * sizeof_feature_unit p := N + 1,
                length pre + 72 + 2 * sizeof_feature_unit p := N + 1,
                length pre + 18 := N + 2,
                length pre + 115 + 2 * sizeof_feature_unit p := N + 2,
                length pre + 124 + 2 * sizeof_feature_unit p := N + 2])"
proof -
  let ?b = "length pre" and ?fl = "sizeof_feature_unit p"
  let ?fu2 = "?b + 52 + ?fl"
  note tb = bidir_bytes [OF m]
  note fl = sizeof_feature_unit_bounds [of p]
  have ufl: "unat (m ! (?b + 31)) = ?fl" by (simp only: tb(7) fl(3))
  have ufl2: "unat (m ! ?fu2) = ?fl" by (simp only: tb(10) fl(3))
  have nc: "nch m (?b + 31) = CH_CNT p + 1" by (simp only: nch_def ufl fl(4))
  have nc2: "nch m ?fu2 = CH_CNT p + 1" by (simp only: nch_def ufl2 fl(4))
  have f2: "?b + 31 + unat (m ! (?b + 31)) + 21 = ?fu2" by (simp only: ufl, simp?)
  have "\<exists>m'. fix_fu_descriptors m ?b = Some m' \<and> length m' = length m \<and>
     (\<forall>k. m' ! k = (if ?b + 31 + 8 \<le> k \<and> k < ?b + 31 + 6 + 2 * nch m (?b + 31)
                    then m ! (?b + 31 + 6 + (k - (?b + 31)) mod 2)
                    else if ?fu2 + 8 \<le> k \<and> k < ?fu2 + 6 + 2 * nch m ?fu2
                    then m ! (?fu2 + 6 + (k - ?fu2) mod 2) else m ! k))"
  proof (rule fix_fu_descriptors_two [where hl = 10])
    show "?b + 9 < length m" by (simp only: tb(1), simp?)
    show "unat (m ! (?b + 9)) = 10" by (simp only: tb(3), simp?)
    show "(8 :: nat) \<le> 10" by simp
    show "?b + 31 = ?b + 21 + 10" by simp
    show "7 \<le> unat (m ! (?b + 31))" using fl(1) by (simp only: ufl, simp?)
    show "?fu2 = ?b + 31 + unat (m ! (?b + 31)) + 21" by (simp only: f2)
    show "?fu2 + unat (m ! ?fu2) \<le> length m" by (simp only: ufl2 tb(1), simp?)
    show "7 \<le> unat (m ! ?fu2)" using fl(1) by (simp only: ufl2, simp?)
    show "m ! (?b + 16) = 2" by (simp only: tb(4))
  qed
  then obtain m1 where m1: "fix_fu_descriptors m ?b = Some m1" "length m1 = length m"
    and pt: "\<And>k. m1 ! k = (if ?b + 31 + 8 \<le> k \<and> k < ?b + 31 + 6 + 2 * (CH_CNT p + 1)
                    then m ! (?b + 31 + 6 + (k - (?b + 31)) mod 2)
                    else if ?fu2 + 8 \<le> k \<and> k < ?fu2 + 6 + 2 * (CH_CNT p + 1)
                    then m ! (?fu2 + 6 + (k - ?fu2) mod 2) else m ! k)"
    unfolding nc nc2 by blast
  have out: "k < ?b + 39 \<or> ?fu2 + 8 + 2 * CH_CNT p \<le> k \<Longrightarrow> m1 ! k = m ! k" for k
    using pt [of k] by auto
  have top: "?fu2 + 8 + 2 * CH_CNT p < ?b + 61 + 2 * ?fl" by (simp add: sizeof_feature_unit_def)
  have keep: "m1 ! ?b = m ! ?b" "m1 ! (?b + 14) = m ! (?b + 14)" "m1 ! (?b + 15) = m ! (?b + 15)"
    "m1 ! (?b + 16) = m ! (?b + 16)" "m1 ! (?b + 61 + 2 * ?fl) = m ! (?b + 61 + 2 * ?fl)"
    using top by (simp_all add: out)
  have "le16 (m1 ! (?b + 14)) (m1 ! (?b + 15)) = of_nat (52 + 2 * ?fl)"
    by (simp only: keep tb(5,6) le16_bytes)
  moreover have "52 + 2 * ?fl < 65536" using fl(2) by simp
  ultimately have t: "unat (le16 (m1 ! (?b + 14)) (m1 ! (?b + 15))) = 52 + 2 * ?fl"
    by (simp only: unat_of_nat_u16)
  have i1: "?b + 9 + (52 + 2 * ?fl) = ?b + 61 + 2 * ?fl" by simp
  have "audio_interface_config m ?b N =
     Some (m1[?b + 2 := N, ?b + 17 := N + 1, ?b + 9 + (52 + 2 * ?fl) + 2 := N + 1,
              ?b + 9 + (52 + 2 * ?fl) + 11 := N + 1, ?b + 18 := N + 2,
              ?b + 9 + (52 + 2 * ?fl) + 54 := N + 2, ?b + 9 + (52 + 2 * ?fl) + 63 := N + 2])"
  proof (rule audio_interface_config_two [OF m1(1)])
    show "unat (m1 ! ?b) = 9" by (simp only: keep tb(2), simp?)
    show "unat (le16 (m1 ! (?b + 14)) (m1 ! (?b + 15))) = 52 + 2 * ?fl" by (rule t)
    show "unat (m1 ! (?b + 9 + (52 + 2 * ?fl))) = 9" by (simp only: i1 keep tb(13), simp?)
    show "m1 ! (?b + 16) = 2" by (simp only: keep tb(4))
    show "10 \<le> 52 + 2 * ?fl" by simp
    show "?b + 9 + (52 + 2 * ?fl) + 63 < length m1" by (simp only: m1(2) tb(1), simp?)
  qed
  moreover have "?b + 9 + (52 + 2 * ?fl) + 2 = ?b + 63 + 2 * ?fl"
    "?b + 9 + (52 + 2 * ?fl) + 11 = ?b + 72 + 2 * ?fl"
    "?b + 9 + (52 + 2 * ?fl) + 54 = ?b + 115 + 2 * ?fl"
    "?b + 9 + (52 + 2 * ?fl) + 63 = ?b + 124 + 2 * ?fl"
    by simp_all
  ultimately have "audio_interface_config m ?b N =
       Some (m1[?b + 2 := N, ?b + 17 := N + 1, ?b + 63 + 2 * ?fl := N + 1,
                ?b + 72 + 2 * ?fl := N + 1, ?b + 18 := N + 2,
                ?b + 115 + 2 * ?fl := N + 2, ?b + 124 + 2 * ?fl := N + 2])"
    by (simp only:)
  then show ?thesis using m1 pt by blast
qed

text \<open>
  Reading \<open>bmaControls[i]\<close> of a feature unit at \<open>fu\<close> with \<open>n\<close> channels, in a table
  \<open>m1\<close> whose bytes in the range of \<open>bmaControls[1..n)\<close> are those of
  \<open>bmaControls[0]\<close> in \<open>m\<close>.
\<close>

lemma mirrored_read:
  assumes pt: "\<And>k. fu + 8 \<le> k \<and> k < fu + 6 + 2 * n \<Longrightarrow> m1 ! k = m ! (fu + 6 + (k - fu) mod 2)"
    and i: "1 \<le> i" "i < n" and len: "fu + 6 + 2 * n \<le> length m1"
  shows "rd16 m1 (fu + off_bmaControls + 2 * i) = Some (le16 (m ! (fu + 6)) (m ! (fu + 7)))"
proof -
  let ?a = "fu + 6 + 2 * i"
  have r: "fu + 8 \<le> ?a \<and> ?a < fu + 6 + 2 * n" "fu + 8 \<le> ?a + 1 \<and> ?a + 1 < fu + 6 + 2 * n"
    using i by simp_all
  have p0: "(?a - fu) mod 2 = 0" by simp
  have "?a + 1 - fu = 2 * i + 7" by simp
  moreover have "(2 * i + 7) mod 2 = (1 :: nat)" by presburger
  ultimately have p1: "(?a + 1 - fu) mod 2 = 1" by (simp only:)
  have e: "fu + 6 + 1 = fu + 7" by simp
  have lo: "m1 ! ?a = m ! (fu + 6)" by (simp only: pt [OF r(1)] p0 add_0_right)
  have hi: "m1 ! (?a + 1) = m ! (fu + 7)" by (simp only: pt [OF r(2)] p1 e)
  have inb: "?a + 1 < length m1" using r(2) len by simp
  have "rd16 m1 ?a = Some (le16 (m1 ! ?a) (m1 ! (?a + 1)))" by (rule rd16_nth [OF inb])
  then show ?thesis by (simp only: lo hi off_bmaControls_def)
qed
text \<open>
  The bytes the driver looks at later, in the table that \<open>audio_interface_config\<close>
  leaves behind.
\<close>

lemma unidir_config_bytes:
  assumes m: "m = pre @ DEFINE_AUDIO_DESCRIPTOR p res addr ident link it ot @ post"
  shows "\<exists>m'. audio_interface_config m (length pre) N = Some m' \<and>
     length m' = length pre + 91 + sizeof_feature_unit p + length post \<and>
     m' ! (length pre + 2) = N \<and> m' ! (length pre + 17) = N + 1 \<and>
     m' ! (length pre + 41 + sizeof_feature_unit p) = N + 1 \<and>
     m' ! (length pre + 50 + sizeof_feature_unit p) = N + 1 \<and>
     m' ! (length pre + 16) = 1 \<and>
     m' ! (length pre + 42 + sizeof_feature_unit p) = 0 \<and>
     m' ! (length pre + 51 + sizeof_feature_unit p) = 1 \<and>
     m' ! (length pre + 77 + sizeof_feature_unit p) = addr"
proof -
  let ?b = "length pre" and ?fl = "sizeof_feature_unit p"
  note tb = unidir_bytes [OF m]
  from unidir_fixup [OF m, of N]
  obtain m1 where m1: "length m1 = length m"
    and pt: "\<And>k. m1 ! k =
        (if ?b + 30 + 8 \<le> k \<and> k < ?b + 30 + 6 + 2 * (CH_CNT p + 1)
         then m ! (?b + 30 + 6 + (k - (?b + 30)) mod 2) else m ! k)"
    and run: "audio_interface_config m ?b N =
       Some (m1[?b + 2 := N, ?b + 17 := N + 1, ?b + 41 + ?fl := N + 1, ?b + 50 + ?fl := N + 1])"
    by blast
  let ?m' = "m1[?b + 2 := N, ?b + 17 := N + 1, ?b + 41 + ?fl := N + 1, ?b + 50 + ?fl := N + 1]"
  have len: "length m1 = ?b + 91 + ?fl + length post" by (simp only: m1 tb(1))
  have out: "k < ?b + 38 \<or> ?b + 38 + 2 * CH_CNT p \<le> k \<Longrightarrow> m1 ! k = m ! k" for k
    using pt [of k] by auto
  have fl: "?fl = 2 * CH_CNT p + 9" by (simp add: sizeof_feature_unit_def)
  have old: "m1 ! (?b + 16) = 1" "m1 ! (?b + 42 + ?fl) = 0" "m1 ! (?b + 51 + ?fl) = 1"
    "m1 ! (?b + 77 + ?fl) = addr"
    using tb(4,11,12,13) fl by (simp_all add: out)
  have "?m' ! (?b + 2) = N" "?m' ! (?b + 17) = N + 1" "?m' ! (?b + 41 + ?fl) = N + 1"
    "?m' ! (?b + 50 + ?fl) = N + 1"
    using len by (simp_all add: nth_list_update)
  moreover have "?m' ! (?b + 16) = 1" "?m' ! (?b + 42 + ?fl) = 0" "?m' ! (?b + 51 + ?fl) = 1"
    "?m' ! (?b + 77 + ?fl) = addr"
    using len old by (simp_all add: nth_list_update)
  moreover have "length ?m' = ?b + 91 + ?fl + length post" using len by simp
  ultimately show ?thesis using run by blast
qed

lemma bidir_config_bytes:
  assumes m: "m = pre @ DEFINE_AUDIO_DESCRIPTOR_BIDIR p res_mic addr_mic res_hp addr_hp ident @ post"
  shows "\<exists>m'. audio_interface_config m (length pre) N = Some m' \<and>
     length m' = length pre + 165 + 2 * sizeof_feature_unit p + length post \<and>
     m' ! (length pre + 2) = N \<and> m' ! (length pre + 17) = N + 1 \<and>
     m' ! (length pre + 18) = N + 2 \<and>
     m' ! (length pre + 63 + 2 * sizeof_feature_unit p) = N + 1 \<and>
     m' ! (length pre + 72 + 2 * sizeof_feature_unit p) = N + 1 \<and>
     m' ! (length pre + 115 + 2 * sizeof_feature_unit p) = N + 2 \<and>
     m' ! (length pre + 124 + 2 * sizeof_feature_unit p) = N + 2 \<and>
     m' ! (length pre + 16) = 2 \<and>
     m' ! (length pre + 64 + 2 * sizeof_feature_unit p) = 0 \<and>
     m' ! (length pre + 73 + 2 * sizeof_feature_unit p) = 1 \<and>
     m' ! (length pre + 99 + 2 * sizeof_feature_unit p) = addr_mic \<and>
     m' ! (length pre + 116 + 2 * sizeof_feature_unit p) = 0 \<and>
     m' ! (length pre + 125 + 2 * sizeof_feature_unit p) = 1 \<and>
     m' ! (length pre + 151 + 2 * sizeof_feature_unit p) = addr_hp"
proof -
  let ?b = "length pre" and ?fl = "sizeof_feature_unit p"
  let ?fu2 = "?b + 52 + ?fl"
  note tb = bidir_bytes [OF m]
  from bidir_fixup [OF m, of N]
  obtain m1 where m1: "length m1 = length m"
    and pt: "\<And>k. m1 ! k = (if ?b + 31 + 8 \<le> k \<and> k < ?b + 31 + 6 + 2 * (CH_CNT p + 1)
                    then m ! (?b + 31 + 6 + (k - (?b + 31)) mod 2)
                    else if ?fu2 + 8 \<le> k \<and> k < ?fu2 + 6 + 2 * (CH_CNT p + 1)
                    then m ! (?fu2 + 6 + (k - ?fu2) mod 2) else m ! k)"
    and run: "audio_interface_config m ?b N =
       Some (m1[?b + 2 := N, ?b + 17 := N + 1, ?b + 63 + 2 * ?fl := N + 1,
                ?b + 72 + 2 * ?fl := N + 1, ?b + 18 := N + 2,
                ?b + 115 + 2 * ?fl := N + 2, ?b + 124 + 2 * ?fl := N + 2])"
    by blast
  let ?m' = "m1[?b + 2 := N, ?b + 17 := N + 1, ?b + 63 + 2 * ?fl := N + 1,
                ?b + 72 + 2 * ?fl := N + 1, ?b + 18 := N + 2,
                ?b + 115 + 2 * ?fl := N + 2, ?b + 124 + 2 * ?fl := N + 2]"
  have len: "length m1 = ?b + 165 + 2 * ?fl + length post" by (simp only: m1 tb(1))
  have out: "k < ?b + 39 \<or> ?fu2 + 8 + 2 * CH_CNT p \<le> k \<Longrightarrow> m1 ! k = m ! k" for k
    using pt [of k] by auto
  have fl: "?fl = 2 * CH_CNT p + 9" by (simp add: sizeof_feature_unit_def)
  have old: "m1 ! (?b + 16) = 2" "m1 ! (?b + 64 + 2 * ?fl) = 0" "m1 ! (?b + 73 + 2 * ?fl) = 1"
    "m1 ! (?b + 99 + 2 * ?fl) = addr_mic" "m1 ! (?b + 116 + 2 * ?fl) = 0"
    "m1 ! (?b + 125 + 2 * ?fl) = 1" "m1 ! (?b + 151 + 2 * ?fl) = addr_hp"
    using tb(4,14,15,16,17,18,19) fl by (simp_all add: out)
  have "?m' ! (?b + 2) = N" "?m' ! (?b + 17) = N + 1" "?m' ! (?b + 18) = N + 2"
    "?m' ! (?b + 63 + 2 * ?fl) = N + 1" "?m' ! (?b + 72 + 2 * ?fl) = N + 1"
    "?m' ! (?b + 115 + 2 * ?fl) = N + 2" "?m' ! (?b + 124 + 2 * ?fl) = N + 2"
    using len by (simp_all add: nth_list_update)
  moreover have "?m' ! (?b + 16) = 2" "?m' ! (?b + 64 + 2 * ?fl) = 0"
    "?m' ! (?b + 73 + 2 * ?fl) = 1" "?m' ! (?b + 99 + 2 * ?fl) = addr_mic"
    "?m' ! (?b + 116 + 2 * ?fl) = 0" "?m' ! (?b + 125 + 2 * ?fl) = 1"
    "?m' ! (?b + 151 + 2 * ?fl) = addr_hp"
    using len old by (simp_all add: nth_list_update)
  moreover have "length ?m' = ?b + 165 + 2 * ?fl + length post" using len by simp
  ultimately show ?thesis using run by blast
qed

lemma offsetof_unidir:
  "offsetof (DECLARE_DESCRIPTOR p) ''std_ac_interface'' = 0"
  "offsetof (DECLARE_DESCRIPTOR p) ''ac_interface_header'' = 9"
  "offsetof (DECLARE_DESCRIPTOR p) ''feature_unit'' = 30"
  "offsetof (DECLARE_DESCRIPTOR p) ''as_interface_alt_0'' = 39 + sizeof_feature_unit p"
  "offsetof (DECLARE_DESCRIPTOR p) ''as_interface_alt_1'' = 48 + sizeof_feature_unit p"
  "offsetof (DECLARE_DESCRIPTOR p) ''std_ep_desc'' = 75 + sizeof_feature_unit p"
  by (simp_all add: DECLARE_DESCRIPTOR_def desc_sizes sizeof_header_def)

lemma offsetof_bidir:
  "offsetof (DECLARE_DESCRIPTOR_BIDIR p) ''std_ac_interface'' = 0"
  "offsetof (DECLARE_DESCRIPTOR_BIDIR p) ''ac_interface_header'' = 9"
  "offsetof (DECLARE_DESCRIPTOR_BIDIR p) ''feature_unit_0'' = 31"
  "offsetof (DECLARE_DESCRIPTOR_BIDIR p) ''feature_unit_1'' = 52 + sizeof_feature_unit p"
  "offsetof (DECLARE_DESCRIPTOR_BIDIR p) ''as_interface_alt_0_0'' = 61 + 2 * sizeof_feature_unit p"
  "offsetof (DECLARE_DESCRIPTOR_BIDIR p) ''as_interface_alt_0_1'' = 70 + 2 * sizeof_feature_unit p"
  "offsetof (DECLARE_DESCRIPTOR_BIDIR p) ''std_ep_desc_0'' = 97 + 2 * sizeof_feature_unit p"
  "offsetof (DECLARE_DESCRIPTOR_BIDIR p) ''as_interface_alt_1_0'' = 113 + 2 * sizeof_feature_unit p"
  "offsetof (DECLARE_DESCRIPTOR_BIDIR p) ''as_interface_alt_1_1'' = 122 + 2 * sizeof_feature_unit p"
  "offsetof (DECLARE_DESCRIPTOR_BIDIR p) ''std_ep_desc_1'' = 149 + 2 * sizeof_feature_unit p"
  by (simp_all add: DECLARE_DESCRIPTOR_BIDIR_def desc_sizes sizeof_header_def)

text \<open>
  A feature unit of \<open>CH_CNT + 1\<close> channels at \<open>fu\<close> whose \<open>bmaControls[0]\<close> is \<open>c0\<close>
  and whose other elements mirror it.
\<close>

lemma channels_mirror_channel_0_I:
  assumes len: "fu + 6 + 2 * (c + 1) \<le> length m1" and c: "c \<le> 12"
    and l: "m1 ! fu = of_nat (2 * c + 9)"
    and b0: "m1 ! (fu + 6) = ucast c0" "m1 ! (fu + 7) = ucast (drop_bit 8 c0)"
    and pt: "\<And>k. fu + 8 \<le> k \<and> k < fu + 6 + 2 * (c + 1) \<Longrightarrow>
               m1 ! k = m ! (fu + 6 + (k - fu) mod 2)"
    and src: "m ! (fu + 6) = ucast c0" "m ! (fu + 7) = ucast (drop_bit 8 c0)"
  shows "channels_mirror_channel_0 m1 fu \<and> get_controls m1 fu = Some c0 \<and>
         (\<exists>n. get_num_of_channels m1 fu = Some n \<and> unat n = c + 1)"
proof -
  have "2 * c + 9 < 256" using c by simp
  from unat_of_nat_u8 [OF this]
  have ul: "unat (m1 ! fu) = 2 * c + 9" by (simp only: l)
  have "fu < length m1" "7 \<le> unat (m1 ! fu)" using len ul by simp_all
  from get_num_of_channels_eq [OF this]
  obtain n where n: "get_num_of_channels m1 fu = Some n" "unat n = c + 1"
    using ul by (auto simp: nch_def)
  have e: "fu + 6 + 1 = fu + 7" by simp
  have "fu + 6 + 1 < length m1" using len by simp
  from rd16_nth [OF this]
  have r0: "rd16 m1 (fu + off_bmaControls) = Some c0"
    by (simp only: off_bmaControls_def e b0 le16_bytes)
  have ri: "rd16 m1 (fu + off_bmaControls + 2 * i) = Some c0" if "i \<in> {1 ..< unat n}" for i
  proof -
    from that n(2) have i: "1 \<le> i" "i < c + 1" by simp_all
    from mirrored_read [of fu "c + 1" m1 m i, OF pt i len]
    show ?thesis by (simp only: src le16_bytes)
  qed
  have "channels_mirror_channel_0 m1 fu"
    using n(1) r0 ri by (simp add: channels_mirror_channel_0_def)
  moreover have "get_controls m1 fu = Some c0"
    using r0 by (simp add: get_controls_def desc_sizes off_bmaControls_def)
  ultimately show ?thesis using n by blast
qed

text \<open>
  C7. After \<open>fix_fu_descriptors\<close> has run on the descriptor of a headphones or
  microphone function (one feature unit) or of a headset function (two, with
  \<open>bInCollection = 2\<close>), wherever the descriptor lies in the table, every feature
  unit of the function has \<open>bmaControls[i] = bmaControls[0]\<close> for all \<open>i\<close> from 1 up
  to its channel count. That count, derived from \<open>bLength\<close>, is \<open>CH_CNT + 1\<close>, and
  \<open>bmaControls[0]\<close> is still the \<open>FEATURES\<close> of the instance.
\<close>

theorem fix_fu_descriptors_mirrors_channel_0:
  "(\<exists>m1. fix_fu_descriptors (pre @ DEFINE_AUDIO_DESCRIPTOR p res addr ident link it ot @ post)
            (length pre) = Some m1 \<and>
      channels_mirror_channel_0 m1
        (length pre + offsetof (DECLARE_DESCRIPTOR p) ''feature_unit'') \<and>
      get_controls m1 (length pre + offsetof (DECLARE_DESCRIPTOR p) ''feature_unit'') =
        Some (FEATURES p) \<and>
      (\<exists>n. get_num_of_channels m1
              (length pre + offsetof (DECLARE_DESCRIPTOR p) ''feature_unit'') = Some n \<and>
           unat n = CH_CNT p + 1)) \<and>
   (\<exists>m1. fix_fu_descriptors
            (pre @ DEFINE_AUDIO_DESCRIPTOR_BIDIR p res_mic addr_mic res_hp addr_hp ident @ post)
            (length pre) = Some m1 \<and>
      channels_mirror_channel_0 m1
        (length pre + offsetof (DECLARE_DESCRIPTOR_BIDIR p) ''feature_unit_0'') \<and>
      channels_mirror_channel_0 m1
        (length pre + offsetof (DECLARE_DESCRIPTOR_BIDIR p) ''feature_unit_1'') \<and>
      get_controls m1 (length pre + offsetof (DECLARE_DESCRIPTOR_BIDIR p) ''feature_unit_0'') =
        Some (FEATURES p) \<and>
      get_controls m1 (length pre + offsetof (DECLARE_DESCRIPTOR_BIDIR p) ''feature_unit_1'') =
        Some (FEATURES p) \<and>
      (\<exists>n. get_num_of_channels m1
              (length pre + offsetof (DECLARE_DESCRIPTOR_BIDIR p) ''feature_unit_0'') = Some n \<and>
           unat n = CH_CNT p + 1) \<and>
      (\<exists>n. get_num_of_channels m1
              (length pre + offsetof (DECLARE_DESCRIPTOR_BIDIR p) ''feature_unit_1'') = Some n \<and>
           unat n = CH_CNT p + 1))"
proof (rule conjI)
  let ?b = "length pre" and ?fl = "sizeof_feature_unit p"
  have fl: "?fl = 2 * CH_CNT p + 9" by (simp add: sizeof_feature_unit_def)
  define m where "m = pre @ DEFINE_AUDIO_DESCRIPTOR p res addr ident link it ot @ post"
  note tb = unidir_bytes [OF m_def]
  from unidir_fixup [OF m_def, of 0]
  obtain m1 where run: "fix_fu_descriptors m ?b = Some m1" and len: "length m1 = length m"
    and pt: "\<And>k. m1 ! k =
        (if ?b + 30 + 8 \<le> k \<and> k < ?b + 30 + 6 + 2 * (CH_CNT p + 1)
         then m ! (?b + 30 + 6 + (k - (?b + 30)) mod 2) else m ! k)"
    by blast
  have "channels_mirror_channel_0 m1 (?b + 30) \<and> get_controls m1 (?b + 30) = Some (FEATURES p) \<and>
         (\<exists>n. get_num_of_channels m1 (?b + 30) = Some n \<and> unat n = CH_CNT p + 1)"
  proof (rule channels_mirror_channel_0_I [where m = m])
    show "?b + 30 + 6 + 2 * (CH_CNT p + 1) \<le> length m1" using len tb(1) fl by simp
    show "CH_CNT p \<le> 12" by (rule CH_CNT_le)
    have e: "?b + 30 + 6 = ?b + 36" "?b + 30 + 7 = ?b + 37" by simp_all
    have k: "m1 ! (?b + 30) = m ! (?b + 30)" "m1 ! (?b + 36) = m ! (?b + 36)"
      "m1 ! (?b + 37) = m ! (?b + 37)"
      by (simp_all add: pt)
    show "m1 ! (?b + 30) = of_nat (2 * CH_CNT p + 9)" by (simp only: k tb(7) fl)
    show "m1 ! (?b + 30 + 6) = ucast (FEATURES p)" by (simp only: e k tb(8))
    show "m1 ! (?b + 30 + 7) = ucast (drop_bit 8 (FEATURES p))" by (simp only: e k tb(9))
    show "m ! (?b + 30 + 6) = ucast (FEATURES p)" by (simp only: e tb(8))
    show "m ! (?b + 30 + 7) = ucast (drop_bit 8 (FEATURES p))" by (simp only: e tb(9))
    show "m1 ! k = m ! (?b + 30 + 6 + (k - (?b + 30)) mod 2)"
      if "?b + 30 + 8 \<le> k \<and> k < ?b + 30 + 6 + 2 * (CH_CNT p + 1)" for k
      using that by (simp only: pt [of k] if_True simp_thms)
  qed
  then show "\<exists>m1. fix_fu_descriptors (pre @ DEFINE_AUDIO_DESCRIPTOR p res addr ident link it ot @ post)
            (length pre) = Some m1 \<and>
      channels_mirror_channel_0 m1
        (length pre + offsetof (DECLARE_DESCRIPTOR p) ''feature_unit'') \<and>
      get_controls m1 (length pre + offsetof (DECLARE_DESCRIPTOR p) ''feature_unit'') =
        Some (FEATURES p) \<and>
      (\<exists>n. get_num_of_channels m1
              (length pre + offsetof (DECLARE_DESCRIPTOR p) ''feature_unit'') = Some n \<and>
           unat n = CH_CNT p + 1)"
    using run unfolding m_def offsetof_unidir by blast
next
  let ?b = "length pre" and ?fl = "sizeof_feature_unit p"
  let ?fu2 = "?b + 52 + ?fl"
  have fl: "?fl = 2 * CH_CNT p + 9" by (simp add: sizeof_feature_unit_def)
  define m where
    "m = pre @ DEFINE_AUDIO_DESCRIPTOR_BIDIR p res_mic addr_mic res_hp addr_hp ident @ post"
  note tb = bidir_bytes [OF m_def]
  from bidir_fixup [OF m_def, of 0]
  obtain m1 where run: "fix_fu_descriptors m ?b = Some m1" and len: "length m1 = length m"
    and pt: "\<And>k. m1 ! k = (if ?b + 31 + 8 \<le> k \<and> k < ?b + 31 + 6 + 2 * (CH_CNT p + 1)
                    then m ! (?b + 31 + 6 + (k - (?b + 31)) mod 2)
                    else if ?fu2 + 8 \<le> k \<and> k < ?fu2 + 6 + 2 * (CH_CNT p + 1)
                    then m ! (?fu2 + 6 + (k - ?fu2) mod 2) else m ! k)"
    by blast
  have out: "k < ?b + 39 \<or> (?b + 39 + 2 * CH_CNT p \<le> k \<and> k < ?fu2 + 8) \<Longrightarrow> m1 ! k = m ! k"
    for k
    using pt [of k] by auto
  have u0: "channels_mirror_channel_0 m1 (?b + 31) \<and>
      get_controls m1 (?b + 31) = Some (FEATURES p) \<and>
      (\<exists>n. get_num_of_channels m1 (?b + 31) = Some n \<and> unat n = CH_CNT p + 1)"
  proof (rule channels_mirror_channel_0_I [where m = m])
    show "?b + 31 + 6 + 2 * (CH_CNT p + 1) \<le> length m1" using len tb(1) fl by simp
    show "CH_CNT p \<le> 12" by (rule CH_CNT_le)
    have e: "?b + 31 + 6 = ?b + 37" "?b + 31 + 7 = ?b + 38" by simp_all
    have k: "m1 ! (?b + 31) = m ! (?b + 31)" "m1 ! (?b + 37) = m ! (?b + 37)"
      "m1 ! (?b + 38) = m ! (?b + 38)"
      by (simp_all add: out)
    show "m1 ! (?b + 31) = of_nat (2 * CH_CNT p + 9)" by (simp only: k tb(7) fl)
    show "m1 ! (?b + 31 + 6) = ucast (FEATURES p)" by (simp only: e k tb(8))
    show "m1 ! (?b + 31 + 7) = ucast (drop_bit 8 (FEATURES p))" by (simp only: e k tb(9))
    show "m ! (?b + 31 + 6) = ucast (FEATURES p)" by (simp only: e tb(8))
    show "m ! (?b + 31 + 7) = ucast (drop_bit 8 (FEATURES p))" by (simp only: e tb(9))
    show "m1 ! k = m ! (?b + 31 + 6 + (k - (?b + 31)) mod 2)"
      if "?b + 31 + 8 \<le> k \<and> k < ?b + 31 + 6 + 2 * (CH_CNT p + 1)" for k
      using that by (simp only: pt [of k] if_True simp_thms)
  qed
  have u1: "channels_mirror_channel_0 m1 ?fu2 \<and>
      get_controls m1 ?fu2 = Some (FEATURES p) \<and>
      (\<exists>n. get_num_of_channels m1 ?fu2 = Some n \<and> unat n = CH_CNT p + 1)"
  proof (rule channels_mirror_channel_0_I [where m = m])
    show "?fu2 + 6 + 2 * (CH_CNT p + 1) \<le> length m1" using len tb(1) fl by simp
    show "CH_CNT p \<le> 12" by (rule CH_CNT_le)
    have "m1 ! ?fu2 = m ! ?fu2" using fl by (simp add: out)
    then have "m1 ! ?fu2 = of_nat ?fl" by (simp only: tb(10))
    then show "m1 ! ?fu2 = of_nat (2 * CH_CNT p + 9)" by (simp only: fl)
    have e: "?fu2 + 6 = ?b + 58 + ?fl" "?fu2 + 7 = ?b + 59 + ?fl" by simp_all
    show "m ! (?fu2 + 6) = ucast (FEATURES p)" by (simp only: e tb(11))
    show "m ! (?fu2 + 7) = ucast (drop_bit 8 (FEATURES p))" by (simp only: e tb(12))
    have "m1 ! (?fu2 + 6) = m ! (?fu2 + 6)" "m1 ! (?fu2 + 7) = m ! (?fu2 + 7)"
      using fl by (simp_all add: out)
    then show "m1 ! (?fu2 + 6) = ucast (FEATURES p)"
      "m1 ! (?fu2 + 7) = ucast (drop_bit 8 (FEATURES p))"
      by (simp_all only: e tb(11,12))
    show "m1 ! k = m ! (?fu2 + 6 + (k - ?fu2) mod 2)"
      if h: "?fu2 + 8 \<le> k \<and> k < ?fu2 + 6 + 2 * (CH_CNT p + 1)" for k
    proof -
      from h fl have "\<not> (?b + 31 + 8 \<le> k \<and> k < ?b + 31 + 6 + 2 * (CH_CNT p + 1))" by simp
      then show ?thesis using h pt [of k] by simp
    qed
  qed
  show "\<exists>m1. fix_fu_descriptors
            (pre @ DEFINE_AUDIO_DESCRIPTOR_BIDIR p res_mic addr_mic res_hp addr_hp ident @ post)
            (length pre) = Some m1 \<and>
      channels_mirror_channel_0 m1
        (length pre + offsetof (DECLARE_DESCRIPTOR_BIDIR p) ''feature_unit_0'') \<and>
      channels_mirror_channel_0 m1
        (length pre + offsetof (DECLARE_DESCRIPTOR_BIDIR p) ''feature_unit_1'') \<and>
      get_controls m1 (length pre + offsetof (DECLARE_DESCRIPTOR_BIDIR p) ''feature_unit_0'') =
        Some (FEATURES p) \<and>
      get_controls m1 (length pre + offsetof (DECLARE_DESCRIPTOR_BIDIR p) ''feature_unit_1'') =
        Some (FEATURES p) \<and>
      (\<exists>n. get_num_of_channels m1
              (length pre + offsetof (DECLARE_DESCRIPTOR_BIDIR p) ''feature_unit_0'') = Some n \<and>
           unat n = CH_CNT p + 1) \<and>
      (\<exists>n. get_num_of_channels m1
              (length pre + offsetof (DECLARE_DESCRIPTOR_BIDIR p) ''feature_unit_1'') = Some n \<and>
           unat n = CH_CNT p + 1)"
    using run u0 u1 unfolding m_def offsetof_bidir add.assoc [symmetric] by blast
qed

theorem fix_fu_descriptors_mirrors_channel_0_witness:
  "\<exists>m1 n0 n1. fix_fu_descriptors hs_desc 0 = Some m1 \<and>
     get_num_of_channels m1 31 = Some n0 \<and> unat n0 = 3 \<and>
     get_num_of_channels m1 65 = Some n1 \<and> unat n1 = 3 \<and>
     rd16 m1 37 = Some 3 \<and> rd16 m1 39 = Some 3 \<and> rd16 m1 41 = Some 3 \<and>
     rd16 m1 71 = Some 3 \<and> rd16 m1 73 = Some 3 \<and> rd16 m1 75 = Some 3"
proof -
  have fl: "sizeof_feature_unit hs_inst = 13" "CH_CNT hs_inst = 2" "FEATURES hs_inst = 3"
    by code_simp+
  from fix_fu_descriptors_mirrors_channel_0 [where pre = "[]" and post = "[]" and p = hs_inst
      and res = 16 and addr = "0x81" and link = 0 and it = 0 and ot = 0 and ident = 1
      and res_mic = 16 and addr_mic = "0x81" and res_hp = 16 and addr_hp = "0x01"]
  obtain m1 n0 n1 where run: "fix_fu_descriptors hs_desc 0 = Some m1"
    and mir: "channels_mirror_channel_0 m1 31" "channels_mirror_channel_0 m1 65"
    and c0: "get_controls m1 31 = Some 3" "get_controls m1 65 = Some 3"
    and n: "get_num_of_channels m1 31 = Some n0" "unat n0 = 3"
      "get_num_of_channels m1 65 = Some n1" "unat n1 = 3"
    unfolding offsetof_bidir fl by (auto simp: hs_desc_def)
  have r0: "rd16 m1 37 = Some 3" "rd16 m1 71 = Some 3"
    using c0 by (simp_all add: get_controls_def desc_sizes)
  have in3: "1 \<in> {1 ..< (3 :: nat)}" "2 \<in> {1 ..< (3 :: nat)}" by simp_all
  have a: "\<forall>i\<in>{1 ..< 3}. rd16 m1 (31 + off_bmaControls + 2 * i) = Some 3"
    using mir(1) r0(1) n(1,2) by (simp add: channels_mirror_channel_0_def off_bmaControls_def)
  have b: "\<forall>i\<in>{1 ..< 3}. rd16 m1 (65 + off_bmaControls + 2 * i) = Some 3"
    using mir(2) r0(2) n(3,4) by (simp add: channels_mirror_channel_0_def off_bmaControls_def)
  have "rd16 m1 39 = Some 3" "rd16 m1 41 = Some 3"
    using a [rule_format, OF in3(1)] a [rule_format, OF in3(2)]
    by (simp_all add: off_bmaControls_def)
  moreover have "rd16 m1 73 = Some 3" "rd16 m1 75 = Some 3"
    using b [rule_format, OF in3(1)] b [rule_format, OF in3(2)]
    by (simp_all add: off_bmaControls_def)
  ultimately show ?thesis using run n r0 by blast
qed

text \<open>
  C6. After \<open>audio_interface_config\<close> has run with first interface number \<open>N\<close> on
  the descriptor of a headphones or microphone function, or of a headset
  function, wherever the descriptor lies in the table: the \<open>AudioControl\<close>
  interface descriptor carries interface number \<open>N\<close>; both alternate-setting
  descriptors of the first \<open>AudioStreaming\<close> interface, and \<open>baInterfaceNr[0]\<close> of
  the header, carry \<open>N + 1\<close>; and in the headset function both alternate-setting
  descriptors of the second \<open>AudioStreaming\<close> interface, and \<open>baInterfaceNr[1]\<close>,
  carry \<open>N + 2\<close>.
\<close>

theorem audio_interface_config_numbers:
  "(\<exists>m'. audio_interface_config
            (pre @ DEFINE_AUDIO_DESCRIPTOR p res addr ident link it ot @ post) (length pre) N =
            Some m' \<and>
      rd8 m' (length pre + offsetof (DECLARE_DESCRIPTOR p) ''std_ac_interface'' +
              off_bInterfaceNumber) = Some N \<and>
      rd8 m' (length pre + offsetof (DECLARE_DESCRIPTOR p) ''ac_interface_header'' +
              off_baInterfaceNr) = Some (N + 1) \<and>
      rd8 m' (length pre + offsetof (DECLARE_DESCRIPTOR p) ''as_interface_alt_0'' +
              off_bInterfaceNumber) = Some (N + 1) \<and>
      rd8 m' (length pre + offsetof (DECLARE_DESCRIPTOR p) ''as_interface_alt_1'' +
              off_bInterfaceNumber) = Some (N + 1)) \<and>
   (\<exists>m'. audio_interface_config
            (pre @ DEFINE_AUDIO_DESCRIPTOR_BIDIR p res_mic addr_mic res_hp addr_hp ident @ post)
            (length pre) N = Some m' \<and>
      rd8 m' (length pre + offsetof (DECLARE_DESCRIPTOR_BIDIR p) ''std_ac_interface'' +
              off_bInterfaceNumber) = Some N \<and>
      rd8 m' (length pre + offsetof (DECLARE_DESCRIPTOR_BIDIR p) ''ac_interface_header'' +
              off_baInterfaceNr) = Some (N + 1) \<and>
      rd8 m' (length pre + offsetof (DECLARE_DESCRIPTOR_BIDIR p) ''as_interface_alt_0_0'' +
              off_bInterfaceNumber) = Some (N + 1) \<and>
      rd8 m' (length pre + offsetof (DECLARE_DESCRIPTOR_BIDIR p) ''as_interface_alt_0_1'' +
              off_bInterfaceNumber) = Some (N + 1) \<and>
      rd8 m' (length pre + offsetof (DECLARE_DESCRIPTOR_BIDIR p) ''ac_interface_header'' +
              off_baInterfaceNr + 1) = Some (N + 2) \<and>
      rd8 m' (length pre + offsetof (DECLARE_DESCRIPTOR_BIDIR p) ''as_interface_alt_1_0'' +
              off_bInterfaceNumber) = Some (N + 2) \<and>
      rd8 m' (length pre + offsetof (DECLARE_DESCRIPTOR_BIDIR p) ''as_interface_alt_1_1'' +
              off_bInterfaceNumber) = Some (N + 2))"
proof (rule conjI)
  let ?b = "length pre" and ?fl = "sizeof_feature_unit p"
  define m where "m = pre @ DEFINE_AUDIO_DESCRIPTOR p res addr ident link it ot @ post"
  from unidir_config_bytes [OF m_def, of N]
  obtain m' where run: "audio_interface_config m ?b N = Some m'"
    and len: "length m' = ?b + 91 + ?fl + length post"
    and v: "m' ! (?b + 2) = N" "m' ! (?b + 17) = N + 1" "m' ! (?b + 41 + ?fl) = N + 1"
      "m' ! (?b + 50 + ?fl) = N + 1"
    by blast
  have e: "?b + 0 + 2 = ?b + 2" "?b + 9 + 8 = ?b + 17" "?b + (39 + ?fl) + 2 = ?b + 41 + ?fl"
    "?b + (48 + ?fl) + 2 = ?b + 50 + ?fl"
    by simp_all
  have "rd8 m' (?b + 2) = Some N" "rd8 m' (?b + 17) = Some (N + 1)"
    "rd8 m' (?b + 41 + ?fl) = Some (N + 1)" "rd8 m' (?b + 50 + ?fl) = Some (N + 1)"
    using len v by (simp_all add: rd8_nth)
  then show "\<exists>m'. audio_interface_config
            (pre @ DEFINE_AUDIO_DESCRIPTOR p res addr ident link it ot @ post) (length pre) N =
            Some m' \<and>
      rd8 m' (length pre + offsetof (DECLARE_DESCRIPTOR p) ''std_ac_interface'' +
              off_bInterfaceNumber) = Some N \<and>
      rd8 m' (length pre + offsetof (DECLARE_DESCRIPTOR p) ''ac_interface_header'' +
              off_baInterfaceNr) = Some (N + 1) \<and>
      rd8 m' (length pre + offsetof (DECLARE_DESCRIPTOR p) ''as_interface_alt_0'' +
              off_bInterfaceNumber) = Some (N + 1) \<and>
      rd8 m' (length pre + offsetof (DECLARE_DESCRIPTOR p) ''as_interface_alt_1'' +
              off_bInterfaceNumber) = Some (N + 1)"
    using run
    unfolding m_def offsetof_unidir off_bInterfaceNumber_def off_baInterfaceNr_def e
    by blast
next
  let ?b = "length pre" and ?fl = "sizeof_feature_unit p"
  define m where
    "m = pre @ DEFINE_AUDIO_DESCRIPTOR_BIDIR p res_mic addr_mic res_hp addr_hp ident @ post"
  from bidir_config_bytes [OF m_def, of N]
  obtain m' where run: "audio_interface_config m ?b N = Some m'"
    and len: "length m' = ?b + 165 + 2 * ?fl + length post"
    and v: "m' ! (?b + 2) = N" "m' ! (?b + 17) = N + 1" "m' ! (?b + 18) = N + 2"
      "m' ! (?b + 63 + 2 * ?fl) = N + 1" "m' ! (?b + 72 + 2 * ?fl) = N + 1"
      "m' ! (?b + 115 + 2 * ?fl) = N + 2" "m' ! (?b + 124 + 2 * ?fl) = N + 2"
    by blast
  have e: "?b + 0 + 2 = ?b + 2" "?b + 9 + 8 = ?b + 17" "?b + 17 + 1 = ?b + 18"
    "?b + (61 + 2 * ?fl) + 2 = ?b + 63 + 2 * ?fl"
    "?b + (70 + 2 * ?fl) + 2 = ?b + 72 + 2 * ?fl"
    "?b + (113 + 2 * ?fl) + 2 = ?b + 115 + 2 * ?fl"
    "?b + (122 + 2 * ?fl) + 2 = ?b + 124 + 2 * ?fl"
    by simp_all
  have "rd8 m' (?b + 2) = Some N" "rd8 m' (?b + 17) = Some (N + 1)"
    "rd8 m' (?b + 18) = Some (N + 2)"
    "rd8 m' (?b + 63 + 2 * ?fl) = Some (N + 1)" "rd8 m' (?b + 72 + 2 * ?fl) = Some (N + 1)"
    "rd8 m' (?b + 115 + 2 * ?fl) = Some (N + 2)" "rd8 m' (?b + 124 + 2 * ?fl) = Some (N + 2)"
    using len v by (simp_all add: rd8_nth)
  then show "\<exists>m'. audio_interface_config
            (pre @ DEFINE_AUDIO_DESCRIPTOR_BIDIR p res_mic addr_mic res_hp addr_hp ident @ post)
            (length pre) N = Some m' \<and>
      rd8 m' (length pre + offsetof (DECLARE_DESCRIPTOR_BIDIR p) ''std_ac_interface'' +
              off_bInterfaceNumber) = Some N \<and>
      rd8 m' (length pre + offsetof (DECLARE_DESCRIPTOR_BIDIR p) ''ac_interface_header'' +
              off_baInterfaceNr) = Some (N + 1) \<and>
      rd8 m' (length pre + offsetof (DECLARE_DESCRIPTOR_BIDIR p) ''as_interface_alt_0_0'' +
              off_bInterfaceNumber) = Some (N + 1) \<and>
      rd8 m' (length pre + offsetof (DECLARE_DESCRIPTOR_BIDIR p) ''as_interface_alt_0_1'' +
              off_bInterfaceNumber) = Some (N + 1) \<and>
      rd8 m' (length pre + offsetof (DECLARE_DESCRIPTOR_BIDIR p) ''ac_interface_header'' +
              off_baInterfaceNr + 1) = Some (N + 2) \<and>
      rd8 m' (length pre + offsetof (DECLARE_DESCRIPTOR_BIDIR p) ''as_interface_alt_1_0'' +
              off_bInterfaceNumber) = Some (N + 2) \<and>
      rd8 m' (length pre + offsetof (DECLARE_DESCRIPTOR_BIDIR p) ''as_interface_alt_1_1'' +
              off_bInterfaceNumber) = Some (N + 2)"
    using run
    unfolding m_def offsetof_bidir off_bInterfaceNumber_def off_baInterfaceNr_def e
    by blast
qed

theorem audio_interface_config_numbers_witness:
  "\<exists>m'. audio_interface_config hs_desc 0 3 = Some m' \<and>
     rd8 m' 2 = Some 3 \<and> rd8 m' 17 = Some 4 \<and> rd8 m' 89 = Some 4 \<and> rd8 m' 98 = Some 4 \<and>
     rd8 m' 18 = Some 5 \<and> rd8 m' 141 = Some 5 \<and> rd8 m' 150 = Some 5"
proof -
  have fl: "sizeof_feature_unit hs_inst = 13" by code_simp
  have e: "(0 :: nat) + 0 + 2 = 2" "(0 :: nat) + 9 + 8 = 17" "(17 :: nat) + 1 = 18"
    "(0 :: nat) + (61 + 2 * 13) + 2 = 89" "(0 :: nat) + (70 + 2 * 13) + 2 = 98"
    "(0 :: nat) + (113 + 2 * 13) + 2 = 141" "(0 :: nat) + (122 + 2 * 13) + 2 = 150"
    "(3 :: u8) + 1 = 4" "(3 :: u8) + 2 = 5"
    by simp_all
  have l: "length ([] :: u8 list) = 0" "[] @ hs_desc @ [] = hs_desc" by simp_all
  show ?thesis
    by (rule audio_interface_config_numbers [where pre = "[]" and post = "[]" and p = hs_inst
      and res = 16 and addr = "0x81" and link = 0 and it = 0 and ot = 0 and ident = 1
      and res_mic = 16 and addr_mic = "0x81" and res_hp = 16 and addr_hp = "0x01" and N = 3,
      THEN conjunct2, folded hs_desc_def,
      unfolded offsetof_bidir fl off_bInterfaceNumber_def off_baInterfaceNr_def l e])
qed

subsection \<open>Alternate settings and the receive path\<close>

lemma this_iface_first:
  assumes "h + 8 < length m" "sf + 2 < length m" "0 < unat (m ! (h + 7))"
    "m ! (sf + 2) = m ! (h + 8)"
  shows "this_iface m h sf 0 = Some True"
proof -
  have r: "rd8 m (h + off_bInCollection) = Some (m ! (h + 7))"
    "rd8 m (sf + off_bInterfaceNumber) = Some (m ! (sf + 2))"
    "rd8 m (h + off_baInterfaceNr + 0) = Some (m ! (h + 8))"
    using assms(1,2) by (simp_all add: rd8_nth field_offs)
  show ?thesis
    by (subst this_iface.simps)
      (simp only: r Option.bind_lunit assms(3,4) if_True simp_thms)
qed

lemma this_iface_second:
  assumes "h + 8 + 1 < length m" "sf + 2 < length m" "1 < unat (m ! (h + 7))"
    "m ! (sf + 2) = m ! (h + 8 + 1)"
  shows "this_iface m h sf 0 = Some True"
proof -
  have r: "rd8 m (h + off_bInCollection) = Some (m ! (h + 7))"
    "rd8 m (sf + off_bInterfaceNumber) = Some (m ! (sf + 2))"
    "rd8 m (h + off_baInterfaceNr + 0) = Some (m ! (h + 8))"
    "rd8 m (h + off_baInterfaceNr + 1) = Some (m ! (h + 8 + 1))"
    using assms(1,2) by (simp_all add: rd8_nth field_offs)
  have z: "0 < unat (m ! (h + 7))" using assms(3) by simp
  have s1: "this_iface m h sf 1 = Some True"
    by (subst this_iface.simps)
      (simp only: r Option.bind_lunit assms(3,4) if_True simp_thms)
  show ?thesis
    by (subst this_iface.simps)
      (simp only: r Option.bind_lunit z assms(4) add_0_left s1 if_True if_cancel)
qed

lemma audio_dc_interface_out_0:
  assumes "this_iface m (header_descr d) sf 0 = Some True"
    and "sf + 38 < length m" and "m ! (sf + 38) AND 0x80 = 0" and "m ! (sf + 3) = 0"
  shows "audio_dc_interface m d sf = Some (d\<lparr>rx_enable := False\<rparr>)"
proof -
  have e: "sf + 9 + 9 + 7 + 11 + 2 = sf + 38" by simp
  have "sf + 3 < length m" using assms(2) by simp
  then have "rd8 m (sf + 3) = Some 0" by (simp only: rd8_nth assms(4))
  then have r1: "rd8 m (sf + off_bAlternateSetting) = Some 0"
    unfolding off_bAlternateSetting_def .
  have "rd8 m (sf + 9 + 9 + 7 + 11 + 2) = Some (m ! (sf + 38))"
    unfolding e using assms(2) by (rule rd8_nth)
  then have r2: "rd8 m (sf + USB_PASSIVE_IF_DESC_SIZE + USB_PASSIVE_IF_DESC_SIZE +
       USB_AC_CS_IF_DESC_SIZE + USB_FORMAT_TYPE_I_DESC_SIZE + off_bEndpointAddress) =
       Some (m ! (sf + 38))"
    unfolding desc_sizes off_bEndpointAddress_def .
  show ?thesis
    unfolding audio_dc_interface_def Let_def
    by (simp only: assms(1,3) r1 r2 Option.bind_lunit if_True if_False simp_thms)
qed

lemma audio_dc_interface_out_1:
  assumes "this_iface m (header_descr d) (a0 + 9) 0 = Some True"
    and "m ! (a0 + 12) \<noteq> 0"
    and "a0 + 38 < length m" and "m ! (a0 + 38) AND 0x80 = 0"
  shows "audio_dc_interface m d (a0 + 9) = Some (d\<lparr>rx_enable := True\<rparr>)"
proof -
  have e: "a0 + 9 + 9 + 7 + 11 + 2 = a0 + 38" "a0 + 9 + 3 = a0 + 12" by simp_all
  have "a0 + 12 < length m" using assms(3) by simp
  then have "rd8 m (a0 + 9 + 3) = Some (m ! (a0 + 12))" unfolding e by (rule rd8_nth)
  then have r1: "rd8 m (a0 + 9 + off_bAlternateSetting) = Some (m ! (a0 + 12))"
    unfolding off_bAlternateSetting_def .
  have "rd8 m (a0 + 9 + 9 + 7 + 11 + 2) = Some (m ! (a0 + 38))"
    unfolding e using assms(3) by (rule rd8_nth)
  then have r2: "rd8 m (a0 + 9 + USB_PASSIVE_IF_DESC_SIZE +
       USB_AC_CS_IF_DESC_SIZE + USB_FORMAT_TYPE_I_DESC_SIZE + off_bEndpointAddress) =
       Some (m ! (a0 + 38))"
    unfolding desc_sizes off_bEndpointAddress_def .
  show ?thesis
    unfolding audio_dc_interface_def Let_def
    by (simp only: assms(1,2,4) r1 r2 Option.bind_lunit if_True if_False simp_thms)
qed

lemma audio_receive_cbs_disabled:
  "\<not> rx_enable (dev_data s) \<Longrightarrow> audio_receive_cbs cfg s ns = Some s"
  by (induction ns) (auto simp: audio_receive_cb_def)

lemma audio_receive_cb_delivers:
  assumes "usb_get_dev_data_by_ep cfg s ep" "alloc_result env = Some buffer"
    "read_ret env = 0" "read_bytes env \<noteq> 0" "ops (dev_data s) = Some cbs"
    "data_received_cb cbs"
  shows "audio_receive_cb cfg env (s\<lparr>dev_data := (dev_data s)\<lparr>rx_enable := True\<rparr>\<rparr>) ep
            USB_DC_EP_DATA_OUT =
          Some (emit (Data_received_cb buffer (read_bytes env))
                 (emit (Usb_read ep buffer)
                   (emit Net_buf_alloc (s\<lparr>dev_data := (dev_data s)\<lparr>rx_enable := True\<rparr>\<rparr>))))"
  using assms
  by (simp add: audio_receive_cb_def usb_get_dev_data_by_ep_def emit_def Let_def)

lemma rx_gated_I:
  assumes hd: "this_iface m (header_descr (dev_data s)) a0 0 = Some True"
      "this_iface m (header_descr (dev_data s)) (a0 + 9) 0 = Some True"
    and len: "a0 + 38 < length m"
    and alt: "m ! (a0 + 3) = 0" "m ! (a0 + 12) = 1"
    and out: "m ! (a0 + 38) AND 0x80 = 0"
  shows "rx_gated m cfg s a0 (a0 + 9)"
proof (intro conjI allI impI)
  show "audio_dc_interface m (dev_data s) a0 = Some ((dev_data s)\<lparr>rx_enable := False\<rparr>)"
    using hd(1) len out alt(1) by (rule audio_dc_interface_out_0)
next
  fix ns
  show "audio_receive_cbs cfg (s\<lparr>dev_data := (dev_data s)\<lparr>rx_enable := False\<rparr>\<rparr>) ns =
      Some (s\<lparr>dev_data := (dev_data s)\<lparr>rx_enable := False\<rparr>\<rparr>)"
    by (rule audio_receive_cbs_disabled) simp
next
  let ?d = "(dev_data s)\<lparr>rx_enable := False\<rparr>"
  have "this_iface m (header_descr ?d) (a0 + 9) 0 = Some True" using hd(2) by simp
  moreover have "m ! (a0 + 12) \<noteq> 0" by (simp add: alt(2))
  ultimately have "audio_dc_interface m ?d (a0 + 9) = Some (?d\<lparr>rx_enable := True\<rparr>)"
    using len out by (rule audio_dc_interface_out_1)
  then show "audio_dc_interface m ?d (a0 + 9) = Some ((dev_data s)\<lparr>rx_enable := True\<rparr>)"
    by simp
next
  fix env :: receive_env and ep :: u8 and buffer :: net_buf and cbs :: audio_ops
  assume a: "usb_get_dev_data_by_ep cfg s ep \<and> alloc_result env = Some buffer \<and>
        read_ret env = 0 \<and> read_bytes env \<noteq> 0 \<and>
        ops (dev_data s) = Some cbs \<and> data_received_cb cbs"
  show "audio_receive_cb cfg env (s\<lparr>dev_data := (dev_data s)\<lparr>rx_enable := True\<rparr>\<rparr>) ep
            USB_DC_EP_DATA_OUT =
          Some (emit (Data_received_cb buffer (read_bytes env))
                 (emit (Usb_read ep buffer)
                   (emit Net_buf_alloc (s\<lparr>dev_data := (dev_data s)\<lparr>rx_enable := True\<rparr>\<rparr>))))"
    using a audio_receive_cb_delivers [of cfg s ep env buffer cbs] by blast
qed

text \<open>
  C2. Take a headphones function, or the headphones half of a headset function,
  with an OUT endpoint (bit 7 of the endpoint address clear), its descriptor
  anywhere in the table and configured by \<open>audio_interface_config\<close>, and the
  function's device data pointing at the header of that descriptor. A notification
  that carries alternate setting 0 of the streaming interface leaves \<open>rx_enable\<close>
  false, and then any run of inbound-data notifications returns with the state as it
  was: nothing is taken from the pool and \<open>data_received_cb\<close> is not called. A
  notification that carries alternate setting 1 of that interface sets \<open>rx_enable\<close>,
  and the next notification with data delivers the buffer to \<open>data_received_cb\<close>.
\<close>

theorem alternate_setting_gates_receive:
  assumes out: "addr AND 0x80 = 0"
    and hd: "header_descr (dev_data s) = length pre + USB_PASSIVE_IF_DESC_SIZE"
  shows
    "(\<exists>m. audio_interface_config
             (pre @ DEFINE_AUDIO_DESCRIPTOR p res addr ident link it ot @ post) (length pre) N =
             Some m \<and>
        rx_gated m cfg s
          (length pre + offsetof (DECLARE_DESCRIPTOR p) ''as_interface_alt_0'')
          (length pre + offsetof (DECLARE_DESCRIPTOR p) ''as_interface_alt_1'')) \<and>
     (\<exists>m. audio_interface_config
             (pre @ DEFINE_AUDIO_DESCRIPTOR_BIDIR p res_mic addr_mic res addr ident @ post)
             (length pre) N = Some m \<and>
        rx_gated m cfg s
          (length pre + offsetof (DECLARE_DESCRIPTOR_BIDIR p) ''as_interface_alt_1_0'')
          (length pre + offsetof (DECLARE_DESCRIPTOR_BIDIR p) ''as_interface_alt_1_1''))"
proof (rule conjI)
  let ?b = "length pre" and ?fl = "sizeof_feature_unit p"
  let ?a0 = "?b + 39 + ?fl"
  define t where "t = pre @ DEFINE_AUDIO_DESCRIPTOR p res addr ident link it ot @ post"
  from unidir_config_bytes [OF t_def, of N]
  obtain m where run: "audio_interface_config t ?b N = Some m"
    and len: "length m = ?b + 91 + ?fl + length post"
    and v: "m ! (?b + 17) = N + 1" "m ! (?b + 41 + ?fl) = N + 1" "m ! (?b + 50 + ?fl) = N + 1"
      "m ! (?b + 16) = 1" "m ! (?b + 42 + ?fl) = 0" "m ! (?b + 51 + ?fl) = 1"
      "m ! (?b + 77 + ?fl) = addr"
    by blast
  have h: "header_descr (dev_data s) = ?b + 9" using hd by (simp add: desc_sizes)
  have e: "?b + 9 + 8 = ?b + 17" "?b + 9 + 7 = ?b + 16" "?a0 + 2 = ?b + 41 + ?fl"
    "?a0 + 9 + 2 = ?b + 50 + ?fl" "?a0 + 3 = ?b + 42 + ?fl" "?a0 + 12 = ?b + 51 + ?fl"
    "?a0 + 38 = ?b + 77 + ?fl"
    by simp_all
  have e9: "?a0 + 9 = ?b + 48 + ?fl" by simp
  have l: "?b + 9 + 8 < length m" "?a0 + 2 < length m" "?a0 + 9 + 2 < length m"
    "?a0 + 38 < length m"
    by (simp_all add: len)
  have n: "0 < unat (m ! (?b + 9 + 7))" by (simp only: e v, simp)
  have i0: "m ! (?a0 + 2) = m ! (?b + 9 + 8)" by (simp only: e v)
  have i1: "m ! (?a0 + 9 + 2) = m ! (?b + 9 + 8)" by (simp only: e v)
  have "rx_gated m cfg s ?a0 (?a0 + 9)"
  proof (rule rx_gated_I)
    show "this_iface m (header_descr (dev_data s)) ?a0 0 = Some True"
      unfolding h by (rule this_iface_first [OF l(1) l(2) n i0])
    show "this_iface m (header_descr (dev_data s)) (?a0 + 9) 0 = Some True"
      unfolding h by (rule this_iface_first [OF l(1) l(3) n i1])
    show "?a0 + 38 < length m" by (rule l(4))
    show "m ! (?a0 + 3) = 0" by (simp only: e v)
    show "m ! (?a0 + 12) = 1" by (simp only: e v)
    show "m ! (?a0 + 38) AND 0x80 = 0" by (simp only: e v out)
  qed
  then have "rx_gated m cfg s (?b + 39 + ?fl) (?b + 48 + ?fl)" unfolding e9 .
  with run have "audio_interface_config t ?b N = Some m \<and>
      rx_gated m cfg s (?b + 39 + ?fl) (?b + 48 + ?fl)"
    by (rule conjI)
  then have "\<exists>m. audio_interface_config t ?b N = Some m \<and>
      rx_gated m cfg s (?b + 39 + ?fl) (?b + 48 + ?fl)"
    by (rule exI)
  then show "\<exists>m. audio_interface_config
             (pre @ DEFINE_AUDIO_DESCRIPTOR p res addr ident link it ot @ post) (length pre) N =
             Some m \<and>
        rx_gated m cfg s
          (length pre + offsetof (DECLARE_DESCRIPTOR p) ''as_interface_alt_0'')
          (length pre + offsetof (DECLARE_DESCRIPTOR p) ''as_interface_alt_1'')"
    unfolding t_def offsetof_unidir add.assoc [symmetric] .
next
  let ?b = "length pre" and ?fl = "sizeof_feature_unit p"
  let ?a0 = "?b + 113 + 2 * ?fl"
  define t where
    "t = pre @ DEFINE_AUDIO_DESCRIPTOR_BIDIR p res_mic addr_mic res addr ident @ post"
  from bidir_config_bytes [OF t_def, of N]
  obtain m where run: "audio_interface_config t ?b N = Some m"
    and len: "length m = ?b + 165 + 2 * ?fl + length post"
    and v: "m ! (?b + 17) = N + 1" "m ! (?b + 18) = N + 2"
      "m ! (?b + 115 + 2 * ?fl) = N + 2" "m ! (?b + 124 + 2 * ?fl) = N + 2"
      "m ! (?b + 16) = 2" "m ! (?b + 116 + 2 * ?fl) = 0" "m ! (?b + 125 + 2 * ?fl) = 1"
      "m ! (?b + 151 + 2 * ?fl) = addr"
    by blast
  have h: "header_descr (dev_data s) = ?b + 9" using hd by (simp add: desc_sizes)
  have e: "?b + 9 + 8 + 1 = ?b + 18" "?b + 9 + 7 = ?b + 16" "?a0 + 2 = ?b + 115 + 2 * ?fl"
    "?a0 + 9 + 2 = ?b + 124 + 2 * ?fl" "?a0 + 3 = ?b + 116 + 2 * ?fl"
    "?a0 + 12 = ?b + 125 + 2 * ?fl" "?a0 + 38 = ?b + 151 + 2 * ?fl"
    by simp_all
  have e9: "?a0 + 9 = ?b + 122 + 2 * ?fl" by simp
  have l: "?b + 9 + 8 + 1 < length m" "?a0 + 2 < length m" "?a0 + 9 + 2 < length m"
    "?a0 + 38 < length m"
    by (simp_all add: len)
  have n: "1 < unat (m ! (?b + 9 + 7))" by (simp only: e v, simp)
  have i0: "m ! (?a0 + 2) = m ! (?b + 9 + 8 + 1)" by (simp only: e v)
  have i1: "m ! (?a0 + 9 + 2) = m ! (?b + 9 + 8 + 1)" by (simp only: e v)
  have "rx_gated m cfg s ?a0 (?a0 + 9)"
  proof (rule rx_gated_I)
    show "this_iface m (header_descr (dev_data s)) ?a0 0 = Some True"
      unfolding h by (rule this_iface_second [OF l(1) l(2) n i0])
    show "this_iface m (header_descr (dev_data s)) (?a0 + 9) 0 = Some True"
      unfolding h by (rule this_iface_second [OF l(1) l(3) n i1])
    show "?a0 + 38 < length m" by (rule l(4))
    show "m ! (?a0 + 3) = 0" by (simp only: e v)
    show "m ! (?a0 + 12) = 1" by (simp only: e v)
    show "m ! (?a0 + 38) AND 0x80 = 0" by (simp only: e v out)
  qed
  then have "rx_gated m cfg s (?b + 113 + 2 * ?fl) (?b + 122 + 2 * ?fl)" unfolding e9 .
  with run have "audio_interface_config t ?b N = Some m \<and>
      rx_gated m cfg s (?b + 113 + 2 * ?fl) (?b + 122 + 2 * ?fl)"
    by (rule conjI)
  then have "\<exists>m. audio_interface_config t ?b N = Some m \<and>
      rx_gated m cfg s (?b + 113 + 2 * ?fl) (?b + 122 + 2 * ?fl)"
    by (rule exI)
  then show "\<exists>m. audio_interface_config
             (pre @ DEFINE_AUDIO_DESCRIPTOR_BIDIR p res_mic addr_mic res addr ident @ post)
             (length pre) N = Some m \<and>
        rx_gated m cfg s
          (length pre + offsetof (DECLARE_DESCRIPTOR_BIDIR p) ''as_interface_alt_1_0'')
          (length pre + offsetof (DECLARE_DESCRIPTOR_BIDIR p) ''as_interface_alt_1_1'')"
    unfolding t_def offsetof_bidir add.assoc [symmetric] .
qed

theorem alternate_setting_gates_receive_witness:
  "(0x01 :: u8) AND 0x80 = 0 \<and> header_descr (dev_data hs_state) = 9 \<and>
   audio_dc_interface hs_table (dev_data hs_state) 139 =
     Some ((dev_data hs_state)\<lparr>rx_enable := False\<rparr>) \<and>
   audio_receive_cbs hs_cfg (hs_state\<lparr>dev_data := (dev_data hs_state)\<lparr>rx_enable := False\<rparr>\<rparr>)
       [(\<lparr>alloc_result = Some hs_buf, read_ret = 0, read_bytes = 192\<rparr>, 0x01),
        (\<lparr>alloc_result = None, read_ret = 0, read_bytes = 0\<rparr>, 0x01)] =
     Some (hs_state\<lparr>dev_data := (dev_data hs_state)\<lparr>rx_enable := False\<rparr>\<rparr>) \<and>
   audio_dc_interface hs_table ((dev_data hs_state)\<lparr>rx_enable := False\<rparr>) 148 =
     Some ((dev_data hs_state)\<lparr>rx_enable := True\<rparr>) \<and>
   audio_receive_cb hs_cfg \<lparr>alloc_result = Some hs_buf, read_ret = 0, read_bytes = 192\<rparr>
       (hs_state\<lparr>dev_data := (dev_data hs_state)\<lparr>rx_enable := True\<rparr>\<rparr>) 0x01
       USB_DC_EP_DATA_OUT =
     Some (emit (Data_received_cb hs_buf 192)
            (emit (Usb_read 0x01 hs_buf)
              (emit Net_buf_alloc
                (hs_state\<lparr>dev_data := (dev_data hs_state)\<lparr>rx_enable := True\<rparr>\<rparr>)))) \<and>
   (\<exists>m. audio_interface_config hp_desc 0 3 = Some m \<and>
      audio_dc_interface m (dev_data hs_state) 52 =
        Some ((dev_data hs_state)\<lparr>rx_enable := False\<rparr>) \<and>
      audio_dc_interface m ((dev_data hs_state)\<lparr>rx_enable := False\<rparr>) 61 =
        Some ((dev_data hs_state)\<lparr>rx_enable := True\<rparr>))"
proof -
  let ?env = "\<lparr>alloc_result = Some hs_buf, read_ret = 0, read_bytes = 192\<rparr>"
  have out: "(0x01 :: u8) AND 0x80 = 0" by simp
  have hd9: "header_descr (dev_data hs_state) = 9" by code_simp
  have hd: "header_descr (dev_data hs_state) = length ([] :: u8 list) + USB_PASSIVE_IF_DESC_SIZE"
    by (simp add: hd9 desc_sizes)
  have fl: "sizeof_feature_unit hs_inst = 13" by code_simp
  have o: "0 + offsetof (DECLARE_DESCRIPTOR_BIDIR hs_inst) ''as_interface_alt_1_0'' = 139"
    "0 + offsetof (DECLARE_DESCRIPTOR_BIDIR hs_inst) ''as_interface_alt_1_1'' = 148"
    "0 + offsetof (DECLARE_DESCRIPTOR hs_inst) ''as_interface_alt_0'' = 52"
    "0 + offsetof (DECLARE_DESCRIPTOR hs_inst) ''as_interface_alt_1'' = 61"
    by (simp_all add: offsetof_bidir offsetof_unidir fl)
  have t: "[] @ DEFINE_AUDIO_DESCRIPTOR_BIDIR hs_inst 16 0x81 16 0x01 1 @ [] = hs_desc"
    "[] @ DEFINE_AUDIO_DESCRIPTOR hs_inst 16 0x01 1 1 USB_STREAMING OUT_HEADPHONES @ [] = hp_desc"
    by (simp_all add: hs_desc_def hp_desc_def HP_ID_def HP_LINK_def)
  note g = alternate_setting_gates_receive [where pre = "[]" and post = "[]" and p = hs_inst
      and res = 16 and addr = "0x01" and ident = 1 and link = 1 and it = USB_STREAMING
      and ot = OUT_HEADPHONES and res_mic = 16 and addr_mic = "0x81" and N = 3
      and s = hs_state and cfg = hs_cfg, OF out hd, unfolded t list.size, unfolded o]
  from g [THEN conjunct2] obtain m where run: "audio_interface_config hs_desc 0 3 = Some m"
    and a: "audio_dc_interface m (dev_data hs_state) 139 =
        Some ((dev_data hs_state)\<lparr>rx_enable := False\<rparr>)"
    and b: "\<And>ns. audio_receive_cbs hs_cfg
        (hs_state\<lparr>dev_data := (dev_data hs_state)\<lparr>rx_enable := False\<rparr>\<rparr>) ns =
        Some (hs_state\<lparr>dev_data := (dev_data hs_state)\<lparr>rx_enable := False\<rparr>\<rparr>)"
    and c: "audio_dc_interface m ((dev_data hs_state)\<lparr>rx_enable := False\<rparr>) 148 =
        Some ((dev_data hs_state)\<lparr>rx_enable := True\<rparr>)"
    and d: "\<And>env ep buffer cbs.
        usb_get_dev_data_by_ep hs_cfg hs_state ep \<and> alloc_result env = Some buffer \<and>
        read_ret env = 0 \<and> read_bytes env \<noteq> 0 \<and>
        ops (dev_data hs_state) = Some cbs \<and> data_received_cb cbs \<Longrightarrow>
        audio_receive_cb hs_cfg env
            (hs_state\<lparr>dev_data := (dev_data hs_state)\<lparr>rx_enable := True\<rparr>\<rparr>) ep
            USB_DC_EP_DATA_OUT =
          Some (emit (Data_received_cb buffer (read_bytes env))
                 (emit (Usb_read ep buffer)
                   (emit Net_buf_alloc
                     (hs_state\<lparr>dev_data := (dev_data hs_state)\<lparr>rx_enable := True\<rparr>\<rparr>))))"
    by (elim exE conjE) simp
  have tab: "hs_table = m" using run by (simp add: hs_table_def)
  have pre: "usb_get_dev_data_by_ep hs_cfg hs_state 0x01 \<and> alloc_result ?env = Some hs_buf \<and>
      read_ret ?env = 0 \<and> read_bytes ?env \<noteq> 0 \<and>
      ops (dev_data hs_state) = Some hs_ops \<and> data_received_cb hs_ops"
    by code_simp
  have del: "audio_receive_cb hs_cfg ?env
       (hs_state\<lparr>dev_data := (dev_data hs_state)\<lparr>rx_enable := True\<rparr>\<rparr>) 0x01
       USB_DC_EP_DATA_OUT =
     Some (emit (Data_received_cb hs_buf 192)
            (emit (Usb_read 0x01 hs_buf)
              (emit Net_buf_alloc
                (hs_state\<lparr>dev_data := (dev_data hs_state)\<lparr>rx_enable := True\<rparr>\<rparr>))))"
    using d [OF pre] by simp
  from g [THEN conjunct1] obtain m0 where hp: "audio_interface_config hp_desc 0 3 = Some m0 \<and>
      audio_dc_interface m0 (dev_data hs_state) 52 =
        Some ((dev_data hs_state)\<lparr>rx_enable := False\<rparr>) \<and>
      audio_dc_interface m0 ((dev_data hs_state)\<lparr>rx_enable := False\<rparr>) 61 =
        Some ((dev_data hs_state)\<lparr>rx_enable := True\<rparr>)"
    by (elim exE conjE) simp
  then have hp': "\<exists>m. audio_interface_config hp_desc 0 3 = Some m \<and>
      audio_dc_interface m (dev_data hs_state) 52 =
        Some ((dev_data hs_state)\<lparr>rx_enable := False\<rparr>) \<and>
      audio_dc_interface m ((dev_data hs_state)\<lparr>rx_enable := False\<rparr>) 61 =
        Some ((dev_data hs_state)\<lparr>rx_enable := True\<rparr>)"
    by (rule exI)
  show ?thesis
    unfolding tab
    by (intro conjI out hd9 a b c del hp')
qed

end
